theory Spec2Isabelle
  imports Complex_Main
begin

section \<open>JavaScript numbers and values\<close>

text \<open>
  The screener is written in JavaScript. A number is modelled as \<open>jsnum\<close>: a finite
  value is an exact real (the rounding error and the overflow of IEEE doubles and the
  sign of zero are not modelled; a zero divisor is taken as +0), and the three special
  values that a division by zero produces are explicit. A value that may also be
  \<open>null\<close> or \<open>undefined\<close> is a \<open>jsval\<close>.
\<close>

datatype jsnum = Fin real | PInf | NInf | NaN

datatype jsval = Undefined | Null | Num jsnum

datatype error = RangeError | TypeError

fun js_neg :: "jsnum \<Rightarrow> jsnum" where
  "js_neg (Fin a) = Fin (- a)"
| "js_neg PInf = NInf"
| "js_neg NInf = PInf"
| "js_neg NaN = NaN"

fun js_add :: "jsnum \<Rightarrow> jsnum \<Rightarrow> jsnum" where
  "js_add (Fin a) (Fin b) = Fin (a + b)"
| "js_add NaN _ = NaN"
| "js_add _ NaN = NaN"
| "js_add PInf NInf = NaN"
| "js_add NInf PInf = NaN"
| "js_add PInf _ = PInf"
| "js_add _ PInf = PInf"
| "js_add NInf _ = NInf"
| "js_add _ NInf = NInf"

definition js_sub :: "jsnum \<Rightarrow> jsnum \<Rightarrow> jsnum" where
  "js_sub a b = js_add a (js_neg b)"

fun js_mul :: "jsnum \<Rightarrow> jsnum \<Rightarrow> jsnum" where
  "js_mul (Fin a) (Fin b) = Fin (a * b)"
| "js_mul NaN _ = NaN"
| "js_mul _ NaN = NaN"
| "js_mul (Fin a) PInf = (if a = 0 then NaN else if 0 < a then PInf else NInf)"
| "js_mul (Fin a) NInf = (if a = 0 then NaN else if 0 < a then NInf else PInf)"
| "js_mul PInf (Fin b) = (if b = 0 then NaN else if 0 < b then PInf else NInf)"
| "js_mul NInf (Fin b) = (if b = 0 then NaN else if 0 < b then NInf else PInf)"
| "js_mul PInf PInf = PInf"
| "js_mul PInf NInf = NInf"
| "js_mul NInf PInf = NInf"
| "js_mul NInf NInf = PInf"

fun js_div :: "jsnum \<Rightarrow> jsnum \<Rightarrow> jsnum" where
  "js_div (Fin a) (Fin b) =
     (if b \<noteq> 0 then Fin (a / b)
      else if a = 0 then NaN else if 0 < a then PInf else NInf)"
| "js_div NaN _ = NaN"
| "js_div _ NaN = NaN"
| "js_div (Fin a) PInf = Fin 0"
| "js_div (Fin a) NInf = Fin 0"
| "js_div PInf (Fin b) = (if 0 \<le> b then PInf else NInf)"
| "js_div NInf (Fin b) = (if 0 \<le> b then NInf else PInf)"
| "js_div PInf PInf = NaN"
| "js_div PInf NInf = NaN"
| "js_div NInf PInf = NaN"
| "js_div NInf NInf = NaN"

fun js_lt :: "jsnum \<Rightarrow> jsnum \<Rightarrow> bool" where
  "js_lt (Fin a) (Fin b) = (a < b)"
| "js_lt NaN _ = False"
| "js_lt _ NaN = False"
| "js_lt PInf _ = False"
| "js_lt _ NInf = False"
| "js_lt NInf _ = True"
| "js_lt _ PInf = True"

fun js_le :: "jsnum \<Rightarrow> jsnum \<Rightarrow> bool" where
  "js_le (Fin a) (Fin b) = (a \<le> b)"
| "js_le NaN _ = False"
| "js_le _ NaN = False"
| "js_le NInf _ = True"
| "js_le _ PInf = True"
| "js_le PInf _ = False"
| "js_le _ NInf = False"

definition js_gt :: "jsnum \<Rightarrow> jsnum \<Rightarrow> bool" where
  "js_gt a b = js_lt b a"

definition js_ge :: "jsnum \<Rightarrow> jsnum \<Rightarrow> bool" where
  "js_ge a b = js_le b a"

fun js_abs :: "jsnum \<Rightarrow> jsnum" where
  "js_abs (Fin a) = Fin \<bar>a\<bar>"
| "js_abs PInf = PInf"
| "js_abs NInf = PInf"
| "js_abs NaN = NaN"

text \<open>\<open>Math.max\<close> and \<open>Math.min\<close> of two numbers: \<open>NaN\<close> if either is.\<close>

definition js_max2 :: "jsnum \<Rightarrow> jsnum \<Rightarrow> jsnum" where
  "js_max2 a b = (if a = NaN \<or> b = NaN then NaN else if js_lt a b then b else a)"

definition js_min2 :: "jsnum \<Rightarrow> jsnum \<Rightarrow> jsnum" where
  "js_min2 a b = (if a = NaN \<or> b = NaN then NaN else if js_lt b a then b else a)"

text \<open>\<open>Math.max(...xs)\<close> starts from \<open>-Infinity\<close>, \<open>Math.min(...xs)\<close> from \<open>Infinity\<close>.\<close>

definition js_max_list :: "jsnum list \<Rightarrow> jsnum" where
  "js_max_list xs = foldl js_max2 NInf xs"

definition js_min_list :: "jsnum list \<Rightarrow> jsnum" where
  "js_min_list xs = foldl js_min2 PInf xs"

text \<open>\<open>Math.round\<close> rounds to the nearest integer, a half upwards.\<close>

fun js_round :: "jsnum \<Rightarrow> jsnum" where
  "js_round (Fin a) = Fin (of_int \<lfloor>a + 1 / 2\<rfloor>)"
| "js_round PInf = PInf"
| "js_round NInf = NInf"
| "js_round NaN = NaN"

fun js_sqrt :: "jsnum \<Rightarrow> jsnum" where
  "js_sqrt (Fin a) = (if a < 0 then NaN else Fin (sqrt a))"
| "js_sqrt PInf = PInf"
| "js_sqrt NInf = NaN"
| "js_sqrt NaN = NaN"

text \<open>Conversion to a number in arithmetic and comparisons: \<open>null\<close> is 0,
  \<open>undefined\<close> is \<open>NaN\<close>.\<close>

fun to_num :: "jsval \<Rightarrow> jsnum" where
  "to_num Undefined = NaN"
| "to_num Null = Fin 0"
| "to_num (Num x) = x"

text \<open>Truthiness of a value: \<open>undefined\<close>, \<open>null\<close>, 0 and \<open>NaN\<close> are falsy.\<close>

fun truthy :: "jsval \<Rightarrow> bool" where
  "truthy Undefined = False"
| "truthy Null = False"
| "truthy (Num x) = (x \<noteq> Fin 0 \<and> x \<noteq> NaN)"

text \<open>\<open>a || b\<close> on values.\<close>

definition js_or :: "jsval \<Rightarrow> jsval \<Rightarrow> jsval" where
  "js_or a b = (if truthy a then a else b)"

text \<open>Reading an array at an index: out of range gives \<open>undefined\<close>.\<close>

definition val_at :: "jsval list \<Rightarrow> int \<Rightarrow> jsval" where
  "val_at xs i = (if 0 \<le> i \<and> i < int (length xs) then xs ! nat i else Undefined)"

definition num_at :: "jsnum list \<Rightarrow> int \<Rightarrow> jsval" where
  "num_at xs i = (if 0 \<le> i \<and> i < int (length xs) then Num (xs ! nat i) else Undefined)"

text \<open>\<open>arr.reduce((sum, value) => sum + value, 0)\<close>.\<close>

definition js_sum :: "jsnum list \<Rightarrow> jsnum" where
  "js_sum xs = foldl js_add (Fin 0) xs"

section \<open>Technical indicators\<close>

text \<open>
  A period is a non-negative integer. A series is a list of values, each \<open>null\<close>
  or a number.
\<close>

subsection \<open>calculateSMA\<close>

definition calculateSMA :: "jsnum list \<Rightarrow> nat \<Rightarrow> jsval list" where
  "calculateSMA data period =
     (if length data < period then replicate (length data) Null
      else map (\<lambda>i.
             if int i < int period - 1 then Null
             else Num (js_div
                    (foldl (\<lambda>sum j. js_add sum (to_num (num_at data (int i - int j))))
                       (Fin 0) [0..<period])
                    (Fin (real period))))
           [0..<length data])"

subsection \<open>calculateEMA\<close>

fun ema_loop :: "jsnum \<Rightarrow> jsnum \<Rightarrow> jsnum list \<Rightarrow> jsval list" where
  "ema_loop multiplier ema [] = []"
| "ema_loop multiplier ema (x # rest) =
     (let ema' = js_add (js_mul (js_sub x ema) multiplier) ema
      in Num ema' # ema_loop multiplier ema' rest)"

text \<open>With \<open>period = 0\<close> the source evaluates \<open>Array(period - 1)\<close>, which throws a
  \<open>RangeError\<close>.\<close>

definition calculateEMA :: "jsnum list \<Rightarrow> nat \<Rightarrow> error + jsval list" where
  "calculateEMA data period =
     (let multiplier = js_div (Fin 2) (Fin (real period + 1)) in
      if length data < period then Inr (replicate (length data) Null)
      else
        let ema = js_div (js_sum (take period data)) (Fin (real period)) in
        if period = 0 then Inl RangeError
        else Inr (replicate (period - 1) Null @ [Num ema]
                  @ ema_loop multiplier ema (drop period data)))"

subsection \<open>calculateRSI\<close>

text \<open>
  The averages of gains and losses are exact reals here. The source computes them in
  binary64, where each step rounds and a small average can underflow to 0 (and then takes
  the floor 0.001 below); an equality between the RSI values of two different series is
  therefore a statement about this model only, and no theorem below states one.
\<close>

definition price_changes :: "jsnum list \<Rightarrow> jsnum list" where
  "price_changes data =
     map (\<lambda>i. if i = 0 then Fin 0 else js_sub (data ! i) (to_num (num_at data (int i - 1))))
       [0..<length data]"

definition rsi_step_sum :: "jsnum list \<Rightarrow> jsnum \<times> jsnum \<Rightarrow> nat \<Rightarrow> jsnum \<times> jsnum" where
  "rsi_step_sum changes acc i =
     (let change = to_num (num_at changes (int i)) in
      if js_gt change (Fin 0) then (js_add (fst acc) change, snd acc)
      else (fst acc, js_add (snd acc) (js_abs change)))"

definition rsi_value :: "jsnum \<Rightarrow> jsnum \<Rightarrow> jsnum" where
  "rsi_value avgGain avgLoss =
     (let rs = js_div avgGain (if avgLoss = Fin 0 then Fin (1 / 1000) else avgLoss)
      in js_sub (Fin 100) (js_div (Fin 100) (js_add (Fin 1) rs)))"

fun rsi_loop :: "nat \<Rightarrow> jsnum \<Rightarrow> jsnum \<Rightarrow> jsnum list \<Rightarrow> jsval list" where
  "rsi_loop period avgGain avgLoss [] = []"
| "rsi_loop period avgGain avgLoss (change # rest) =
     (let currentGain = (if js_gt change (Fin 0) then change else Fin 0);
          currentLoss = (if js_lt change (Fin 0) then js_abs change else Fin 0);
          avgGain' = js_div (js_add (js_mul avgGain (Fin (real period - 1))) currentGain)
                       (Fin (real period));
          avgLoss' = js_div (js_add (js_mul avgLoss (Fin (real period - 1))) currentLoss)
                       (Fin (real period))
      in Num (rsi_value avgGain' avgLoss') # rsi_loop period avgGain' avgLoss' rest)"

definition calculateRSI :: "jsnum list \<Rightarrow> nat \<Rightarrow> jsval list" where
  "calculateRSI data period =
     (if length data < period + 1 then replicate (length data) Null
      else
        let changes = price_changes data;
            gl = foldl (rsi_step_sum changes) (Fin 0, Fin 0) [1..<period + 1];
            avgGain = js_div (fst gl) (Fin (real period));
            avgLoss = js_div (snd gl) (Fin (real period))
        in replicate period Null @ [Num (rsi_value avgGain avgLoss)]
           @ rsi_loop period avgGain avgLoss (drop (period + 1) changes))"

subsection \<open>calculateATR\<close>

definition true_ranges :: "jsnum list \<Rightarrow> jsnum list \<Rightarrow> jsnum list \<Rightarrow> jsnum list" where
  "true_ranges highData lowData closeData =
     js_sub (to_num (num_at highData 0)) (to_num (num_at lowData 0))
     # map (\<lambda>i.
         let tr1 = js_sub (highData ! i) (to_num (num_at lowData (int i)));
             tr2 = js_abs (js_sub (highData ! i) (to_num (num_at closeData (int i - 1))));
             tr3 = js_abs (js_sub (to_num (num_at lowData (int i)))
                                  (to_num (num_at closeData (int i - 1))))
         in js_max_list [tr1, tr2, tr3])
       [1..<length highData]"

fun atr_loop :: "nat \<Rightarrow> jsnum \<Rightarrow> jsnum list \<Rightarrow> jsval list" where
  "atr_loop period atr [] = []"
| "atr_loop period atr (tr # rest) =
     (let atr' = js_div (js_add (js_mul atr (Fin (real period - 1))) tr) (Fin (real period))
      in Num atr' # atr_loop period atr' rest)"

text \<open>The source first pushes \<open>period\<close> nulls, whatever the length of the input, and
  then overwrites index \<open>period - 1\<close> (for \<open>period = 0\<close> the assignment to index -1
  adds no array element).\<close>

definition calculateATR :: "jsnum list \<Rightarrow> jsnum list \<Rightarrow> jsnum list \<Rightarrow> nat \<Rightarrow> jsval list" where
  "calculateATR highData lowData closeData period =
     (if length highData < 2 \<or> length highData \<noteq> length lowData
         \<or> length lowData \<noteq> length closeData
      then replicate (length highData) Null
      else
        let trueRanges = true_ranges highData lowData closeData;
            results = replicate period Null
        in if period \<le> length trueRanges
           then
             let atr = js_div (js_sum (take period trueRanges)) (Fin (real period))
             in (if period = 0 then results else results[period - 1 := Num atr])
                @ atr_loop period atr (drop period trueRanges)
           else results)"

subsection \<open>calculateBollingerBands\<close>

record bb_point =
  upper :: jsval
  middle :: jsval
  lower :: jsval
  width :: jsval
  percent :: jsval

definition bb_null :: bb_point where
  "bb_null = \<lparr>upper = Null, middle = Null, lower = Null, width = Null, percent = Null\<rparr>"

definition calculateBollingerBands :: "jsnum list \<Rightarrow> nat \<Rightarrow> jsnum \<Rightarrow> bb_point list" where
  "calculateBollingerBands data period standardDeviations =
     (if length data < period then replicate (length data) bb_null
      else
        let sma = calculateSMA data period in
        map (\<lambda>i.
          if int i < int period - 1 then bb_null
          else
            let m = to_num (val_at sma (int i));
                sum = foldl (\<lambda>sum j.
                        let d = js_sub (to_num (num_at data (int i - int j))) m
                        in js_add sum (js_mul d d))
                      (Fin 0) [0..<period];
                stdDev = js_sqrt (js_div sum (Fin (real period)));
                up = js_add m (js_mul standardDeviations stdDev);
                lo = js_sub m (js_mul standardDeviations stdDev);
                w = js_div (js_sub up lo) m;
                pc = (if truthy (Num (data ! i))
                      then Num (js_div (js_sub (data ! i) lo) (js_sub up lo)) else Null)
            in \<lparr>upper = Num up, middle = val_at sma (int i), lower = Num lo,
                width = Num w, percent = pc\<rparr>)
          [0..<length data])"

subsection \<open>calculateOBV\<close>

fun obv_loop :: "jsnum list \<Rightarrow> jsnum list \<Rightarrow> jsnum \<Rightarrow> nat \<Rightarrow> nat \<Rightarrow> jsval list" where
  "obv_loop closeData volumeData obv i 0 = []"
| "obv_loop closeData volumeData obv i (Suc n) =
     (let c = to_num (num_at closeData (int i));
          p = to_num (num_at closeData (int i - 1));
          v = to_num (num_at volumeData (int i));
          obv' = (if js_gt c p then js_add obv v
                  else if js_lt c p then js_sub obv v else obv)
      in Num obv' # obv_loop closeData volumeData obv' (Suc i) n)"

text \<open>The loop runs \<open>i\<close> from 1 to \<open>closeData.length - 1\<close>; the last argument of
  \<open>obv_loop\<close> counts the iterations that remain.\<close>

definition calculateOBV :: "jsnum list \<Rightarrow> jsnum list \<Rightarrow> jsval list" where
  "calculateOBV closeData volumeData =
     (if length closeData \<noteq> length volumeData \<or> length closeData = 0
      then replicate (length closeData) Null
      else
        let obv = to_num (num_at volumeData 0)
        in Num obv # obv_loop closeData volumeData obv 1 (length closeData - 1))"

subsection \<open>calculateMACD\<close>

record macd_point =
  macd :: jsval
  signal :: jsval
  histogram :: jsval

definition macd_null :: macd_point where
  "macd_null = \<lparr>macd = Null, signal = Null, histogram = Null\<rparr>"

definition calculateMACD ::
  "jsnum list \<Rightarrow> nat \<Rightarrow> nat \<Rightarrow> nat \<Rightarrow> error + macd_point list" where
  "calculateMACD data fastPeriod slowPeriod signalPeriod =
     (if length data < max fastPeriod slowPeriod + signalPeriod
      then Inr (replicate (length data) macd_null)
      else
        case calculateEMA data fastPeriod of Inl e \<Rightarrow> Inl e | Inr fastEMA \<Rightarrow>
        case calculateEMA data slowPeriod of Inl e \<Rightarrow> Inl e | Inr slowEMA \<Rightarrow>
        let macdLine = map (\<lambda>i.
              if fastEMA ! i = Null \<or> val_at slowEMA (int i) = Null then Null
              else Num (js_sub (to_num (fastEMA ! i)) (to_num (val_at slowEMA (int i)))))
              [0..<length fastEMA];
            validMacdValues = map to_num (filter (\<lambda>v. v \<noteq> Null) macdLine)
        in
        case (if signalPeriod \<le> length validMacdValues
              then (case calculateEMA validMacdValues signalPeriod of
                      Inl e \<Rightarrow> Inl e
                    | Inr s \<Rightarrow>
                        Inr (replicate (length macdLine - length validMacdValues) Null @ s))
              else Inr (replicate (length macdLine) Null))
        of Inl e \<Rightarrow> Inl e | Inr signalLine \<Rightarrow>
        Inr (map (\<lambda>i.
               if macdLine ! i = Null \<or> val_at signalLine (int i) = Null then macd_null
               else \<lparr>macd = macdLine ! i, signal = val_at signalLine (int i),
                     histogram = Num (js_sub (to_num (macdLine ! i))
                                             (to_num (val_at signalLine (int i))))\<rparr>)
             [0..<length macdLine]))"

subsection \<open>Detectors\<close>

text \<open>\<open>arr.slice(k)\<close>: the start is truncated towards zero; a negative start counts
  from the end. \<open>arr.slice(a, b)\<close> is used by the source with \<open>0 \<le> a \<le> b\<close> only.\<close>

definition js_trunc :: "real \<Rightarrow> int" where
  "js_trunc r = (if r < 0 then \<lceil>r\<rceil> else \<lfloor>r\<rfloor>)"

definition slice_from :: "'a list \<Rightarrow> int \<Rightarrow> 'a list" where
  "slice_from xs k = (if k < 0 then drop (nat (int (length xs) + k)) xs else drop (nat k) xs)"

definition slice :: "'a list \<Rightarrow> nat \<Rightarrow> nat \<Rightarrow> 'a list" where
  "slice xs a b = take (b - a) (drop a xs)"

definition isPriceConsolidating :: "jsnum list \<Rightarrow> real \<Rightarrow> real \<Rightarrow> bool" where
  "isPriceConsolidating data period threshold =
     (if real (length data) < period then False
      else
        let recentData = slice_from data (js_trunc (- period));
            mx = js_max_list recentData;
            mn = js_min_list recentData;
            range = js_div (js_sub mx mn) mx
        in js_le range (Fin threshold))"

definition isVolumeIncreasing :: "jsnum list \<Rightarrow> real \<Rightarrow> bool" where
  "isVolumeIncreasing volumeData threshold =
     (if length volumeData < 2 then False
      else
        let currentVolume = to_num (num_at volumeData (int (length volumeData) - 1));
            previousVolume = to_num (num_at volumeData (int (length volumeData) - 2))
        in js_gt (js_div (js_sub currentVolume previousVolume) previousVolume) (Fin threshold))"

text \<open>Reading \<open>.upper\<close> of an element that does not exist throws a \<open>TypeError\<close>.\<close>

definition bb_upper_at :: "bb_point list \<Rightarrow> int \<Rightarrow> error + jsval" where
  "bb_upper_at xs i =
     (if 0 \<le> i \<and> i < int (length xs) then Inr (upper (xs ! nat i)) else Inl TypeError)"

definition detectBollingerBreakout :: "jsnum list \<Rightarrow> bb_point list \<Rightarrow> nat \<Rightarrow> error + bool" where
  "detectBollingerBreakout priceData bbData lookbackPeriod =
     (if length priceData < lookbackPeriod \<or> length bbData < lookbackPeriod then Inr False
      else
        let recentPrices = slice_from priceData (- int lookbackPeriod);
            recentBB = slice_from bbData (- int lookbackPeriod)
        in
        case bb_upper_at recentBB (int (length recentBB) - 2) of Inl e \<Rightarrow> Inl e | Inr u2 \<Rightarrow>
        if js_le (to_num (num_at recentPrices (int (length recentPrices) - 2))) (to_num u2)
        then (case bb_upper_at recentBB (int (length recentBB) - 1) of Inl e \<Rightarrow> Inl e
              | Inr u1 \<Rightarrow>
                  Inr (js_gt (to_num (num_at recentPrices (int (length recentPrices) - 1)))
                         (to_num u1)))
        else Inr False)"

text \<open>The scan for two local lows: \<open>i\<close> runs from 5 while \<open>i < length - 5\<close> and
  stops at the second low. The result is the pair of indices, -1 for one not found.\<close>

function low_scan :: "jsnum list \<Rightarrow> nat \<Rightarrow> int \<Rightarrow> int \<times> int" where
  "low_scan recentPrices i firstPriceLowIndex =
     (if int i < int (length recentPrices) - 5 then
        (let current = to_num (num_at recentPrices (int i));
             previousFive = slice recentPrices (i - 5) i;
             nextFive = slice recentPrices (i + 1) (i + 6)
         in if js_le current (js_min_list (previousFive @ nextFive))
            then (if firstPriceLowIndex = - 1 then low_scan recentPrices (Suc i) (int i)
                  else (firstPriceLowIndex, int i))
            else low_scan recentPrices (Suc i) firstPriceLowIndex)
      else (firstPriceLowIndex, - 1))"
  by pat_completeness auto
termination
  by (relation "measure (\<lambda>(xs, i, f). length xs - i)") auto

definition detectPositiveRSIDivergence :: "jsnum list \<Rightarrow> jsval list \<Rightarrow> nat \<Rightarrow> bool" where
  "detectPositiveRSIDivergence priceData rsiData lookbackPeriod =
     (if length priceData < lookbackPeriod \<or> length rsiData < lookbackPeriod then False
      else
        let recentPrices = slice_from priceData (- int lookbackPeriod);
            recentRSI = slice_from rsiData (- int lookbackPeriod);
            lows = low_scan recentPrices 5 (- 1);
            firstPriceLowIndex = fst lows;
            secondPriceLowIndex = snd lows
        in if firstPriceLowIndex = - 1 \<or> secondPriceLowIndex = - 1 then False
           else
             let firstPriceLow = to_num (num_at recentPrices firstPriceLowIndex);
                 secondPriceLow = to_num (num_at recentPrices secondPriceLowIndex);
                 firstRSILow = to_num (val_at recentRSI firstPriceLowIndex);
                 secondRSILow = to_num (val_at recentRSI secondPriceLowIndex)
             in js_lt secondPriceLow firstPriceLow \<and> js_gt secondRSILow firstRSILow)"

section \<open>Breakout analysis\<close>

text \<open>A candle of the market-data provider; its numbers are finite. The time stamp
  is kept as an integer.\<close>

record candle =
  time :: int
  "open" :: real
  high :: real
  low :: real
  close :: real
  volume :: real

text \<open>
  The options object: a field that is absent is \<open>None\<close>. The thresholds and the
  consolidation period are arbitrary finite numbers (the optimizer produces
  fractional periods); the other periods are non-negative integers.
  \<open>opt_or v d\<close> is the source's \<open>options.field || d\<close>: an absent field and a zero both
  give the default.
\<close>

record options =
  consolidationPeriod :: "real option"
  consolidationThreshold :: "real option"
  rsiLowerThreshold :: "real option"
  rsiUpperThreshold :: "real option"
  volumeIncreaseThreshold :: "real option"
  minBreakoutPercent :: "real option"
  maxBreakoutPercent :: "real option"
  bollingerPeriod :: "nat option"
  atrPeriod :: "nat option"
  lookbackPeriod :: "nat option"
  ema200Required :: "bool option"

definition opt_or :: "'a::zero option \<Rightarrow> 'a \<Rightarrow> 'a" where
  "opt_or v d = (case v of None \<Rightarrow> d | Some x \<Rightarrow> if x = 0 then d else x)"

record config =
  cfg_consolidationPeriod :: real
  cfg_consolidationThreshold :: real
  cfg_rsiLowerThreshold :: real
  cfg_rsiUpperThreshold :: real
  cfg_volumeIncreaseThreshold :: real
  cfg_minBreakoutPercent :: real
  cfg_maxBreakoutPercent :: real
  cfg_bollingerPeriod :: nat
  cfg_atrPeriod :: nat
  cfg_lookbackPeriod :: nat
  cfg_ema200Required :: bool

definition analyze_config :: "options \<Rightarrow> config" where
  "analyze_config opts =
     \<lparr>cfg_consolidationPeriod = opt_or (consolidationPeriod opts) 6,
      cfg_consolidationThreshold = opt_or (consolidationThreshold opts) (15 / 100),
      cfg_rsiLowerThreshold = opt_or (rsiLowerThreshold opts) 50,
      cfg_rsiUpperThreshold = opt_or (rsiUpperThreshold opts) 75,
      cfg_volumeIncreaseThreshold = opt_or (volumeIncreaseThreshold opts) (10 / 100),
      cfg_minBreakoutPercent = opt_or (minBreakoutPercent opts) (1 / 100),
      cfg_maxBreakoutPercent = opt_or (maxBreakoutPercent opts) (20 / 100),
      cfg_bollingerPeriod = opt_or (bollingerPeriod opts) 20,
      cfg_atrPeriod = opt_or (atrPeriod opts) 14,
      cfg_lookbackPeriod = opt_or (lookbackPeriod opts) 20,
      cfg_ema200Required = (case ema200Required opts of None \<Rightarrow> True | Some b \<Rightarrow> b)\<rparr>"

record metrics =
  m_rsi :: jsval
  m_bollingerWidth :: jsval
  m_bollingerPercent :: jsval
  m_atr :: jsval
  m_aboveEma200 :: "bool option"
  m_priceChangePercent :: jsnum
  m_volumeChangePercent :: jsnum

record analysis =
  isBreakoutCandidate :: bool
  breakoutScore :: nat
  signals :: "string list"
  metrics :: metrics
  profitPotential :: string
  riskLevel :: string
  suggestedStopLoss :: jsval
  suggestedTakeProfit :: jsval

text \<open>\<open>if (cond) { score += points; results.signals.push(label) }\<close> on the pair of
  the running score and the signal list.\<close>

definition add_signal :: "bool \<Rightarrow> nat \<Rightarrow> string \<Rightarrow> nat \<times> string list \<Rightarrow> nat \<times> string list" where
  "add_signal cond points label st =
     (if cond then (fst st + points, snd st @ [label]) else st)"

definition calculateProfitPotential ::
  "jsnum list \<Rightarrow> jsval list \<Rightarrow> bb_point list \<Rightarrow> nat \<Rightarrow> string" where
  "calculateProfitPotential closeData atrData bbData score =
     (if length closeData < 20 \<or> val_at atrData (int (length atrData) - 1) = Null
      then ''Unknown''
      else
        let currentPrice = to_num (num_at closeData (int (length closeData) - 1));
            currentATR = to_num (val_at atrData (int (length atrData) - 1));
            atrPercentage = js_mul (js_div currentATR currentPrice) (Fin 100)
        in if js_gt atrPercentage (Fin 5) \<and> score > 85 then ''Very High''
           else if js_gt atrPercentage (Fin 3) \<and> score > 75 then ''High''
           else if js_gt atrPercentage (Fin 2) \<and> score > 65 then ''Medium''
           else ''Low'')"

definition calculateRiskLevel :: "jsnum list \<Rightarrow> jsval list \<Rightarrow> nat \<Rightarrow> string" where
  "calculateRiskLevel closeData atrData score =
     (if length closeData < 20 \<or> val_at atrData (int (length atrData) - 1) = Null
      then ''Unknown''
      else
        let currentPrice = to_num (num_at closeData (int (length closeData) - 1));
            currentATR = to_num (val_at atrData (int (length atrData) - 1));
            atrPercentage = js_mul (js_div currentATR currentPrice) (Fin 100)
        in if js_gt atrPercentage (Fin 8) then ''Very High''
           else if js_gt atrPercentage (Fin 5) then ''High''
           else if js_gt atrPercentage (Fin 3) then ''Medium''
           else ''Low'')"

text \<open>\<open>Math.round(x * 10000) / 10000\<close>.\<close>

definition round4 :: "jsnum \<Rightarrow> jsnum" where
  "round4 x = js_div (js_round (js_mul x (Fin 10000))) (Fin 10000)"

definition bb_last :: "bb_point list \<Rightarrow> bb_point option" where
  "bb_last xs = (if xs = [] then None else Some (last xs))"

definition macd_at :: "macd_point list \<Rightarrow> int \<Rightarrow> macd_point option" where
  "macd_at xs i = (if 0 \<le> i \<and> i < int (length xs) then Some (xs ! nat i) else None)"

text \<open>
  \<open>analyzeBreakout\<close> is one long function in the source. Its three parts are separate
  definitions here: the \<open>metrics\<close> object, the ten scoring conditions in their order
  (the running score and signal list are threaded through \<open>st1\<close> to \<open>st10\<close>), and the
  suggested stop loss and take profit.
\<close>

definition analysis_metrics ::
  "jsnum list \<Rightarrow> jsnum list \<Rightarrow> jsval list \<Rightarrow> bb_point list \<Rightarrow> jsval list \<Rightarrow> jsval list
   \<Rightarrow> metrics" where
  "analysis_metrics closeData volumeData rsiData bbData ema200 atrData =
     (let n = int (length closeData);
          lastClose = to_num (num_at closeData (n - 1));
          prevClose = to_num (num_at closeData (n - 2));
          lastVolume = to_num (num_at volumeData (int (length volumeData) - 1));
          prevVolume = to_num (num_at volumeData (int (length volumeData) - 2))
      in \<lparr>m_rsi = val_at rsiData (int (length rsiData) - 1),
          m_bollingerWidth =
            (case bb_last bbData of None \<Rightarrow> Null | Some b \<Rightarrow> js_or (width b) Null),
          m_bollingerPercent =
            (case bb_last bbData of None \<Rightarrow> Null | Some b \<Rightarrow> js_or (percent b) Null),
          m_atr = val_at atrData (int (length atrData) - 1),
          m_aboveEma200 =
            (if val_at ema200 (int (length ema200) - 1) \<noteq> Null
             then Some (js_gt lastClose (to_num (val_at ema200 (int (length ema200) - 1))))
             else None),
          m_priceChangePercent =
            js_mul (js_div (js_sub lastClose prevClose) prevClose) (Fin 100),
          m_volumeChangePercent =
            js_mul (js_div (js_sub lastVolume prevVolume) prevVolume) (Fin 100)\<rparr>)"

definition breakout_conditions ::
  "config \<Rightarrow> jsnum list \<Rightarrow> jsnum list \<Rightarrow> jsval list \<Rightarrow> bb_point list \<Rightarrow> jsval list
   \<Rightarrow> jsval list \<Rightarrow> macd_point list \<Rightarrow> bool \<Rightarrow> nat \<times> string list" where
  "breakout_conditions cfg closeData volumeData rsiData bbData ema200 obvData macdData
     bbBreakout =
     (let n = int (length closeData);
          lastClose = to_num (num_at closeData (n - 1));
          prevClose = to_num (num_at closeData (n - 2));
          isConsolidating = isPriceConsolidating closeData (cfg_consolidationPeriod cfg)
                              (cfg_consolidationThreshold cfg);
          st1 = add_signal isConsolidating 20 ''Price consolidation detected'' (0, []);
          currentRSI = val_at rsiData (int (length rsiData) - 1);
          st2 = add_signal
                  (currentRSI \<noteq> Null
                   \<and> js_ge (to_num currentRSI) (Fin (cfg_rsiLowerThreshold cfg))
                   \<and> js_le (to_num currentRSI) (Fin (cfg_rsiUpperThreshold cfg)))
                  15 ''RSI in optimal range'' st1;
          st3 = add_signal
                  (case bb_last bbData of None \<Rightarrow> False
                   | Some b \<Rightarrow> width b \<noteq> Null \<and> js_le (to_num (width b)) (Fin 1))
                  15 ''Bollinger Band compression'' st2;
          st4 = add_signal bbBreakout 20 ''Bollinger Band breakout'' st3;
          st5 = (if cfg_ema200Required cfg
                 then
                   (let currentEMA200 = val_at ema200 (int (length ema200) - 1)
                    in add_signal
                         (currentEMA200 \<noteq> Null \<and> js_gt lastClose (to_num currentEMA200))
                         10 ''Price above EMA200'' st4)
                 else (fst st4 + 10, snd st4));
          isVolIncreasing = isVolumeIncreasing volumeData (cfg_volumeIncreaseThreshold cfg);
          st6 = add_signal isVolIncreasing 15 ''Volume increasing'' st5;
          rsiDivergence = detectPositiveRSIDivergence closeData rsiData (cfg_lookbackPeriod cfg);
          st7 = add_signal rsiDivergence 15 ''Positive RSI divergence'' st6;
          st8 = add_signal
                  (case (macd_at macdData (int (length macdData) - 1),
                         macd_at macdData (int (length macdData) - 2)) of
                     (Some currentMACD, Some previousMACD) \<Rightarrow>
                       js_le (to_num (histogram previousMACD)) (Fin 0)
                       \<and> js_gt (to_num (histogram currentMACD)) (Fin 0)
                   | _ \<Rightarrow> False)
                  15 ''MACD bullish crossover'' st7;
          currentOBV = to_num (val_at obvData (int (length obvData) - 1));
          previousOBV = to_num (val_at obvData (int (length obvData) - 5));
          st9 = add_signal
                  (js_gt currentOBV previousOBV
                   \<and> js_gt (js_sub currentOBV previousOBV)
                        (js_mul (Fin (5 / 100)) previousOBV))
                  10 ''OBV accumulation'' st8;
          priceChange = js_div (js_sub lastClose prevClose) prevClose
      in add_signal
           (js_ge priceChange (Fin (cfg_minBreakoutPercent cfg))
            \<and> js_le priceChange (Fin (cfg_maxBreakoutPercent cfg)))
           15 ''Ideal breakout percentage'' st9)"

text \<open>The pair of \<open>suggestedStopLoss\<close> and \<open>suggestedTakeProfit\<close>; both stay
  \<open>undefined\<close> unless the series is a candidate and the last ATR is not null.\<close>

definition suggested_levels :: "jsnum list \<Rightarrow> jsval list \<Rightarrow> bool \<Rightarrow> jsval \<times> jsval" where
  "suggested_levels closeData atrData candidate =
     (let currentPrice = to_num (num_at closeData (int (length closeData) - 1));
          currentATR = val_at atrData (int (length atrData) - 1)
      in if candidate \<and> currentATR \<noteq> Null
         then
           (let stop = round4 (js_sub currentPrice (to_num currentATR));
                risk = js_sub currentPrice stop
            in (Num stop, Num (round4 (js_add currentPrice (js_mul risk (Fin 3))))))
         else (Undefined, Undefined))"

definition analyzeBreakout :: "candle list \<Rightarrow> options \<Rightarrow> error + analysis" where
  "analyzeBreakout data opts =
     (let cfg = analyze_config opts;
          closeData = map (\<lambda>d. Fin (close d)) data;
          highData = map (\<lambda>d. Fin (high d)) data;
          lowData = map (\<lambda>d. Fin (low d)) data;
          volumeData = map (\<lambda>d. Fin (volume d)) data;
          rsiData = calculateRSI closeData 14;
          bbData = calculateBollingerBands closeData (cfg_bollingerPeriod cfg) (Fin 2)
      in
      case calculateEMA closeData 200 of Inl e \<Rightarrow> Inl e | Inr ema200 \<Rightarrow>
      let atrData = calculateATR highData lowData closeData (cfg_atrPeriod cfg);
          obvData = calculateOBV closeData volumeData
      in
      case calculateMACD closeData 12 26 9 of Inl e \<Rightarrow> Inl e | Inr macdData \<Rightarrow>
      case detectBollingerBreakout closeData bbData 10 of Inl e \<Rightarrow> Inl e | Inr bbBreakout \<Rightarrow>
      let st = breakout_conditions cfg closeData volumeData rsiData bbData ema200 obvData
                 macdData bbBreakout;
          bScore = min 100 (fst st);
          candidate = (70 \<le> bScore);
          levels = suggested_levels closeData atrData candidate
      in Inr \<lparr>isBreakoutCandidate = candidate,
              breakoutScore = bScore,
              signals = snd st,
              metrics = analysis_metrics closeData volumeData rsiData bbData ema200 atrData,
              profitPotential = calculateProfitPotential closeData atrData bbData bScore,
              riskLevel = calculateRiskLevel closeData atrData bScore,
              suggestedStopLoss = fst levels,
              suggestedTakeProfit = snd levels\<rparr>)"

section \<open>Multi-timeframe analysis\<close>

record mtf_result =
  mtfScore :: int
  alignmentScore :: nat
  hourlyScore :: nat
  fourHourScore :: nat
  mtf_dailyScore :: nat
  isConfirmedBreakout :: bool
  combinedSignals :: "string list"
  mtf_profitPotential :: string
  mtf_riskLevel :: string
  mtf_suggestedStopLoss :: jsval
  mtf_suggestedTakeProfit :: jsval

text \<open>\<open>a || b\<close> on strings: the empty string is falsy.\<close>

definition str_or :: "string \<Rightarrow> string \<Rightarrow> string" where
  "str_or a b = (if a \<noteq> [] then a else b)"

definition weighted_score :: "analysis \<Rightarrow> analysis \<Rightarrow> analysis \<Rightarrow> real" where
  "weighted_score hourlyResults fourHourResults dailyResults =
     real (breakoutScore hourlyResults) * (2 / 10)
     + real (breakoutScore fourHourResults) * (3 / 10)
     + real (breakoutScore dailyResults) * (5 / 10)"

definition multiTimeframeAnalysis ::
  "candle list \<Rightarrow> candle list \<Rightarrow> candle list \<Rightarrow> options \<Rightarrow> error + mtf_result" where
  "multiTimeframeAnalysis hourlyData fourHourData dailyData opts =
     (case analyzeBreakout hourlyData opts of Inl e \<Rightarrow> Inl e | Inr hourlyResults \<Rightarrow>
      case analyzeBreakout fourHourData opts of Inl e \<Rightarrow> Inl e | Inr fourHourResults \<Rightarrow>
      case analyzeBreakout dailyData opts of Inl e \<Rightarrow> Inl e | Inr dailyResults \<Rightarrow>
      let alignment = (if isBreakoutCandidate hourlyResults then 1 else 0)
                      + (if isBreakoutCandidate fourHourResults then 2 else 0)
                      + (if isBreakoutCandidate dailyResults then 3 else 0);
          weightedScore = weighted_score hourlyResults fourHourResults dailyResults
      in Inr \<lparr>mtfScore = \<lfloor>weightedScore + 1 / 2\<rfloor>,
              alignmentScore = alignment,
              hourlyScore = breakoutScore hourlyResults,
              fourHourScore = breakoutScore fourHourResults,
              mtf_dailyScore = breakoutScore dailyResults,
              isConfirmedBreakout = (4 \<le> alignment \<and> 75 \<le> weightedScore),
              combinedSignals =
                map (\<lambda>s. ''1H: '' @ s) (signals hourlyResults)
                @ map (\<lambda>s. ''4H: '' @ s) (signals fourHourResults)
                @ map (\<lambda>s. ''1D: '' @ s) (signals dailyResults),
              mtf_profitPotential =
                str_or (profitPotential dailyResults) (profitPotential fourHourResults),
              mtf_riskLevel = str_or (riskLevel dailyResults) (riskLevel fourHourResults),
              mtf_suggestedStopLoss =
                js_or (suggestedStopLoss fourHourResults) (suggestedStopLoss hourlyResults),
              mtf_suggestedTakeProfit =
                js_or (suggestedTakeProfit fourHourResults)
                      (suggestedTakeProfit hourlyResults)\<rparr>)"

section \<open>Backtest\<close>

record trade =
  entryBar :: nat
  entryPrice :: real
  stopLoss :: jsval
  takeProfit :: jsval
  exitPrice :: jsval
  exitType :: "string option"
  barsHeld :: nat
  pnl :: jsnum
  date :: int

record backtest_result =
  totalTrades :: nat
  winningTrades :: nat
  losingTrades :: nat
  winRate :: real
  averageProfit :: jsnum
  averageLoss :: jsnum
  profitFactor :: jsnum
  expectancy :: jsval
  trades :: "trade list"

text \<open>The backtest returns either the object \<open>{error: message}\<close> or the results.\<close>

datatype backtest_outcome = BacktestError string | BacktestResults backtest_result

text \<open>The forward scan of at most 19 bars after the entry bar \<open>i\<close>. The state is the
  exit price, the exit type and the number of bars held.\<close>

function exit_scan ::
  "candle list \<Rightarrow> jsval \<Rightarrow> jsval \<Rightarrow> nat \<Rightarrow> nat \<Rightarrow> jsval \<times> string option \<times> nat
   \<Rightarrow> jsval \<times> string option \<times> nat" where
  "exit_scan historicalData stopL takeP i j st =
     (if j < min (i + 20) (length historicalData) then
        (let currentBar = historicalData ! j;
             held = snd (snd st) + 1
         in if js_le (Fin (low currentBar)) (to_num stopL)
            then (stopL, Some ''Stop Loss'', held)
            else if js_ge (Fin (high currentBar)) (to_num takeP)
            then (takeP, Some ''Take Profit'', held)
            else if int j = min (int i + 19) (int (length historicalData) - 1)
            then exit_scan historicalData stopL takeP i (Suc j)
                   (Num (Fin (close currentBar)), Some ''Time Exit'', held)
            else exit_scan historicalData stopL takeP i (Suc j) (fst st, fst (snd st), held))
      else st)"
  by pat_completeness auto
termination
  by (relation "measure (\<lambda>(h, s, t, i, j, st). min (i + 20) (length h) - j)") auto

record bt_state =
  bt_trades :: "trade list"
  bt_winning :: nat
  bt_losing :: nat
  bt_totalProfit :: jsnum
  bt_totalLoss :: jsnum

definition simulate_trade :: "candle list \<Rightarrow> analysis \<Rightarrow> nat \<Rightarrow> trade" where
  "simulate_trade historicalData an i =
     (let entry = close (historicalData ! i);
          stopL = suggestedStopLoss an;
          takeP = suggestedTakeProfit an;
          ex = exit_scan historicalData stopL takeP i (i + 1) (Null, None, 0);
          p = js_mul (js_div (js_sub (to_num (fst ex)) (Fin entry)) (Fin entry)) (Fin 100)
      in \<lparr>entryBar = i, entryPrice = entry, stopLoss = stopL, takeProfit = takeP,
          exitPrice = fst ex, exitType = fst (snd ex), barsHeld = snd (snd ex),
          pnl = p, date = time (historicalData ! i)\<rparr>)"

definition record_trade :: "trade \<Rightarrow> bt_state \<Rightarrow> bt_state" where
  "record_trade t st =
     (if js_gt (pnl t) (Fin 0)
      then st\<lparr>bt_trades := bt_trades st @ [t], bt_winning := bt_winning st + 1,
              bt_totalProfit := js_add (bt_totalProfit st) (pnl t)\<rparr>
      else st\<lparr>bt_trades := bt_trades st @ [t], bt_losing := bt_losing st + 1,
              bt_totalLoss := js_add (bt_totalLoss st) (js_abs (pnl t))\<rparr>)"

text \<open>The main loop \<open>for (i = 200; i < length - 20; i++)\<close>; after a trade the body
  adds \<open>barsHeld\<close> to \<open>i\<close> before the loop's own increment.\<close>

function bt_loop :: "candle list \<Rightarrow> options \<Rightarrow> nat \<Rightarrow> bt_state \<Rightarrow> error + bt_state" where
  "bt_loop historicalData opts i st =
     (if int i < int (length historicalData) - 20 then
        (case analyzeBreakout (take i historicalData) opts of
           Inl e \<Rightarrow> Inl e
         | Inr an \<Rightarrow>
             if isBreakoutCandidate an then
               (let t = simulate_trade historicalData an i
                in bt_loop historicalData opts (Suc (i + barsHeld t)) (record_trade t st))
             else bt_loop historicalData opts (Suc i) st)
      else Inr st)"
  by pat_completeness auto
termination
  by (relation "measure (\<lambda>(h, opts, i, st). length h - i)") auto

definition bt_statistics :: "bt_state \<Rightarrow> backtest_result" where
  "bt_statistics st =
     (let total = length (bt_trades st) in
      if 0 < total then
        (let wr = real (bt_winning st) / real total * 100;
             avgP = (if 0 < bt_winning st
                     then js_div (bt_totalProfit st) (Fin (real (bt_winning st))) else Fin 0);
             avgL = (if 0 < bt_losing st
                     then js_div (bt_totalLoss st) (Fin (real (bt_losing st))) else Fin 0);
             pf = (if js_gt avgL (Fin 0) then js_div avgP avgL else Fin 0)
         in \<lparr>totalTrades = total, winningTrades = bt_winning st,
             losingTrades = bt_losing st, winRate = wr,
             averageProfit = avgP, averageLoss = avgL, profitFactor = pf,
             expectancy = Num (js_sub (js_mul (Fin (wr / 100)) avgP)
                                      (js_mul (Fin ((100 - wr) / 100)) avgL)),
             trades = bt_trades st\<rparr>)
      else \<lparr>totalTrades = 0, winningTrades = 0, losingTrades = 0, winRate = 0,
            averageProfit = Fin 0, averageLoss = Fin 0, profitFactor = Fin 0,
            expectancy = Undefined, trades = []\<rparr>)"

definition backtestBreakoutStrategy :: "candle list \<Rightarrow> options \<Rightarrow> error + backtest_outcome" where
  "backtestBreakoutStrategy historicalData opts =
     (if length historicalData < 250
      then Inr (BacktestError ''Not enough historical data for backtest'')
      else
        case bt_loop historicalData opts 200
               \<lparr>bt_trades = [], bt_winning = 0, bt_losing = 0,
                bt_totalProfit = Fin 0, bt_totalLoss = Fin 0\<rparr>
        of Inl e \<Rightarrow> Inl e
         | Inr st \<Rightarrow> Inr (BacktestResults (bt_statistics st)))"

section \<open>Signal generator\<close>

record coin_data =
  hourlyData :: "candle list option"
  fourHourData :: "candle list option"
  dailyData :: "candle list option"
  symbol :: string
  exchange :: "string option"

record signal_options =
  so_consolidationPeriod :: "real option"
  so_consolidationThreshold :: "real option"
  so_rsiLowerThreshold :: "real option"
  so_rsiUpperThreshold :: "real option"
  so_volumeIncreaseThreshold :: "real option"
  so_minBreakoutPercent :: "real option"
  so_maxBreakoutPercent :: "real option"
  so_minMTFScore :: "real option"
  so_minAlignmentScore :: "real option"
  so_minDailyScore :: "real option"
  so_requireEma200 :: "bool option"
  so_maxPrice :: "real option"
  so_riskRewardRatio :: "real option"
  so_maxStopLossPercent :: "real option"
  so_minProfitPotential :: "string option"

record signal_config =
  sc_consolidationPeriod :: real
  sc_consolidationThreshold :: real
  sc_rsiLowerThreshold :: real
  sc_rsiUpperThreshold :: real
  sc_volumeIncreaseThreshold :: real
  sc_minBreakoutPercent :: real
  sc_maxBreakoutPercent :: real
  sc_minMTFScore :: real
  sc_minAlignmentScore :: real
  sc_minDailyScore :: real
  sc_requireEma200 :: bool
  sc_maxPrice :: real
  sc_riskRewardRatio :: real
  sc_maxStopLossPercent :: real
  sc_minProfitPotential :: string

definition signal_config_of :: "signal_options \<Rightarrow> signal_config" where
  "signal_config_of opts =
     \<lparr>sc_consolidationPeriod = opt_or (so_consolidationPeriod opts) 6,
      sc_consolidationThreshold = opt_or (so_consolidationThreshold opts) (15 / 100),
      sc_rsiLowerThreshold = opt_or (so_rsiLowerThreshold opts) 50,
      sc_rsiUpperThreshold = opt_or (so_rsiUpperThreshold opts) 75,
      sc_volumeIncreaseThreshold = opt_or (so_volumeIncreaseThreshold opts) (10 / 100),
      sc_minBreakoutPercent = opt_or (so_minBreakoutPercent opts) (1 / 100),
      sc_maxBreakoutPercent = opt_or (so_maxBreakoutPercent opts) (20 / 100),
      sc_minMTFScore = opt_or (so_minMTFScore opts) 75,
      sc_minAlignmentScore = opt_or (so_minAlignmentScore opts) 4,
      sc_minDailyScore = opt_or (so_minDailyScore opts) 65,
      sc_requireEma200 = (case so_requireEma200 opts of None \<Rightarrow> True | Some b \<Rightarrow> b),
      sc_maxPrice = opt_or (so_maxPrice opts) 1,
      sc_riskRewardRatio = opt_or (so_riskRewardRatio opts) 3,
      sc_maxStopLossPercent = opt_or (so_maxStopLossPercent opts) 5,
      sc_minProfitPotential =
        (case so_minProfitPotential opts of None \<Rightarrow> ''Medium''
         | Some s \<Rightarrow> str_or s ''Medium'')\<rparr>"

text \<open>The options object that \<open>generateBreakoutSignal\<close> hands to the analysis.\<close>

definition mtf_options :: "signal_config \<Rightarrow> options" where
  "mtf_options cfg =
     \<lparr>consolidationPeriod = Some (sc_consolidationPeriod cfg),
      consolidationThreshold = Some (sc_consolidationThreshold cfg),
      rsiLowerThreshold = Some (sc_rsiLowerThreshold cfg),
      rsiUpperThreshold = Some (sc_rsiUpperThreshold cfg),
      volumeIncreaseThreshold = Some (sc_volumeIncreaseThreshold cfg),
      minBreakoutPercent = Some (sc_minBreakoutPercent cfg),
      maxBreakoutPercent = Some (sc_maxBreakoutPercent cfg),
      bollingerPeriod = None, atrPeriod = None, lookbackPeriod = None,
      ema200Required = Some (sc_requireEma200 cfg)\<rparr>"

record signal =
  sig_symbol :: string
  sig_exchange :: string
  signalType :: string
  direction :: string
  confidence :: real
  sig_entryPrice :: real
  sig_stopLoss :: jsval
  sig_takeProfit :: jsval
  riskRewardRatio :: jsnum
  potentialProfitPercent :: jsnum
  potentialLossPercent :: jsnum
  timeframe :: string
  generatedAt :: int
  expiresAt :: int
  sig_score :: int
  sig_alignmentScore :: nat
  sig_hourlyScore :: nat
  sig_fourHourScore :: nat
  sig_dailyScore :: nat
  sig_signals :: "string list"
  sig_profitPotential :: string
  sig_riskLevel :: string
  successProbability :: real

text \<open>A result with \<open>success: false\<close>: one constructor for each message, with the
  diagnostic fields of the returned object.\<close>

datatype rejection =
    MissingData
  | PriceAboveMax real real
  | CriteriaNotMet int nat nat string
  | StopLossTooHigh jsnum real
  | TooCloseToHigh jsnum
  | VolatilityTooHigh jsnum

fun message :: "rejection \<Rightarrow> string" where
  "message MissingData = ''Missing required timeframe data''"
| "message (PriceAboveMax p m) = ''Price above maximum threshold''"
| "message (CriteriaNotMet s a d p) = ''Does not meet signal criteria''"
| "message (StopLossTooHigh p m) = ''Stop loss percentage too high''"
| "message (TooCloseToHigh p) = ''Price too close to 20-day high''"
| "message (VolatilityTooHigh v) = ''Coin volatility too high''"

datatype signal_outcome = Failure rejection | Success signal

definition calculateConfidenceScore :: "mtf_result \<Rightarrow> real" where
  "calculateConfidenceScore m =
     (let score0 = real_of_int (mtfScore m) / 10;
          score1 = (if 6 \<le> alignmentScore m then score0 + 1
                    else if 4 \<le> alignmentScore m then score0 + 1 / 2 else score0);
          score2 = (if mtf_profitPotential m = ''Very High'' then score1 + 1
                    else if mtf_profitPotential m = ''High'' then score1 + 1 / 2 else score1)
      in min 10 (real_of_int \<lfloor>score2 * 10 + 1 / 2\<rfloor> / 10))"

definition estimateSuccessProbability :: "int \<Rightarrow> nat \<Rightarrow> string \<Rightarrow> jsnum \<Rightarrow> real" where
  "estimateSuccessProbability score alignment potential stopLossPercent =
     (let p0 = real_of_int score * (8 / 10);
          p1 = (if 6 \<le> alignment then p0 + 10
                else if 4 \<le> alignment then p0 + 5 else p0);
          p2 = (if potential = ''Very High'' then p1 + 5
                else if potential = ''High'' then p1 + 3
                else if potential = ''Medium'' then p1 + 1 else p1);
          p3 = (if js_lt stopLossPercent (Fin 2) then p2 - 5
                else if js_gt stopLossPercent (Fin 4) then p2 - 3 else p2)
      in min 95 (max 60 (real_of_int \<lfloor>p3 + 1 / 2\<rfloor>)))"

text \<open>
  The clock is a parameter: \<open>now\<close> is the instant of the call in milliseconds. The source
  adds 24 to the local hour of that instant (\<open>setHours(getHours() + 24)\<close>), which is 24
  hours later unless the local UTC offset changes in between; \<open>shift\<close> is the difference
  that such a change makes, in milliseconds (0 when there is none, one hour either way
  across a daylight-saving change).
\<close>

definition getExpirationTime :: "int \<Rightarrow> int \<Rightarrow> int" where
  "getExpirationTime now shift = now + 24 * 60 * 60 * 1000 + shift"

definition generateBreakoutSignal ::
  "coin_data \<Rightarrow> signal_options \<Rightarrow> int \<Rightarrow> int \<Rightarrow> error + signal_outcome" where
  "generateBreakoutSignal coinData opts now shift =
     (let cfg = signal_config_of opts in
      case (hourlyData coinData, fourHourData coinData, dailyData coinData) of
        (Some hourly, Some fourHour, Some daily) \<Rightarrow>
          (if hourly = [] then Inl TypeError
           else
             let currentPrice = close (last hourly) in
             if sc_maxPrice cfg < currentPrice
             then Inr (Failure (PriceAboveMax currentPrice (sc_maxPrice cfg)))
             else
               case multiTimeframeAnalysis hourly fourHour daily (mtf_options cfg) of
                 Inl e \<Rightarrow> Inl e
               | Inr m \<Rightarrow>
                   let isValidSignal =
                         (sc_minMTFScore cfg \<le> real_of_int (mtfScore m)
                          \<and> sc_minAlignmentScore cfg \<le> real (alignmentScore m)
                          \<and> sc_minDailyScore cfg \<le> real (mtf_dailyScore m)
                          \<and> (mtf_profitPotential m = ''High''
                               \<or> mtf_profitPotential m = ''Very High''
                               \<or> (mtf_profitPotential m = ''Medium'' \<and> 85 < mtfScore m)))
                   in
                   if \<not> isValidSignal
                   then Inr (Failure (CriteriaNotMet (mtfScore m) (alignmentScore m)
                                        (mtf_dailyScore m) (mtf_profitPotential m)))
                   else
                     let stopL = mtf_suggestedStopLoss m;
                         takeP = mtf_suggestedTakeProfit m;
                         stopLossPercent =
                           js_mul (js_div (js_sub (Fin currentPrice) (to_num stopL))
                                     (Fin currentPrice)) (Fin 100)
                     in
                     if js_gt stopLossPercent (Fin (sc_maxStopLossPercent cfg))
                     then Inr (Failure (StopLossTooHigh stopLossPercent
                                          (sc_maxStopLossPercent cfg)))
                     else
                       let recentDailyData = slice_from daily (- 20);
                           twentyDayHigh =
                             js_max_list (map (\<lambda>d. Fin (high d)) recentDailyData);
                           twentyDayLow =
                             js_min_list (map (\<lambda>d. Fin (low d)) recentDailyData);
                           percentFromHigh =
                             js_mul (js_div (js_sub twentyDayHigh (Fin currentPrice))
                                       (Fin currentPrice)) (Fin 100)
                       in
                       if js_lt percentFromHigh (Fin 3)
                       then Inr (Failure (TooCloseToHigh percentFromHigh))
                       else
                         let priceRange = js_sub twentyDayHigh twentyDayLow;
                             normalizedVolatility = js_div priceRange twentyDayLow
                         in
                         if js_gt normalizedVolatility (Fin (5 / 10))
                         then Inr (Failure (VolatilityTooHigh normalizedVolatility))
                         else
                           Inr (Success
                             \<lparr>sig_symbol = symbol coinData,
                              sig_exchange =
                                (case exchange coinData of None \<Rightarrow> ''ByDFi''
                                 | Some x \<Rightarrow> str_or x ''ByDFi''),
                              signalType = ''Breakout'',
                              direction = ''Long'',
                              confidence = calculateConfidenceScore m,
                              sig_entryPrice = currentPrice,
                              sig_stopLoss = stopL,
                              sig_takeProfit = takeP,
                              riskRewardRatio =
                                js_div (js_sub (to_num takeP) (Fin currentPrice))
                                       (js_sub (Fin currentPrice) (to_num stopL)),
                              potentialProfitPercent =
                                js_mul (js_div (js_sub (to_num takeP) (Fin currentPrice))
                                          (Fin currentPrice)) (Fin 100),
                              potentialLossPercent = stopLossPercent,
                              timeframe = ''Multi-Timeframe'',
                              generatedAt = now,
                              expiresAt = getExpirationTime now shift,
                              sig_score = mtfScore m,
                              sig_alignmentScore = alignmentScore m,
                              sig_hourlyScore = hourlyScore m,
                              sig_fourHourScore = fourHourScore m,
                              sig_dailyScore = mtf_dailyScore m,
                              sig_signals = combinedSignals m,
                              sig_profitPotential = mtf_profitPotential m,
                              sig_riskLevel = mtf_riskLevel m,
                              successProbability =
                                estimateSuccessProbability (mtfScore m) (alignmentScore m)
                                  (mtf_profitPotential m) stopLossPercent\<rparr>))
      | _ \<Rightarrow> Inr (Failure MissingData))"

section \<open>Parameter optimizer\<close>

record params =
  p_consolidationPeriod :: real
  p_consolidationThreshold :: real
  p_rsiLowerThreshold :: real
  p_rsiUpperThreshold :: real
  p_volumeIncreaseThreshold :: real
  p_minBreakoutPercent :: real
  p_maxBreakoutPercent :: real
  p_riskRewardRatio :: real
  p_maxStopLossPercent :: real

record initial_params =
  ip_consolidationPeriod :: "real option"
  ip_consolidationThreshold :: "real option"
  ip_rsiLowerThreshold :: "real option"
  ip_rsiUpperThreshold :: "real option"
  ip_volumeIncreaseThreshold :: "real option"
  ip_minBreakoutPercent :: "real option"
  ip_maxBreakoutPercent :: "real option"
  ip_riskRewardRatio :: "real option"
  ip_maxStopLossPercent :: "real option"

definition initial_best :: "initial_params \<Rightarrow> params" where
  "initial_best ip =
     \<lparr>p_consolidationPeriod = opt_or (ip_consolidationPeriod ip) 6,
      p_consolidationThreshold = opt_or (ip_consolidationThreshold ip) (15 / 100),
      p_rsiLowerThreshold = opt_or (ip_rsiLowerThreshold ip) 50,
      p_rsiUpperThreshold = opt_or (ip_rsiUpperThreshold ip) 75,
      p_volumeIncreaseThreshold = opt_or (ip_volumeIncreaseThreshold ip) (10 / 100),
      p_minBreakoutPercent = opt_or (ip_minBreakoutPercent ip) (1 / 100),
      p_maxBreakoutPercent = opt_or (ip_maxBreakoutPercent ip) (20 / 100),
      p_riskRewardRatio = opt_or (ip_riskRewardRatio ip) 3,
      p_maxStopLossPercent = opt_or (ip_maxStopLossPercent ip) 5\<rparr>"

text \<open>A parameter object passed as the options of the backtest: the analysis reads
  seven of its fields and finds the others absent.\<close>

definition params_options :: "params \<Rightarrow> options" where
  "params_options p =
     \<lparr>consolidationPeriod = Some (p_consolidationPeriod p),
      consolidationThreshold = Some (p_consolidationThreshold p),
      rsiLowerThreshold = Some (p_rsiLowerThreshold p),
      rsiUpperThreshold = Some (p_rsiUpperThreshold p),
      volumeIncreaseThreshold = Some (p_volumeIncreaseThreshold p),
      minBreakoutPercent = Some (p_minBreakoutPercent p),
      maxBreakoutPercent = Some (p_maxBreakoutPercent p),
      bollingerPeriod = None, atrPeriod = None, lookbackPeriod = None,
      ema200Required = None\<rparr>"

text \<open>\<open>Math.random()\<close> is a parameter: \<open>u\<close> is the draw, a number in [0, 1).\<close>

definition randomAdjust :: "real \<Rightarrow> real \<Rightarrow> real \<Rightarrow> real \<Rightarrow> real \<Rightarrow> real" where
  "randomAdjust v amount mn mx u =
     (let adjustment = (u * 2 - 1) * amount;
          newValue = v + adjustment
      in max mn (min mx newValue))"

text \<open>The random draws of a run are a sequence \<open>rnd\<close>; a variation takes nine draws,
  one for each field in the order of the object literal, starting at position \<open>k\<close>.\<close>

definition variation :: "params \<Rightarrow> (nat \<Rightarrow> real) \<Rightarrow> nat \<Rightarrow> params" where
  "variation baseParams rnd k =
     \<lparr>p_consolidationPeriod = randomAdjust (p_consolidationPeriod baseParams) 1 4 10 (rnd k),
      p_consolidationThreshold =
        randomAdjust (p_consolidationThreshold baseParams) (5 / 100) (5 / 100) (30 / 100)
          (rnd (k + 1)),
      p_rsiLowerThreshold = randomAdjust (p_rsiLowerThreshold baseParams) 5 40 60 (rnd (k + 2)),
      p_rsiUpperThreshold = randomAdjust (p_rsiUpperThreshold baseParams) 5 70 85 (rnd (k + 3)),
      p_volumeIncreaseThreshold =
        randomAdjust (p_volumeIncreaseThreshold baseParams) (5 / 100) (5 / 100) (30 / 100)
          (rnd (k + 4)),
      p_minBreakoutPercent =
        randomAdjust (p_minBreakoutPercent baseParams) (5 / 1000) (5 / 1000) (5 / 100)
          (rnd (k + 5)),
      p_maxBreakoutPercent =
        randomAdjust (p_maxBreakoutPercent baseParams) (5 / 100) (10 / 100) (40 / 100)
          (rnd (k + 6)),
      p_riskRewardRatio = randomAdjust (p_riskRewardRatio baseParams) (5 / 10) 2 5 (rnd (k + 7)),
      p_maxStopLossPercent = randomAdjust (p_maxStopLossPercent baseParams) 1 3 8 (rnd (k + 8))\<rparr>"

definition generateParameterVariations :: "params \<Rightarrow> (nat \<Rightarrow> real) \<Rightarrow> nat \<Rightarrow> params list" where
  "generateParameterVariations baseParams rnd k =
     map (\<lambda>i. variation baseParams rnd (k + 9 * i)) [0..<10]"

definition evaluateParameters :: "candle list \<Rightarrow> params \<Rightarrow> error + jsnum" where
  "evaluateParameters historicalData p =
     (case backtestBreakoutStrategy historicalData (params_options p) of
        Inl e \<Rightarrow> Inl e
      | Inr (BacktestError msg) \<Rightarrow> Inr (Fin 0)
      | Inr (BacktestResults b) \<Rightarrow>
          if totalTrades b < 10 then Inr (Fin 0)
          else
            let winRateScore = Fin (winRate b * (6 / 10));
                profitFactorScore = js_min2 (js_mul (profitFactor b) (Fin 10)) (Fin 30);
                tradesScore = Fin (real (min (totalTrades b) 100) / 10)
            in Inr (js_add (js_add winRateScore profitFactorScore) tradesScore))"

definition calculateWinRate :: "candle list \<Rightarrow> params \<Rightarrow> error + real" where
  "calculateWinRate historicalData p =
     (case backtestBreakoutStrategy historicalData (params_options p) of
        Inl e \<Rightarrow> Inl e
      | Inr (BacktestError msg) \<Rightarrow> Inr 0
      | Inr (BacktestResults b) \<Rightarrow> if totalTrades b = 0 then Inr 0 else Inr (winRate b))"

text \<open>The inner loop over the variations of one generation; the state is the best
  parameter set and its score.\<close>

fun try_variations :: "candle list \<Rightarrow> params list \<Rightarrow> params \<times> jsnum \<Rightarrow> error + params \<times> jsnum" where
  "try_variations historicalData [] best = Inr best"
| "try_variations historicalData (p # rest) best =
     (case evaluateParameters historicalData p of
        Inl e \<Rightarrow> Inl e
      | Inr sc \<Rightarrow>
          try_variations historicalData rest (if js_gt sc (snd best) then (p, sc) else best))"

text \<open>The loop over the generations: \<open>g\<close> generations remain and \<open>k\<close> random draws
  have been taken.\<close>

fun generations_loop ::
  "candle list \<Rightarrow> (nat \<Rightarrow> real) \<Rightarrow> nat \<Rightarrow> nat \<Rightarrow> params \<times> jsnum \<Rightarrow> error + params \<times> jsnum" where
  "generations_loop historicalData rnd 0 k best = Inr best"
| "generations_loop historicalData rnd (Suc g) k best =
     (case try_variations historicalData (generateParameterVariations (fst best) rnd k) best of
        Inl e \<Rightarrow> Inl e
      | Inr best' \<Rightarrow> generations_loop historicalData rnd g (k + 90) best')"

record optimization =
  parameters :: params
  score :: jsnum
  opt_winRate :: real

definition optimizeParameters ::
  "candle list \<Rightarrow> initial_params \<Rightarrow> nat \<Rightarrow> (nat \<Rightarrow> real) \<Rightarrow> error + optimization" where
  "optimizeParameters historicalData initialParams generations rnd =
     (let bestParams = initial_best initialParams in
      case evaluateParameters historicalData bestParams of
        Inl e \<Rightarrow> Inl e
      | Inr bestScore \<Rightarrow>
          case generations_loop historicalData rnd generations 0 (bestParams, bestScore) of
            Inl e \<Rightarrow> Inl e
          | Inr best \<Rightarrow>
              case calculateWinRate historicalData (fst best) of
                Inl e \<Rightarrow> Inl e
              | Inr wr \<Rightarrow> Inr \<lparr>parameters = fst best, score = snd best, opt_winRate = wr\<rparr>)"

section \<open>Test data\<close>

text \<open>Concrete inputs on which the theorems below are instantiated.\<close>

definition prices7 :: "jsnum list" where
  "prices7 = [Fin 1, Fin 2, Fin 3, Fin 4, Fin 5, Fin 6, Fin 7]"

text \<open>The empty options objects, the source's default \<open>{}\<close>.\<close>

definition no_options :: options where
  "no_options =
     \<lparr>consolidationPeriod = None, consolidationThreshold = None, rsiLowerThreshold = None,
      rsiUpperThreshold = None, volumeIncreaseThreshold = None, minBreakoutPercent = None,
      maxBreakoutPercent = None, bollingerPeriod = None, atrPeriod = None,
      lookbackPeriod = None, ema200Required = None\<rparr>"

definition no_signal_options :: signal_options where
  "no_signal_options =
     \<lparr>so_consolidationPeriod = None, so_consolidationThreshold = None,
      so_rsiLowerThreshold = None, so_rsiUpperThreshold = None,
      so_volumeIncreaseThreshold = None, so_minBreakoutPercent = None,
      so_maxBreakoutPercent = None, so_minMTFScore = None, so_minAlignmentScore = None,
      so_minDailyScore = None, so_requireEma200 = None, so_maxPrice = None,
      so_riskRewardRatio = None, so_maxStopLossPercent = None,
      so_minProfitPotential = None\<rparr>"

definition no_initial_params :: initial_params where
  "no_initial_params =
     \<lparr>ip_consolidationPeriod = None, ip_consolidationThreshold = None,
      ip_rsiLowerThreshold = None, ip_rsiUpperThreshold = None,
      ip_volumeIncreaseThreshold = None, ip_minBreakoutPercent = None,
      ip_maxBreakoutPercent = None, ip_riskRewardRatio = None,
      ip_maxStopLossPercent = None\<rparr>"

text \<open>A sequence of random draws that are all one half, so that every adjustment is 0.\<close>

definition half_draws :: "nat \<Rightarrow> real" where
  "half_draws k = 1 / 2"

text \<open>Initial parameters with a consolidation period of 15.\<close>

definition period15_params :: initial_params where
  "period15_params = no_initial_params\<lparr>ip_consolidationPeriod := Some 15\<rparr>"

text \<open>A coin without any timeframe data.\<close>

definition empty_coin :: coin_data where
  "empty_coin =
     \<lparr>hourlyData = None, fourHourData = None, dailyData = None,
      symbol = ''ABC'', exchange = None\<rparr>"

text \<open>Six candles at a close of 10 with equal volumes, and the same six with the last
  one 5 percent higher at twice the volume.\<close>

definition quiet_candle :: candle where
  "quiet_candle =
     \<lparr>time = 0, open = 10, high = 101 / 10, low = 99 / 10, close = 10, volume = 100\<rparr>"

definition spike_candle :: candle where
  "spike_candle =
     \<lparr>time = 0, open = 10, high = 106 / 10, low = 104 / 10, close = 105 / 10, volume = 200\<rparr>"

definition quiet_series :: "candle list" where
  "quiet_series =
     [quiet_candle, quiet_candle, quiet_candle, quiet_candle, quiet_candle, quiet_candle]"

definition spike_series :: "candle list" where
  "spike_series =
     [quiet_candle, quiet_candle, quiet_candle, quiet_candle, quiet_candle, spike_candle]"

text \<open>Options with an ATR period of 2 and without the EMA-200 requirement.\<close>

definition short_options :: options where
  "short_options = no_options\<lparr>atrPeriod := Some 2, ema200Required := Some False\<rparr>"

text \<open>A candle at the price 1 without range or volume.\<close>

definition flat_candle :: candle where
  "flat_candle = \<lparr>time = 0, open = 1, high = 1, low = 1, close = 1, volume = 0\<rparr>"

text \<open>A coin below one dollar and a coin at ten dollars, each with the same six candles
  in all three timeframes.\<close>

definition penny_candle :: candle where
  "penny_candle =
     \<lparr>time = 0, open = 1 / 2, high = 51 / 100, low = 49 / 100, close = 1 / 2, volume = 100\<rparr>"

definition penny_series :: "candle list" where
  "penny_series =
     [penny_candle, penny_candle, penny_candle, penny_candle, penny_candle, penny_candle]"

definition penny_coin :: coin_data where
  "penny_coin =
     \<lparr>hourlyData = Some penny_series, fourHourData = Some penny_series,
      dailyData = Some penny_series, symbol = ''PNY'', exchange = None\<rparr>"

definition dear_coin :: coin_data where
  "dear_coin =
     \<lparr>hourlyData = Some quiet_series, fourHourData = Some quiet_series,
      dailyData = Some quiet_series, symbol = ''DEAR'', exchange = None\<rparr>"

text \<open>Twenty candles that swing between 0.100 and 0.102, the first with a wick up to
  0.11 and the last at twice the volume; the coin has them in all three timeframes.\<close>

definition swing_low :: candle where
  "swing_low =
     \<lparr>time = 0, open = 100 / 1000, high = 1015 / 10000, low = 985 / 10000,
      close = 100 / 1000, volume = 100\<rparr>"

definition swing_high :: candle where
  "swing_high =
     \<lparr>time = 0, open = 102 / 1000, high = 1035 / 10000, low = 1005 / 10000,
      close = 102 / 1000, volume = 100\<rparr>"

definition swing_first :: candle where
  "swing_first = swing_low\<lparr>high := 110 / 1000\<rparr>"

definition swing_last :: candle where
  "swing_last = swing_high\<lparr>volume := 200\<rparr>"

definition swing_series :: "candle list" where
  "swing_series =
     [swing_first, swing_high, swing_low, swing_high, swing_low, swing_high, swing_low,
      swing_high, swing_low, swing_high, swing_low, swing_high, swing_low, swing_high,
      swing_low, swing_high, swing_low, swing_high, swing_low, swing_last]"

definition swing_coin :: coin_data where
  "swing_coin =
     \<lparr>hourlyData = Some swing_series, fourHourData = Some swing_series,
      dailyData = Some swing_series, symbol = ''SWG'', exchange = None\<rparr>"

text \<open>The default options without the EMA-200 requirement.\<close>

definition swing_options :: signal_options where
  "swing_options = no_signal_options\<lparr>so_requireEma200 := Some False\<rparr>"

text \<open>
  A steadily rising history: candle \<open>t\<close> closes at \<open>1000 + t\<close> with a high one above and a
  low one below, and its volume is \<open>1000 + t\<close>. The initial parameters accept its small
  steps (0.05 percent for volume and price) and an RSI of up to 100. Every prefix of at
  least 200 candles is then a breakout candidate with a stop 2 below and a target 6 above
  its last close, and a trade entered at bar \<open>i\<close> takes its profit four bars later:
  \<open>ramp_trade i\<close>.
\<close>

definition ramp_candle :: "nat \<Rightarrow> candle" where
  "ramp_candle t =
     \<lparr>time = int t, open = 1000 + real t, high = 1001 + real t, low = 999 + real t,
      close = 1000 + real t, volume = 1000 + real t\<rparr>"

definition ramp :: "nat \<Rightarrow> candle list" where
  "ramp n = map ramp_candle [0..<n]"

definition ramp_params :: initial_params where
  "ramp_params =
     no_initial_params\<lparr>ip_rsiUpperThreshold := Some 100,
                        ip_volumeIncreaseThreshold := Some (1 / 2000),
                        ip_minBreakoutPercent := Some (1 / 2000)\<rparr>"

definition ramp_options :: options where
  "ramp_options = params_options (initial_best ramp_params)"

definition ramp_trade :: "nat \<Rightarrow> trade" where
  "ramp_trade i =
     \<lparr>entryBar = i, entryPrice = 1000 + real i,
      stopLoss = Num (Fin (997 + real i)), takeProfit = Num (Fin (1005 + real i)),
      exitPrice = Num (Fin (1005 + real i)), exitType = Some ''Take Profit'',
      barsHeld = 4, pnl = Fin (500 / (1000 + real i)), date = int i\<rparr>"

section \<open>Verification\<close>

lemma let_wk: "a = b \<Longrightarrow> Let a f = Let b f" by simp

lemma ema_loop_length: "length (ema_loop m e xs) = length xs"
  by (induction xs arbitrary: e) (simp_all add: Let_def)
lemma rsi_loop_length: "length (rsi_loop p g l xs) = length xs"
  by (induction xs arbitrary: g l) (simp_all add: Let_def)
lemma atr_loop_length: "length (atr_loop p a xs) = length xs"
  by (induction xs arbitrary: a) (simp_all add: Let_def)

lemma ema_loop_nonnull: "v \<in> set (ema_loop m e xs) \<Longrightarrow> v \<noteq> Null"
  by (induction xs arbitrary: e) (auto simp add: Let_def)
lemma rsi_loop_nonnull: "v \<in> set (rsi_loop p g l xs) \<Longrightarrow> v \<noteq> Null"
  by (induction xs arbitrary: g l) (auto simp add: Let_def)
lemma atr_loop_nonnull: "v \<in> set (atr_loop p a xs) \<Longrightarrow> v \<noteq> Null"
  by (induction xs arbitrary: a) (auto simp add: Let_def)

lemma sma_length: "length (calculateSMA data period) = length data"
  by (simp add: calculateSMA_def)

lemma sma_null: "i < length data \<Longrightarrow> int i < int period - 1 \<Longrightarrow> calculateSMA data period ! i = Null"
  by (simp add: calculateSMA_def)

lemma sma_nonnull: "period \<le> length data \<Longrightarrow> i < length data \<Longrightarrow> int period - 1 \<le> int i \<Longrightarrow> calculateSMA data period ! i \<noteq> Null"
  by (simp add: calculateSMA_def)

lemma ema_shape:
  assumes "1 \<le> period"
  shows "\<exists>r. calculateEMA data period = Inr r \<and> length r = length data
     \<and> (\<forall>i. i < length data \<and> int i < int period - 1 \<longrightarrow> r ! i = Null)
     \<and> (period \<le> length data \<longrightarrow> (\<forall>i. i < length data \<and> int period - 1 \<le> int i \<longrightarrow> r ! i \<noteq> Null))"
proof (cases "length data < period")
  case True
  then show ?thesis by (simp add: calculateEMA_def)
next
  case False
  let ?e = "js_div (js_sum (take period data)) (Fin (real period))"
  let ?r = "replicate (period - 1) Null @ [Num ?e] @ ema_loop (js_div (Fin 2) (Fin (real period + 1))) ?e (drop period data)"
  have eq: "calculateEMA data period = Inr ?r"
    using assms False by (simp add: calculateEMA_def Let_def)
  have len: "length ?r = length data"
    using assms False by (simp add: ema_loop_length)
  have nul: "\<forall>i. i < length data \<and> int i < int period - 1 \<longrightarrow> ?r ! i = Null"
    by (auto simp add: nth_append)
  have non: "\<forall>i. i < length data \<and> int period - 1 \<le> int i \<longrightarrow> ?r ! i \<noteq> Null"
  proof (intro allI impI)
    fix i assume a: "i < length data \<and> int period - 1 \<le> int i"
    then have "i - (period - 1) < length ([Num ?e] @ ema_loop (js_div (Fin 2) (Fin (real period + 1))) ?e (drop period data))"
      using assms False by (simp add: ema_loop_length) linarith
    then have "([Num ?e] @ ema_loop (js_div (Fin 2) (Fin (real period + 1))) ?e (drop period data)) ! (i - (period - 1)) \<in> set ([Num ?e] @ ema_loop (js_div (Fin 2) (Fin (real period + 1))) ?e (drop period data))"
      by (rule nth_mem)
    then have "([Num ?e] @ ema_loop (js_div (Fin 2) (Fin (real period + 1))) ?e (drop period data)) ! (i - (period - 1)) \<noteq> Null"
      using ema_loop_nonnull by auto
    moreover have "?r ! i = ([Num ?e] @ ema_loop (js_div (Fin 2) (Fin (real period + 1))) ?e (drop period data)) ! (i - (period - 1))"
      using a by (simp add: nth_append) linarith
    ultimately show "?r ! i \<noteq> Null" by simp
  qed
  show ?thesis using eq len nul non by blast
qed


lemma price_changes_length: "length (price_changes data) = length data"
  by (simp add: price_changes_def)

lemma rsi_shape:
  "length (calculateRSI data period) = length data
   \<and> (\<forall>i. i < length data \<and> i < period \<longrightarrow> calculateRSI data period ! i = Null)
   \<and> (period + 1 \<le> length data \<longrightarrow>
        (\<forall>i. i < length data \<and> period \<le> i \<longrightarrow> calculateRSI data period ! i \<noteq> Null))"
proof (cases "length data < period + 1")
  case True
  then show ?thesis by (simp add: calculateRSI_def)
next
  case False
  obtain g l where eq: "calculateRSI data period =
      replicate period Null @ (Num (rsi_value g l) # rsi_loop period g l (drop (period + 1) (price_changes data)))"
    using False by (simp add: calculateRSI_def Let_def)
  let ?t = "Num (rsi_value g l) # rsi_loop period g l (drop (period + 1) (price_changes data))"
  have len: "length (calculateRSI data period) = length data"
    using False by (simp add: eq rsi_loop_length price_changes_length)
  have nul: "\<forall>i. i < length data \<and> i < period \<longrightarrow> calculateRSI data period ! i = Null"
    by (simp add: eq nth_append)
  have tl: "\<And>v. v \<in> set ?t \<Longrightarrow> v \<noteq> Null"
    by (auto dest: rsi_loop_nonnull)
  have non: "\<forall>i. i < length data \<and> period \<le> i \<longrightarrow> calculateRSI data period ! i \<noteq> Null"
  proof (intro allI impI)
    fix i assume a: "i < length data \<and> period \<le> i"
    have "length ?t = length data - period"
      using False by (simp add: rsi_loop_length price_changes_length)
    with a have "i - period < length ?t" by arith
    then have "?t ! (i - period) \<in> set ?t" by (rule nth_mem)
    then have "?t ! (i - period) \<noteq> Null" by (rule tl)
    moreover have "calculateRSI data period ! i = ?t ! (i - period)"
      using a by (simp add: eq nth_append)
    ultimately show "calculateRSI data period ! i \<noteq> Null" by simp
  qed
  show ?thesis using len nul non by blast
qed

lemma true_ranges_length: "0 < length h \<Longrightarrow> length (true_ranges h l c) = length h"
proof -
  assume "0 < length h"
  moreover have "length (true_ranges h l c) = Suc (length h - 1)"
    by (simp add: true_ranges_def)
  ultimately show ?thesis by arith
qed

lemma atr_shape:
  assumes p: "1 \<le> period"
    and ll: "length lowData = length highData" and lc: "length closeData = length highData"
    and ok: "length highData < 2 \<or> period \<le> length highData"
  shows "length (calculateATR highData lowData closeData period) = length highData
   \<and> (\<forall>i. i < length highData \<and> i + 1 < period \<longrightarrow>
          calculateATR highData lowData closeData period ! i = Null)
   \<and> (2 \<le> length highData \<and> period \<le> length highData \<longrightarrow>
        (\<forall>i. i < length highData \<and> period \<le> i + 1 \<longrightarrow>
           calculateATR highData lowData closeData period ! i \<noteq> Null))"
proof (cases "length highData < 2")
  case True
  then show ?thesis by (simp add: calculateATR_def)
next
  case False
  with ok have pl: "period \<le> length highData" by simp
  let ?tr = "true_ranges highData lowData closeData"
  have trl: "length ?tr = length highData" using False by (intro true_ranges_length) auto
  let ?a = "js_div (js_sum (take period ?tr)) (Fin (real period))"
  let ?t = "atr_loop period ?a (drop period ?tr)"
  let ?r = "(replicate period Null)[period - 1 := Num ?a] @ ?t"
  have eq: "calculateATR highData lowData closeData period = ?r"
    using False pl p ll lc trl by (simp add: calculateATR_def Let_def)
  have len: "length ?r = length highData"
    using pl trl by (simp add: atr_loop_length)
  have nul: "\<forall>i. i < length highData \<and> i + 1 < period \<longrightarrow> ?r ! i = Null"
    by (auto simp add: nth_append)
  have non: "\<forall>i. i < length highData \<and> period \<le> i + 1 \<longrightarrow> ?r ! i \<noteq> Null"
  proof (intro allI impI)
    fix i assume a: "i < length highData \<and> period \<le> i + 1"
    show "?r ! i \<noteq> Null"
    proof (cases "i < period")
      case True
      with a have "i = period - 1" by arith
      then show ?thesis using p by (simp add: nth_append)
    next
      case False
      then have "i - period < length ?t" using a pl trl by (simp add: atr_loop_length)
      then have "?t ! (i - period) \<in> set ?t" by (rule nth_mem)
      then have "?t ! (i - period) \<noteq> Null" by (rule atr_loop_nonnull)
      moreover have "?r ! i = ?t ! (i - period)" using False by (simp add: nth_append)
      ultimately show ?thesis by simp
    qed
  qed
  show ?thesis unfolding eq using len nul non by blast
qed

subsection \<open>C1: shape of the indicator series\<close>

text \<open>
  C1, as amended. For every period of at least 1 and every numeric input array:
  \<open>calculateSMA\<close>, \<open>calculateEMA\<close> and \<open>calculateRSI\<close> return an array of the length of
  the input, and so does \<open>calculateATR\<close> when its three inputs have one length that is
  below 2 or at least the period. Every index before \<open>period - 1\<close> holds null for SMA,
  EMA and ATR, every index before \<open>period\<close> for RSI; and for an input of length at
  least \<open>period + 5\<close> every index from \<open>period - 1\<close> on (from \<open>period\<close> on for RSI) holds
  a non-null value.
\<close>

theorem indicator_warm_up:
  assumes "1 \<le> period"
  shows "(length (calculateSMA data period) = length data
      \<and> (\<forall>i. i < length data \<and> i + 1 < period \<longrightarrow> calculateSMA data period ! i = Null)
      \<and> (period + 5 \<le> length data \<longrightarrow>
           (\<forall>i. i < length data \<and> period \<le> i + 1 \<longrightarrow> calculateSMA data period ! i \<noteq> Null)))
    \<and> (\<exists>r. calculateEMA data period = Inr r \<and> length r = length data
      \<and> (\<forall>i. i < length data \<and> i + 1 < period \<longrightarrow> r ! i = Null)
      \<and> (period + 5 \<le> length data \<longrightarrow>
           (\<forall>i. i < length data \<and> period \<le> i + 1 \<longrightarrow> r ! i \<noteq> Null)))
    \<and> (length (calculateRSI data period) = length data
      \<and> (\<forall>i. i < length data \<and> i < period \<longrightarrow> calculateRSI data period ! i = Null)
      \<and> (period + 5 \<le> length data \<longrightarrow>
           (\<forall>i. i < length data \<and> period \<le> i \<longrightarrow> calculateRSI data period ! i \<noteq> Null)))
    \<and> (length lowData = length data \<and> length closeData = length data
         \<and> (length data < 2 \<or> period \<le> length data) \<longrightarrow>
        length (calculateATR data lowData closeData period) = length data
      \<and> (\<forall>i. i < length data \<and> i + 1 < period \<longrightarrow>
             calculateATR data lowData closeData period ! i = Null)
      \<and> (period + 5 \<le> length data \<longrightarrow>
           (\<forall>i. i < length data \<and> period \<le> i + 1 \<longrightarrow>
              calculateATR data lowData closeData period ! i \<noteq> Null)))"
proof (intro conjI)
  show "length (calculateSMA data period) = length data" by (rule sma_length)
  show "\<forall>i. i < length data \<and> i + 1 < period \<longrightarrow> calculateSMA data period ! i = Null"
    by (auto intro: sma_null)
  show "period + 5 \<le> length data \<longrightarrow>
      (\<forall>i. i < length data \<and> period \<le> i + 1 \<longrightarrow> calculateSMA data period ! i \<noteq> Null)"
  proof (intro impI allI)
    fix i assume "period + 5 \<le> length data" "i < length data \<and> period \<le> i + 1"
    then show "calculateSMA data period ! i \<noteq> Null"
      by (intro sma_nonnull) auto
  qed
  obtain r where r: "calculateEMA data period = Inr r" "length r = length data"
      "\<forall>i. i < length data \<and> int i < int period - 1 \<longrightarrow> r ! i = Null"
      "period \<le> length data \<longrightarrow>
         (\<forall>i. i < length data \<and> int period - 1 \<le> int i \<longrightarrow> r ! i \<noteq> Null)"
    using ema_shape [OF assms, of data] by blast
  have "\<forall>i. i < length data \<and> i + 1 < period \<longrightarrow> r ! i = Null"
    using r(3) by auto
  moreover have "period + 5 \<le> length data \<longrightarrow>
      (\<forall>i. i < length data \<and> period \<le> i + 1 \<longrightarrow> r ! i \<noteq> Null)"
    using r(4) by auto
  ultimately show "\<exists>r. calculateEMA data period = Inr r \<and> length r = length data
      \<and> (\<forall>i. i < length data \<and> i + 1 < period \<longrightarrow> r ! i = Null)
      \<and> (period + 5 \<le> length data \<longrightarrow>
           (\<forall>i. i < length data \<and> period \<le> i + 1 \<longrightarrow> r ! i \<noteq> Null))"
    using r(1,2) by blast
  show "length (calculateRSI data period) = length data" using rsi_shape by blast
  show "\<forall>i. i < length data \<and> i < period \<longrightarrow> calculateRSI data period ! i = Null"
    using rsi_shape by blast
  show "period + 5 \<le> length data \<longrightarrow>
      (\<forall>i. i < length data \<and> period \<le> i \<longrightarrow> calculateRSI data period ! i \<noteq> Null)"
    using rsi_shape [of data period] by auto
  show "length lowData = length data \<and> length closeData = length data
         \<and> (length data < 2 \<or> period \<le> length data) \<longrightarrow>
        length (calculateATR data lowData closeData period) = length data
      \<and> (\<forall>i. i < length data \<and> i + 1 < period \<longrightarrow>
             calculateATR data lowData closeData period ! i = Null)
      \<and> (period + 5 \<le> length data \<longrightarrow>
           (\<forall>i. i < length data \<and> period \<le> i + 1 \<longrightarrow>
              calculateATR data lowData closeData period ! i \<noteq> Null))"
  proof
    assume a: "length lowData = length data \<and> length closeData = length data
         \<and> (length data < 2 \<or> period \<le> length data)"
    then have s: "length (calculateATR data lowData closeData period) = length data
       \<and> (\<forall>i. i < length data \<and> i + 1 < period \<longrightarrow>
              calculateATR data lowData closeData period ! i = Null)
       \<and> (2 \<le> length data \<and> period \<le> length data \<longrightarrow>
            (\<forall>i. i < length data \<and> period \<le> i + 1 \<longrightarrow>
               calculateATR data lowData closeData period ! i \<noteq> Null))"
      using atr_shape [OF assms, of lowData data closeData] by blast
    then show "length (calculateATR data lowData closeData period) = length data
      \<and> (\<forall>i. i < length data \<and> i + 1 < period \<longrightarrow>
             calculateATR data lowData closeData period ! i = Null)
      \<and> (period + 5 \<le> length data \<longrightarrow>
           (\<forall>i. i < length data \<and> period \<le> i + 1 \<longrightarrow>
              calculateATR data lowData closeData period ! i \<noteq> Null))"
      by auto
  qed
qed

text \<open>The theorem at period 2 on seven prices.\<close>

theorem indicator_warm_up_witness:
  "length (calculateSMA prices7 2) = 7 \<and> calculateSMA prices7 2 ! 0 = Null
   \<and> calculateSMA prices7 2 ! 1 \<noteq> Null \<and> calculateSMA prices7 2 ! 6 \<noteq> Null
   \<and> (\<exists>r. calculateEMA prices7 2 = Inr r \<and> length r = 7 \<and> r ! 0 = Null \<and> r ! 1 \<noteq> Null)
   \<and> length (calculateRSI prices7 2) = 7 \<and> calculateRSI prices7 2 ! 1 = Null
   \<and> calculateRSI prices7 2 ! 2 \<noteq> Null
   \<and> length (calculateATR prices7 prices7 prices7 2) = 7
   \<and> calculateATR prices7 prices7 prices7 2 ! 0 = Null
   \<and> calculateATR prices7 prices7 prices7 2 ! 1 \<noteq> Null"
proof -
  have len: "length prices7 = 7" by (simp add: prices7_def)
  have h: "(1::nat) \<le> 2" by simp
  show ?thesis
    using indicator_warm_up [OF h, of prices7 prices7 prices7] unfolding len
    by (auto simp del: One_nat_def)
qed

text \<open>C1 as stated fails: with period 2 the SMA at index 1, an index before the
  period, is 1.5 and not null.\<close>

theorem sma_index_before_period_counterexample:
  "calculateSMA [Fin 1, Fin 2, Fin 3] 2 ! 1 = Num (Fin (3 / 2))"
  by (simp add: calculateSMA_def upt_rec num_at_def)

subsection \<open>C4: a backtest on fewer than 250 candles\<close>

text \<open>
  C4. For every input of fewer than 250 candles and every options object,
  \<open>backtestBreakoutStrategy\<close> returns (it does not throw) the error object, which is not
  a results object and so has no trades.
\<close>

theorem backtest_short_input_error:
  assumes "length historicalData < 250"
  shows "backtestBreakoutStrategy historicalData opts
           = Inr (BacktestError ''Not enough historical data for backtest'')
         \<and> (\<forall>b. backtestBreakoutStrategy historicalData opts \<noteq> Inr (BacktestResults b))
         \<and> (\<forall>e. backtestBreakoutStrategy historicalData opts \<noteq> Inl e)"
  using assms by (simp add: backtestBreakoutStrategy_def)

theorem backtest_short_input_error_witness:
  "backtestBreakoutStrategy [] no_options
     = Inr (BacktestError ''Not enough historical data for backtest'')"
proof -
  have h: "length ([] :: candle list) < 250" by simp
  show ?thesis using backtest_short_input_error [OF h, of no_options] by simp
qed

subsection \<open>C6: the bounds of the optimizer's perturbation\<close>

text \<open>
  C6, as amended. Every one of the ten candidates of a perturbation step has each of its
  nine fields equal to \<open>max lo (min hi (base + delta))\<close>, where \<open>delta = (2u - 1) * amount\<close> for
  the draw \<open>u\<close> of that field, and the bounds are those of the optimizer:
  consolidationPeriod [4, 10], consolidationThreshold [0.05, 0.30], rsiLowerThreshold
  [40, 60], rsiUpperThreshold [70, 85], volumeIncreaseThreshold [0.05, 0.30],
  minBreakoutPercent [0.005, 0.05], maxBreakoutPercent [0.10, 0.40], riskRewardRatio
  [2, 5], maxStopLossPercent [3, 8].
\<close>

theorem variation_clamps:
  assumes "i < 10"
  shows "length (generateParameterVariations base rnd k) = 10
    \<and> (let c = generateParameterVariations base rnd k ! i; j = k + 9 * i in
        p_consolidationPeriod c
          = max 4 (min 10 (p_consolidationPeriod base + (rnd j * 2 - 1) * 1))
      \<and> p_consolidationThreshold c
          = max (5 / 100) (min (30 / 100)
              (p_consolidationThreshold base + (rnd (j + 1) * 2 - 1) * (5 / 100)))
      \<and> p_rsiLowerThreshold c
          = max 40 (min 60 (p_rsiLowerThreshold base + (rnd (j + 2) * 2 - 1) * 5))
      \<and> p_rsiUpperThreshold c
          = max 70 (min 85 (p_rsiUpperThreshold base + (rnd (j + 3) * 2 - 1) * 5))
      \<and> p_volumeIncreaseThreshold c
          = max (5 / 100) (min (30 / 100)
              (p_volumeIncreaseThreshold base + (rnd (j + 4) * 2 - 1) * (5 / 100)))
      \<and> p_minBreakoutPercent c
          = max (5 / 1000) (min (5 / 100)
              (p_minBreakoutPercent base + (rnd (j + 5) * 2 - 1) * (5 / 1000)))
      \<and> p_maxBreakoutPercent c
          = max (10 / 100) (min (40 / 100)
              (p_maxBreakoutPercent base + (rnd (j + 6) * 2 - 1) * (5 / 100)))
      \<and> p_riskRewardRatio c
          = max 2 (min 5 (p_riskRewardRatio base + (rnd (j + 7) * 2 - 1) * (5 / 10)))
      \<and> p_maxStopLossPercent c
          = max 3 (min 8 (p_maxStopLossPercent base + (rnd (j + 8) * 2 - 1) * 1)))"
  using assms
  by (simp add: generateParameterVariations_def variation_def randomAdjust_def Let_def)

theorem variation_clamps_witness:
  "p_consolidationPeriod
     (generateParameterVariations (initial_best no_initial_params) half_draws 0 ! 3) = 6
   \<and> p_maxStopLossPercent
     (generateParameterVariations (initial_best no_initial_params) half_draws 0 ! 3) = 5"
proof -
  have h: "(3::nat) < 10" by simp
  show ?thesis
    using variation_clamps [OF h, of "initial_best no_initial_params" half_draws 0]
    by (simp add: Let_def half_draws_def initial_best_def no_initial_params_def opt_or_def)
qed

text \<open>C6 as stated fails: from a consolidation period of 15 and an adjustment of 0 the
  candidate's period is 10, where the range [3, 20] of the claim would give 15.\<close>

theorem consolidation_period_bound_counterexample:
  "p_consolidationPeriod
     (generateParameterVariations (initial_best period15_params) half_draws 0 ! 0) = 10
   \<and> max 3 (min 20 (p_consolidationPeriod (initial_best period15_params)
                      + (half_draws 0 * 2 - 1) * 1)) = 15"
  by (simp add: generateParameterVariations_def variation_def randomAdjust_def Let_def
      half_draws_def initial_best_def period15_params_def no_initial_params_def opt_or_def
      upt_rec)

subsection \<open>The analysis always returns\<close>

lemma calculateEMA_not_Inl [simp]: "0 < period \<Longrightarrow> calculateEMA data period \<noteq> Inl e"
  using ema_shape [of period data] by auto

lemma calculateMACD_not_Inl [simp]:
  assumes "0 < fastPeriod" "0 < slowPeriod" "0 < signalPeriod"
  shows "calculateMACD data fastPeriod slowPeriod signalPeriod \<noteq> Inl e"
  using assms by (auto simp add: calculateMACD_def Let_def split: sum.splits if_splits)

lemma length_slice_from_neg:
  "0 < n \<Longrightarrow> n \<le> length xs \<Longrightarrow> length (slice_from xs (- int n)) = n"
  by (auto simp add: slice_from_def)

lemma detectBollingerBreakout_not_Inl [simp]:
  assumes "2 \<le> lb"
  shows "detectBollingerBreakout priceData bbData lb \<noteq> Inl e"
proof (cases "length priceData < lb \<or> length bbData < lb")
  case True
  then show ?thesis by (simp add: detectBollingerBreakout_def)
next
  case False
  then have "length (slice_from bbData (- int lb)) = lb"
    using assms by (intro length_slice_from_neg) simp_all
  then show ?thesis
    using assms False
    by (auto simp add: detectBollingerBreakout_def Let_def bb_upper_at_def split: sum.splits)
qed

lemma sum_case_Inr: "x = Inr v \<Longrightarrow> (case x of Inl e \<Rightarrow> f e | Inr r \<Rightarrow> g r) = g v"
  by simp

text \<open>The shape of every result of the analysis.\<close>

lemma analyzeBreakout_Inr:
  "\<exists>st cl atr bb mets. analyzeBreakout data opts =
     Inr \<lparr>isBreakoutCandidate = (70 \<le> min 100 (fst st)),
          breakoutScore = min 100 (fst st),
          signals = snd st,
          metrics = mets,
          profitPotential = calculateProfitPotential cl atr bb (min 100 (fst st)),
          riskLevel = calculateRiskLevel cl atr (min 100 (fst st)),
          suggestedStopLoss = fst (suggested_levels cl atr (70 \<le> min 100 (fst st))),
          suggestedTakeProfit = snd (suggested_levels cl atr (70 \<le> min 100 (fst st)))\<rparr>"
proof -
  obtain ema200 where e: "calculateEMA (map (\<lambda>d. Fin (close d)) data) 200 = Inr ema200"
    by (cases "calculateEMA (map (\<lambda>d. Fin (close d)) data) 200") simp_all
  obtain macdData where m: "calculateMACD (map (\<lambda>d. Fin (close d)) data) 12 26 9 = Inr macdData"
    by (cases "calculateMACD (map (\<lambda>d. Fin (close d)) data) 12 26 9") simp_all
  obtain bbBreakout where b: "detectBollingerBreakout (map (\<lambda>d. Fin (close d)) data)
      (calculateBollingerBands (map (\<lambda>d. Fin (close d)) data)
         (cfg_bollingerPeriod (analyze_config opts)) (Fin 2)) 10 = Inr bbBreakout"
    by (cases "detectBollingerBreakout (map (\<lambda>d. Fin (close d)) data)
      (calculateBollingerBands (map (\<lambda>d. Fin (close d)) data)
         (cfg_bollingerPeriod (analyze_config opts)) (Fin 2)) 10") simp_all
  show ?thesis
    unfolding analyzeBreakout_def Let_def sum_case_Inr [OF e] sum_case_Inr [OF m]
      sum_case_Inr [OF b]
    by blast
qed

lemma analyzeBreakout_facts:
  "\<exists>r. analyzeBreakout data opts = Inr r
     \<and> breakoutScore r \<le> 100
     \<and> isBreakoutCandidate r = (70 \<le> breakoutScore r)
     \<and> (\<exists>cl atr bb. profitPotential r = calculateProfitPotential cl atr bb (breakoutScore r))
     \<and> (\<exists>cl atr. riskLevel r = calculateRiskLevel cl atr (breakoutScore r))"
proof -
  obtain st cl atr bb mets where "analyzeBreakout data opts =
     Inr \<lparr>isBreakoutCandidate = (70 \<le> min 100 (fst st)),
          breakoutScore = min 100 (fst st),
          signals = snd st,
          metrics = mets,
          profitPotential = calculateProfitPotential cl atr bb (min 100 (fst st)),
          riskLevel = calculateRiskLevel cl atr (min 100 (fst st)),
          suggestedStopLoss = fst (suggested_levels cl atr (70 \<le> min 100 (fst st))),
          suggestedTakeProfit = snd (suggested_levels cl atr (70 \<le> min 100 (fst st)))\<rparr>"
    using analyzeBreakout_Inr [of data opts] by blast
  then show ?thesis by auto
qed

subsection \<open>C3: the fallbacks of the multi-timeframe result\<close>

lemmas js_defs = js_sub_def js_gt_def js_ge_def js_max2_def js_min2_def js_max_list_def
  js_min_list_def js_or_def val_at_def num_at_def js_sum_def js_trunc_def slice_from_def
  slice_def round4_def
lemmas indicator_defs = calculateSMA_def calculateEMA_def price_changes_def rsi_step_sum_def
  rsi_value_def calculateRSI_def true_ranges_def calculateATR_def bb_null_def
  calculateBollingerBands_def calculateOBV_def macd_null_def calculateMACD_def
  isPriceConsolidating_def isVolumeIncreasing_def bb_upper_at_def
  detectBollingerBreakout_def detectPositiveRSIDivergence_def
lemmas analysis_defs = opt_or_def analyze_config_def add_signal_def
  calculateProfitPotential_def calculateRiskLevel_def bb_last_def macd_at_def
  analysis_metrics_def breakout_conditions_def suggested_levels_def analyzeBreakout_def
lemmas fixture_defs = quiet_candle_def spike_candle_def quiet_series_def spike_series_def
  short_options_def no_options_def

lemma rep_num: "replicate (numeral k) x = x # replicate (pred_numeral k) x"
  by (simp add: numeral_eq_Suc)

text \<open>The analysis of the two test series, evaluated.\<close>

lemma analysis_spike:
  "analyzeBreakout spike_series short_options =
     Inr \<lparr>isBreakoutCandidate = True, breakoutScore = 70,
          signals = [''Price consolidation detected'', ''Volume increasing'',
                     ''OBV accumulation'', ''Ideal breakout percentage''],
          metrics = \<lparr>m_rsi = Null, m_bollingerWidth = Null, m_bollingerPercent = Null,
                      m_atr = Num (Fin (2 / 5)), m_aboveEma200 = None,
                      m_priceChangePercent = Fin 5, m_volumeChangePercent = Fin 100\<rparr>,
          profitPotential = ''Unknown'', riskLevel = ''Unknown'',
          suggestedStopLoss = Num (Fin (101 / 10)),
          suggestedTakeProfit = Num (Fin (117 / 10))\<rparr>"
  by (simp add: js_defs indicator_defs analysis_defs fixture_defs upt_rec Let_def
      rep_num cong: let_wk)

lemma analysis_quiet:
  "analyzeBreakout quiet_series short_options =
     Inr \<lparr>isBreakoutCandidate = False, breakoutScore = 30,
          signals = [''Price consolidation detected''],
          metrics = \<lparr>m_rsi = Null, m_bollingerWidth = Null, m_bollingerPercent = Null,
                      m_atr = Num (Fin (1 / 5)), m_aboveEma200 = None,
                      m_priceChangePercent = Fin 0, m_volumeChangePercent = Fin 0\<rparr>,
          profitPotential = ''Unknown'', riskLevel = ''Unknown'',
          suggestedStopLoss = Undefined, suggestedTakeProfit = Undefined\<rparr>"
  by (simp add: js_defs indicator_defs analysis_defs fixture_defs upt_rec Let_def
      rep_num cong: let_wk)

lemma calculateProfitPotential_nonempty: "calculateProfitPotential cl atr bb s \<noteq> []"
  by (simp add: calculateProfitPotential_def Let_def)

lemma calculateRiskLevel_nonempty: "calculateRiskLevel cl atr s \<noteq> []"
  by (simp add: calculateRiskLevel_def Let_def)

text \<open>
  C3, as amended. For every three candle sets and every options object,
  \<open>multiTimeframeAnalysis\<close> returns a result whose profitPotential and riskLevel are those
  of the daily analysis (they are never empty, so no fallback is taken), and whose
  suggestedStopLoss and suggestedTakeProfit are those of the four-hour analysis when
  that value is truthy, and those of the hourly analysis otherwise; the daily stop loss
  and take profit are not used.
\<close>

theorem mtf_fallbacks:
  "\<exists>rh rf rd m.
      analyzeBreakout hourly opts = Inr rh
    \<and> analyzeBreakout fourHour opts = Inr rf
    \<and> analyzeBreakout daily opts = Inr rd
    \<and> multiTimeframeAnalysis hourly fourHour daily opts = Inr m
    \<and> mtf_profitPotential m = profitPotential rd
    \<and> mtf_riskLevel m = riskLevel rd
    \<and> mtf_suggestedStopLoss m = js_or (suggestedStopLoss rf) (suggestedStopLoss rh)
    \<and> mtf_suggestedTakeProfit m = js_or (suggestedTakeProfit rf) (suggestedTakeProfit rh)"
proof -
  obtain rh where rh: "analyzeBreakout hourly opts = Inr rh"
    using analyzeBreakout_facts [of hourly opts] by blast
  obtain rf where rf: "analyzeBreakout fourHour opts = Inr rf"
    using analyzeBreakout_facts [of fourHour opts] by blast
  obtain rd where rd: "analyzeBreakout daily opts = Inr rd"
    and pp: "\<exists>cl atr bb. profitPotential rd = calculateProfitPotential cl atr bb (breakoutScore rd)"
    and rl: "\<exists>cl atr. riskLevel rd = calculateRiskLevel cl atr (breakoutScore rd)"
    using analyzeBreakout_facts [of daily opts] by blast
  have p: "profitPotential rd \<noteq> []" using pp by (metis calculateProfitPotential_nonempty)
  have r: "riskLevel rd \<noteq> []" using rl by (metis calculateRiskLevel_nonempty)
  show ?thesis
    using p r by (simp add: multiTimeframeAnalysis_def rh rf rd Let_def str_or_def)
qed

text \<open>The theorem on the quiet series as hourly and four-hour data and the series with
  the spike as daily data.\<close>

theorem mtf_fallbacks_witness:
  "\<exists>m. multiTimeframeAnalysis quiet_series quiet_series spike_series short_options = Inr m
       \<and> mtf_profitPotential m = ''Unknown'' \<and> mtf_riskLevel m = ''Unknown''
       \<and> mtf_suggestedStopLoss m = Undefined \<and> mtf_suggestedTakeProfit m = Undefined"
  using mtf_fallbacks [of quiet_series short_options quiet_series spike_series]
  by (auto simp add: analysis_spike analysis_quiet js_or_def)

text \<open>C3 as stated fails: the daily analysis of the series with the spike suggests a
  stop loss of 10.1, and with quiet hourly and four-hour data the multi-timeframe result
  has no stop loss, where the claim takes the daily value first.\<close>

theorem mtf_stop_loss_counterexample:
  "map_sum id suggestedStopLoss (analyzeBreakout spike_series short_options)
     = Inr (Num (Fin (101 / 10)))
   \<and> map_sum id mtf_suggestedStopLoss
        (multiTimeframeAnalysis quiet_series quiet_series spike_series short_options)
     = Inr Undefined"
  by (simp add: multiTimeframeAnalysis_def analysis_spike analysis_quiet Let_def js_or_def)

subsection \<open>The backtest always returns\<close>

lemma analyzeBreakout_cases:
  obtains r where "analyzeBreakout data opts = Inr r"
  using analyzeBreakout_facts [of data opts] by blast

lemma bt_loop_Inr: "\<exists>st'. bt_loop historicalData opts i st = Inr st'"
proof (induction historicalData opts i st rule: bt_loop.induct)
  case (1 historicalData opts i st)
  show ?case
  proof (cases "int i < int (length historicalData) - 20")
    case False
    then show ?thesis by (subst bt_loop.simps) simp
  next
    case True
    obtain an where an: "analyzeBreakout (take i historicalData) opts = Inr an"
      by (rule analyzeBreakout_cases)
    show ?thesis
    proof (cases "isBreakoutCandidate an")
      case c: True
      from "1.IH"(1) [OF True an c refl]
      show ?thesis using True an c by (subst bt_loop.simps) (simp add: Let_def)
    next
      case c: False
      from "1.IH"(2) [OF True an c]
      show ?thesis using True an c by (subst bt_loop.simps) simp
    qed
  qed
qed

lemma backtest_Inr: "\<exists>b. backtestBreakoutStrategy historicalData opts = Inr b"
proof (cases "length historicalData < 250")
  case True
  then show ?thesis by (simp add: backtestBreakoutStrategy_def)
next
  case False
  obtain st' where "bt_loop historicalData opts 200
       \<lparr>bt_trades = [], bt_winning = 0, bt_losing = 0,
        bt_totalProfit = Fin 0, bt_totalLoss = Fin 0\<rparr> = Inr st'"
    using bt_loop_Inr by blast
  then show ?thesis using False by (simp add: backtestBreakoutStrategy_def)
qed

lemma evaluateParameters_Inr: "\<exists>s. evaluateParameters historicalData p = Inr s"
proof -
  obtain b where "backtestBreakoutStrategy historicalData (params_options p) = Inr b"
    using backtest_Inr by blast
  then show ?thesis
    by (cases b) (simp_all add: evaluateParameters_def Let_def)
qed

lemma calculateWinRate_Inr: "\<exists>w. calculateWinRate historicalData p = Inr w"
proof -
  obtain b where "backtestBreakoutStrategy historicalData (params_options p) = Inr b"
    using backtest_Inr by blast
  then show ?thesis
    by (cases b) (simp_all add: calculateWinRate_def)
qed

subsection \<open>C10: the optimizer keeps the best score\<close>

lemma js_gt_trans: "js_gt a b \<Longrightarrow> js_gt b c \<Longrightarrow> js_gt a c"
  by (cases a; cases b; cases c) (simp_all add: js_gt_def)

text \<open>The invariant of both loops: the running best score is the score of the running
  best parameters, and it is the initial score or greater than it.\<close>

lemma try_variations_invariant:
  assumes "evaluateParameters historicalData (fst best) = Inr (snd best)"
    and "snd best = s0 \<or> js_gt (snd best) s0"
  shows "\<exists>best'. try_variations historicalData ps best = Inr best'
      \<and> evaluateParameters historicalData (fst best') = Inr (snd best')
      \<and> (snd best' = s0 \<or> js_gt (snd best') s0)"
  using assms
proof (induction ps arbitrary: best)
  case Nil
  then show ?case by simp
next
  case (Cons p ps)
  obtain sc where sc: "evaluateParameters historicalData p = Inr sc"
    using evaluateParameters_Inr by blast
  let ?b = "if js_gt sc (snd best) then (p, sc) else best"
  have e: "evaluateParameters historicalData (fst ?b) = Inr (snd ?b)"
    using sc Cons.prems(1) by simp
  have g: "snd ?b = s0 \<or> js_gt (snd ?b) s0"
    using Cons.prems(2) by (auto intro: js_gt_trans)
  from Cons.IH [OF e g] show ?case by (simp add: sc)
qed

lemma generations_loop_invariant:
  assumes "evaluateParameters historicalData (fst best) = Inr (snd best)"
    and "snd best = s0 \<or> js_gt (snd best) s0"
  shows "\<exists>best'. generations_loop historicalData rnd g k best = Inr best'
      \<and> evaluateParameters historicalData (fst best') = Inr (snd best')
      \<and> (snd best' = s0 \<or> js_gt (snd best') s0)"
  using assms
proof (induction g arbitrary: k best)
  case 0
  then show ?case by simp
next
  case (Suc g)
  from try_variations_invariant [OF Suc.prems]
  obtain b1 where b1:
    "try_variations historicalData (generateParameterVariations (fst best) rnd k) best = Inr b1"
    "evaluateParameters historicalData (fst b1) = Inr (snd b1)"
    "snd b1 = s0 \<or> js_gt (snd b1) s0"
    by blast
  from Suc.IH [OF b1(2,3)] show ?case by (simp add: b1(1))
qed

text \<open>
  C10. For every historical data set, initial parameter set, generation count and sequence
  of random draws, \<open>optimizeParameters\<close> returns; the returned score is the score of the
  initial (default-merged) parameter set or greater than it; and the returned parameters
  evaluate to the returned score.
\<close>

theorem optimizer_keeps_best:
  "\<exists>s0 r. evaluateParameters historicalData (initial_best initialParams) = Inr s0
     \<and> optimizeParameters historicalData initialParams generations rnd = Inr r
     \<and> (score r = s0 \<or> js_gt (score r) s0)
     \<and> evaluateParameters historicalData (parameters r) = Inr (score r)"
proof -
  obtain s0 where s0: "evaluateParameters historicalData (initial_best initialParams) = Inr s0"
    using evaluateParameters_Inr by blast
  have "evaluateParameters historicalData (fst (initial_best initialParams, s0))
          = Inr (snd (initial_best initialParams, s0))"
    and "snd (initial_best initialParams, s0) = s0
          \<or> js_gt (snd (initial_best initialParams, s0)) s0"
    using s0 by simp_all
  from generations_loop_invariant [OF this, of rnd generations 0]
  obtain b where b:
    "generations_loop historicalData rnd generations 0 (initial_best initialParams, s0) = Inr b"
    "evaluateParameters historicalData (fst b) = Inr (snd b)"
    "snd b = s0 \<or> js_gt (snd b) s0"
    by blast
  obtain w where w: "calculateWinRate historicalData (fst b) = Inr w"
    using calculateWinRate_Inr by blast
  show ?thesis
    using b(2,3) by (simp add: optimizeParameters_def Let_def s0 b(1) w)
qed

subsection \<open>C2: the trades of a backtest do not overlap\<close>

lemma record_trade_trades: "bt_trades (record_trade t st) = bt_trades st @ [t]"
  by (simp add: record_trade_def)

lemma simulate_trade_entryBar: "entryBar (simulate_trade historicalData an i) = i"
  by (simp add: simulate_trade_def Let_def)

text \<open>The invariant of the main loop: every recorded trade ends before the current bar,
  and every earlier trade ends at or before the entry of every later one.\<close>

lemma bt_loop_spaced:
  assumes "bt_loop historicalData opts i st = Inr st'"
    and "sorted_wrt (\<lambda>a b. entryBar a + barsHeld a \<le> entryBar b) (bt_trades st)"
    and "\<forall>t\<in>set (bt_trades st). entryBar t + barsHeld t \<le> i"
  shows "sorted_wrt (\<lambda>a b. entryBar a + barsHeld a \<le> entryBar b) (bt_trades st')"
  using assms
proof (induction historicalData opts i st rule: bt_loop.induct)
  case (1 historicalData opts i st)
  show ?case
  proof (cases "int i < int (length historicalData) - 20")
    case False
    with "1.prems"(1) have "st' = st" by (subst (asm) bt_loop.simps) simp
    with "1.prems"(2) show ?thesis by simp
  next
    case True
    obtain an where an: "analyzeBreakout (take i historicalData) opts = Inr an"
      by (rule analyzeBreakout_cases)
    show ?thesis
    proof (cases "isBreakoutCandidate an")
      case c: True
      let ?t = "simulate_trade historicalData an i"
      have run: "bt_loop historicalData opts (Suc (i + barsHeld ?t)) (record_trade ?t st) = Inr st'"
        using "1.prems"(1) True an c by (subst (asm) bt_loop.simps) (simp add: Let_def)
      have s: "sorted_wrt (\<lambda>a b. entryBar a + barsHeld a \<le> entryBar b)
                 (bt_trades (record_trade ?t st))"
        using "1.prems"(2,3)
        by (simp add: record_trade_trades sorted_wrt_append simulate_trade_entryBar)
      have b: "\<forall>t\<in>set (bt_trades (record_trade ?t st)).
                 entryBar t + barsHeld t \<le> Suc (i + barsHeld ?t)"
        using "1.prems"(3)
        by (auto simp add: record_trade_trades simulate_trade_entryBar)
      from "1.IH"(1) [OF True an c refl run s b] show ?thesis .
    next
      case c: False
      have run: "bt_loop historicalData opts (Suc i) st = Inr st'"
        using "1.prems"(1) True an c by (subst (asm) bt_loop.simps) simp
      have b: "\<forall>t\<in>set (bt_trades st). entryBar t + barsHeld t \<le> Suc i"
        using "1.prems"(3) by auto
      from "1.IH"(2) [OF True an c run "1.prems"(2) b] show ?thesis .
    qed
  qed
qed

lemma bt_statistics_trades: "trades (bt_statistics st) = bt_trades st"
  by (simp add: bt_statistics_def Let_def)

text \<open>
  C2. For every daily candle sequence of at least 250 candles and every options object,
  the backtest returns a results object, and any two consecutive trades of its list
  satisfy \<open>trade[n+1].entryBar \<ge> trade[n].entryBar + trade[n].barsHeld\<close>.
\<close>

theorem backtest_trades_do_not_overlap:
  assumes "250 \<le> length historicalData"
  shows "\<exists>b. backtestBreakoutStrategy historicalData opts = Inr (BacktestResults b)
      \<and> (\<forall>n. n + 1 < length (trades b) \<longrightarrow>
             entryBar (trades b ! n) + barsHeld (trades b ! n)
               \<le> entryBar (trades b ! (n + 1)))"
proof -
  let ?st0 = "\<lparr>bt_trades = [], bt_winning = 0, bt_losing = 0,
               bt_totalProfit = Fin 0, bt_totalLoss = Fin 0\<rparr>"
  obtain st' where run: "bt_loop historicalData opts 200 ?st0 = Inr st'"
    using bt_loop_Inr by blast
  have s: "sorted_wrt (\<lambda>a b. entryBar a + barsHeld a \<le> entryBar b) (bt_trades st')"
    using bt_loop_spaced [OF run] by simp
  have res: "backtestBreakoutStrategy historicalData opts = Inr (BacktestResults (bt_statistics st'))"
    using assms run by (simp add: backtestBreakoutStrategy_def)
  have "\<forall>n. n + 1 < length (bt_trades st') \<longrightarrow>
             entryBar (bt_trades st' ! n) + barsHeld (bt_trades st' ! n)
               \<le> entryBar (bt_trades st' ! (n + 1))"
    using s by (auto simp add: sorted_wrt_iff_nth_less)
  then show ?thesis using res by (simp add: bt_statistics_trades)
qed

subsection \<open>C8: a flat series without volume\<close>

lemma analyzeBreakout_unfold:
  assumes "calculateEMA (map (\<lambda>d. Fin (close d)) data) 200 = Inr ema200"
    and "calculateMACD (map (\<lambda>d. Fin (close d)) data) 12 26 9 = Inr macdData"
    and "detectBollingerBreakout (map (\<lambda>d. Fin (close d)) data)
           (calculateBollingerBands (map (\<lambda>d. Fin (close d)) data)
              (cfg_bollingerPeriod (analyze_config opts)) (Fin 2)) 10 = Inr bbBreakout"
  shows "\<exists>r. analyzeBreakout data opts = Inr r
    \<and> isBreakoutCandidate r =
        (70 \<le> min 100 (fst (breakout_conditions (analyze_config opts)
           (map (\<lambda>d. Fin (close d)) data) (map (\<lambda>d. Fin (volume d)) data)
           (calculateRSI (map (\<lambda>d. Fin (close d)) data) 14)
           (calculateBollingerBands (map (\<lambda>d. Fin (close d)) data)
              (cfg_bollingerPeriod (analyze_config opts)) (Fin 2))
           ema200
           (calculateOBV (map (\<lambda>d. Fin (close d)) data) (map (\<lambda>d. Fin (volume d)) data))
           macdData bbBreakout)))"
  unfolding analyzeBreakout_def Let_def sum_case_Inr [OF assms(1)] sum_case_Inr [OF assms(2)]
    sum_case_Inr [OF assms(3)]
  by simp

lemma add_signal_fst_le: "fst (add_signal cond points label st) \<le> fst st + points"
  by (simp add: add_signal_def)

lemma add_signal_False: "add_signal False points label st = st"
  by (simp add: add_signal_def)

text \<open>When the six conditions that need a change of price or volume fail, the score is
  at most 20 + 15 + 10 + 15.\<close>

lemma breakout_conditions_bound:
  assumes "\<not> (val_at rsiData (int (length rsiData) - 1) \<noteq> Null
       \<and> js_ge (to_num (val_at rsiData (int (length rsiData) - 1))) (Fin (cfg_rsiLowerThreshold cfg))
       \<and> js_le (to_num (val_at rsiData (int (length rsiData) - 1))) (Fin (cfg_rsiUpperThreshold cfg)))"
    and "\<not> bbBreakout"
    and "\<not> isVolumeIncreasing volumeData (cfg_volumeIncreaseThreshold cfg)"
    and "\<not> detectPositiveRSIDivergence closeData rsiData (cfg_lookbackPeriod cfg)"
    and "\<not> (js_gt (to_num (val_at obvData (int (length obvData) - 1)))
                (to_num (val_at obvData (int (length obvData) - 5)))
       \<and> js_gt (js_sub (to_num (val_at obvData (int (length obvData) - 1)))
                        (to_num (val_at obvData (int (length obvData) - 5))))
                (js_mul (Fin (5 / 100)) (to_num (val_at obvData (int (length obvData) - 5)))))"
    and "\<not> (js_ge (js_div (js_sub (to_num (num_at closeData (int (length closeData) - 1)))
                                (to_num (num_at closeData (int (length closeData) - 2))))
                        (to_num (num_at closeData (int (length closeData) - 2))))
                (Fin (cfg_minBreakoutPercent cfg))
       \<and> js_le (js_div (js_sub (to_num (num_at closeData (int (length closeData) - 1)))
                                (to_num (num_at closeData (int (length closeData) - 2))))
                        (to_num (num_at closeData (int (length closeData) - 2))))
                (Fin (cfg_maxBreakoutPercent cfg)))"
  shows "fst (breakout_conditions cfg closeData volumeData rsiData bbData ema200 obvData
                macdData bbBreakout) \<le> 60"
proof -
  have a: "\<And>c1 c3 c5 c8 l1 l3 l5 l8 (b::bool).
      fst (add_signal c8 15 l8
            (if b then add_signal c5 10 l5 (add_signal c3 15 l3 (add_signal c1 20 l1 (0, [])))
             else (fst (add_signal c3 15 l3 (add_signal c1 20 l1 (0, []))) + 10,
                   snd (add_signal c3 15 l3 (add_signal c1 20 l1 (0, [])))))) \<le> 60"
    by (simp add: add_signal_def)
  show ?thesis
    unfolding breakout_conditions_def Let_def
    using assms by (simp only: add_signal_False a simp_thms if_False)
qed

lemma map_const_replicate:
  "\<forall>d\<in>set data. f d = c \<Longrightarrow> map (\<lambda>d. Fin (f d)) data = replicate (length data) (Fin c)"
  by (induction data) simp_all

lemma num_at_replicate:
  "0 \<le> i \<Longrightarrow> i < int n \<Longrightarrow> num_at (replicate n x) i = Num x"
  by (simp add: num_at_def)

lemma flat_no_less:
  "\<not> js_lt (to_num (num_at (replicate k (Fin c)) i)) (to_num (num_at (replicate k (Fin c)) j))"
  by (auto simp add: num_at_def)

lemma flat_price_changes: "price_changes (replicate n (Fin c)) = replicate n (Fin 0)"
proof -
  have "\<And>i. i \<in> set [0..<n] \<Longrightarrow>
      (if i = 0 then Fin 0
       else js_sub (replicate n (Fin c) ! i) (to_num (num_at (replicate n (Fin c)) (int i - 1))))
      = Fin 0"
    by (auto simp add: num_at_def js_sub_def)
  then have "map (\<lambda>i. if i = 0 then Fin 0
       else js_sub (replicate n (Fin c) ! i) (to_num (num_at (replicate n (Fin c)) (int i - 1))))
       [0..<n] = map (\<lambda>i. Fin 0) [0..<n]"
    by (intro map_cong refl)
  then show ?thesis by (simp add: price_changes_def map_replicate_const)
qed

lemma flat_rsi_sums:
  "\<forall>i\<in>set idx. i < n \<Longrightarrow>
   foldl (rsi_step_sum (replicate n (Fin 0))) (Fin 0, Fin 0) idx = (Fin 0, Fin 0)"
  by (induction idx) (simp_all add: rsi_step_sum_def num_at_def js_gt_def Let_def)

lemma rsi_value_zero: "rsi_value (Fin 0) (Fin 0) = Fin 0"
  by (simp add: rsi_value_def js_sub_def)

lemma flat_rsi_loop:
  "0 < period \<Longrightarrow> rsi_loop period (Fin 0) (Fin 0) (replicate k (Fin 0)) = replicate k (Num (Fin 0))"
  by (induction k) (simp_all add: Let_def js_gt_def rsi_value_zero)

lemma flat_rsi:
  assumes "15 \<le> n"
  shows "calculateRSI (replicate n (Fin c)) 14
         = replicate 14 Null @ replicate (n - 14) (Num (Fin 0))"
proof -
  have s: "foldl (rsi_step_sum (replicate n (Fin 0))) (Fin 0, Fin 0) [1..<14 + 1] = (Fin 0, Fin 0)"
    using assms by (intro flat_rsi_sums) auto
  have "n - 14 = Suc (n - 15)" using assms by arith
  then have "replicate (n - 14) (Num (Fin 0)) = Num (Fin 0) # replicate (n - 15) (Num (Fin 0))"
    by simp
  then show ?thesis
    using assms s
    by (simp add: calculateRSI_def flat_price_changes Let_def rsi_value_zero flat_rsi_loop)
qed

lemma flat_obv_loop:
  "1 \<le> i \<Longrightarrow> i + k \<le> n \<Longrightarrow>
   obv_loop (replicate n (Fin c)) (replicate n (Fin 0)) (Fin 0) i k = replicate k (Num (Fin 0))"
  by (induction k arbitrary: i) (simp_all add: num_at_def Let_def js_gt_def)

lemma flat_obv:
  assumes "1 \<le> n"
  shows "calculateOBV (replicate n (Fin c)) (replicate n (Fin 0)) = replicate n (Num (Fin 0))"
proof -
  have "obv_loop (replicate n (Fin c)) (replicate n (Fin 0)) (Fin 0) 1 (n - 1)
          = replicate (n - 1) (Num (Fin 0))"
    using assms by (intro flat_obv_loop) auto
  moreover have "replicate n (Num (Fin 0)) = Num (Fin 0) # replicate (n - 1) (Num (Fin 0))"
    using assms by (cases n) simp_all
  ultimately show ?thesis
    using assms by (simp add: calculateOBV_def num_at_def Let_def)
qed

text \<open>The window sums of the moving average and of the squared deviations.\<close>

lemma flat_window_sum:
  "\<forall>j\<in>set js. j \<le> i \<Longrightarrow> i < n \<Longrightarrow>
   foldl (\<lambda>sum j. js_add sum (to_num (num_at (replicate n (Fin c)) (int i - int j))))
     (Fin a) js = Fin (a + c * real (length js))"
  by (induction js arbitrary: a) (simp_all add: num_at_def algebra_simps)

lemma flat_deviation_sum:
  "\<forall>j\<in>set js. j \<le> i \<Longrightarrow> i < n \<Longrightarrow>
   foldl (\<lambda>sum j. js_add sum
            (js_mul (js_sub (to_num (num_at (replicate n (Fin c)) (int i - int j))) (Fin c))
                    (js_sub (to_num (num_at (replicate n (Fin c)) (int i - int j))) (Fin c))))
     (Fin 0) js = Fin 0"
  by (induction js) (simp_all add: num_at_def js_sub_def)

lemma flat_sma_nth:
  assumes "0 < period" "period \<le> i + 1" "i < n"
  shows "calculateSMA (replicate n (Fin c)) period ! i = Num (Fin c)"
proof -
  have "foldl (\<lambda>sum j. js_add sum (to_num (num_at (replicate n (Fin c)) (int i - int j))))
     (Fin 0) [0..<period] = Fin (0 + c * real (length [0..<period]))"
    using assms by (intro flat_window_sum) auto
  then show ?thesis using assms by (simp add: calculateSMA_def)
qed

lemma flat_bb_upper:
  assumes "0 < period" "period \<le> i + 1" "i < n"
  shows "upper (calculateBollingerBands (replicate n (Fin c)) period (Fin 2) ! i) = Num (Fin c)"
proof -
  have m: "val_at (calculateSMA (replicate n (Fin c)) period) (int i) = Num (Fin c)"
    using assms flat_sma_nth [OF assms] by (simp add: val_at_def sma_length)
  have d: "foldl (\<lambda>sum j. js_add sum
            (js_mul (js_sub (to_num (num_at (replicate n (Fin c)) (int i - int j))) (Fin c))
                    (js_sub (to_num (num_at (replicate n (Fin c)) (int i - int j))) (Fin c))))
     (Fin 0) [0..<period] = Fin 0"
    using assms by (intro flat_deviation_sum) auto
  show ?thesis
    using assms by (simp add: calculateBollingerBands_def Let_def m d)
qed

lemma bb_length: "length (calculateBollingerBands data period sd) = length data"
  by (simp add: calculateBollingerBands_def Let_def)

lemma flat_no_bollinger_breakout:
  assumes "20 \<le> n"
  shows "detectBollingerBreakout (replicate n (Fin c))
           (calculateBollingerBands (replicate n (Fin c)) 20 (Fin 2)) 10 = Inr False"
proof -
  let ?bb = "calculateBollingerBands (replicate n (Fin c)) 20 (Fin 2)"
  define R where "R = slice_from ?bb (- int 10)"
  define P where "P = slice_from (replicate n (Fin c)) (- int 10)"
  have lb: "length ?bb = n" by (simp add: bb_length)
  have rb: "R = drop (n - 10) ?bb"
    using assms lb by (simp add: R_def slice_from_def nat_diff_distrib')
  have lr: "length R = 10" using assms lb by (simp add: rb)
  have i9: "n - 10 + 9 = n - 1" using assms by arith
  have "R ! 9 = ?bb ! (n - 10 + 9)"
    unfolding rb using assms lb by (intro nth_drop) simp
  then have up: "upper (R ! 9) = Num (Fin c)"
    unfolding i9 using assms by (simp add: flat_bb_upper)
  have u1: "bb_upper_at R (int (length R) - 1) = Inr (Num (Fin c))"
    using up by (simp add: bb_upper_at_def lr)
  obtain u2 where u2: "bb_upper_at R (int (length R) - 2) = Inr u2"
    by (simp add: bb_upper_at_def lr)
  have "P = replicate 10 (Fin c)"
    using assms by (simp add: P_def slice_from_def nat_diff_distrib')
  then have last: "to_num (num_at P (int (length P) - 1)) = Fin c"
    by (simp add: num_at_def)
  have eq: "int 10 = 10" by simp
  show ?thesis
    using assms lb u1 u2 last unfolding R_def P_def eq
    by (auto simp add: detectBollingerBreakout_def Let_def js_gt_def split: sum.splits)
qed

lemma flat_no_divergence:
  "detectPositiveRSIDivergence (replicate n (Fin c)) rsiData lb = False"
proof -
  have "\<exists>k. slice_from (replicate n (Fin c)) (- int lb) = replicate k (Fin c)"
    by (auto simp add: slice_from_def)
  then obtain k where "slice_from (replicate n (Fin c)) (- int lb) = replicate k (Fin c)"
    by blast
  then show ?thesis
    by (simp add: detectPositiveRSIDivergence_def Let_def flat_no_less
        del: length_replicate)
qed

lemma flat_volume_not_increasing: "isVolumeIncreasing (replicate n (Fin 0)) t = False"
  by (simp add: isVolumeIncreasing_def num_at_def js_sub_def js_gt_def Let_def)

text \<open>
  C8. For every candle series of at least 220 candles whose closes, highs and lows all
  equal one positive constant and whose volumes are all zero, \<open>analyzeBreakout\<close> with the
  default config returns a result that is not a breakout candidate.
\<close>

theorem flat_series_not_candidate:
  assumes n: "220 \<le> length data" and c: "0 < c"
    and flat: "\<forall>d\<in>set data. close d = c \<and> high d = c \<and> low d = c \<and> volume d = 0"
  shows "\<exists>r. analyzeBreakout data no_options = Inr r \<and> \<not> isBreakoutCandidate r"
proof -
  let ?n = "length data"
  let ?cl = "replicate ?n (Fin c)"
  let ?vl = "replicate ?n (Fin 0)"
  let ?cfg = "analyze_config no_options"
  have cl: "map (\<lambda>d. Fin (close d)) data = ?cl"
    using flat by (intro map_const_replicate) simp
  have vl: "map (\<lambda>d. Fin (volume d)) data = ?vl"
    using flat by (intro map_const_replicate) simp
  have cfg: "cfg_bollingerPeriod ?cfg = 20" "cfg_rsiLowerThreshold ?cfg = 50"
    "cfg_minBreakoutPercent ?cfg = 1 / 100"
    by (simp_all add: analyze_config_def no_options_def opt_or_def)
  obtain ema200 where e: "calculateEMA ?cl 200 = Inr ema200"
    by (cases "calculateEMA ?cl 200") simp_all
  obtain macdData where m: "calculateMACD ?cl 12 26 9 = Inr macdData"
    by (cases "calculateMACD ?cl 12 26 9") simp_all
  have b: "detectBollingerBreakout ?cl (calculateBollingerBands ?cl 20 (Fin 2)) 10 = Inr False"
    using n by (intro flat_no_bollinger_breakout) simp
  let ?rsi = "calculateRSI ?cl 14"
  let ?obv = "calculateOBV ?cl ?vl"
  have rsi: "?rsi = replicate 14 Null @ replicate (?n - 14) (Num (Fin 0))"
    using n by (intro flat_rsi) simp
  have lrsi: "length ?rsi = ?n" using rsi_shape [of ?cl 14] by simp
  have "?rsi ! (?n - 1) = Num (Fin 0)"
    using n unfolding rsi by (simp add: nth_append)
  then have last_rsi: "val_at ?rsi (int (length ?rsi) - 1) = Num (Fin 0)"
    using n unfolding lrsi by (auto simp add: val_at_def lrsi nat_diff_distrib')
  have obv: "?obv = replicate ?n (Num (Fin 0))"
    using n by (intro flat_obv) simp
  have c1: "\<not> (val_at ?rsi (int (length ?rsi) - 1) \<noteq> Null
       \<and> js_ge (to_num (val_at ?rsi (int (length ?rsi) - 1))) (Fin (cfg_rsiLowerThreshold ?cfg))
       \<and> js_le (to_num (val_at ?rsi (int (length ?rsi) - 1))) (Fin (cfg_rsiUpperThreshold ?cfg)))"
    unfolding last_rsi cfg by (simp add: js_ge_def)
  have c2: "\<not> False" by simp
  have c3: "\<not> isVolumeIncreasing ?vl (cfg_volumeIncreaseThreshold ?cfg)"
    by (simp add: flat_volume_not_increasing)
  have c4: "\<not> detectPositiveRSIDivergence ?cl ?rsi (cfg_lookbackPeriod ?cfg)"
    by (simp add: flat_no_divergence)
  have c5: "\<not> (js_gt (to_num (val_at ?obv (int (length ?obv) - 1)))
                (to_num (val_at ?obv (int (length ?obv) - 5)))
       \<and> js_gt (js_sub (to_num (val_at ?obv (int (length ?obv) - 1)))
                        (to_num (val_at ?obv (int (length ?obv) - 5))))
                (js_mul (Fin (5 / 100)) (to_num (val_at ?obv (int (length ?obv) - 5)))))"
    using n unfolding obv by (simp add: val_at_def js_gt_def)
  have c6: "\<not> (js_ge (js_div (js_sub (to_num (num_at ?cl (int (length ?cl) - 1)))
                                (to_num (num_at ?cl (int (length ?cl) - 2))))
                        (to_num (num_at ?cl (int (length ?cl) - 2))))
                (Fin (cfg_minBreakoutPercent ?cfg))
       \<and> js_le (js_div (js_sub (to_num (num_at ?cl (int (length ?cl) - 1)))
                                (to_num (num_at ?cl (int (length ?cl) - 2))))
                        (to_num (num_at ?cl (int (length ?cl) - 2))))
                (Fin (cfg_maxBreakoutPercent ?cfg)))"
    using n c unfolding cfg by (simp add: num_at_def js_sub_def js_ge_def)
  have bound: "fst (breakout_conditions ?cfg ?cl ?vl ?rsi
                 (calculateBollingerBands ?cl 20 (Fin 2)) ema200 ?obv macdData False) \<le> 60"
    using c1 c2 c3 c4 c5 c6 by (rule breakout_conditions_bound)
  from analyzeBreakout_unfold [of data ema200 macdData no_options False]
  obtain r where r: "analyzeBreakout data no_options = Inr r"
    "isBreakoutCandidate r =
        (70 \<le> min 100 (fst (breakout_conditions ?cfg ?cl ?vl ?rsi
           (calculateBollingerBands ?cl 20 (Fin 2)) ema200 ?obv macdData False)))"
    using e m b unfolding cl vl cfg by blast
  have "\<not> isBreakoutCandidate r" using bound unfolding r(2) by simp
  with r(1) show ?thesis by blast
qed

text \<open>The theorem on 220 candles at the price 1.\<close>

theorem flat_series_not_candidate_witness:
  "\<exists>r. analyzeBreakout (replicate 220 flat_candle) no_options = Inr r
       \<and> \<not> isBreakoutCandidate r"
proof -
  have n: "220 \<le> length (replicate 220 flat_candle)" by simp
  have c: "(0::real) < 1" by simp
  have f: "\<forall>d\<in>set (replicate 220 flat_candle).
             close d = 1 \<and> high d = 1 \<and> low d = 1 \<and> volume d = 0"
    by (simp add: flat_candle_def)
  show ?thesis using flat_series_not_candidate [OF n c f] .
qed

subsection \<open>C9: a zero option is replaced by the default\<close>

lemma opt_or_zero: "opt_or (Some 0) d = opt_or None d"
  by (simp add: opt_or_def)

text \<open>The price check: with the three data sets present and hourly candles, the call
  rejects for the price exactly when the last hourly close is above \<open>maxPrice\<close>.\<close>

lemma price_check:
  assumes "hourlyData coinData = Some hourly" "fourHourData coinData = Some fourHour"
    "dailyData coinData = Some daily" "hourly \<noteq> []"
  shows "if sc_maxPrice (signal_config_of opts) < close (last hourly)
     then generateBreakoutSignal coinData opts now shift
            = Inr (Failure (PriceAboveMax (close (last hourly))
                              (sc_maxPrice (signal_config_of opts))))
     else \<forall>p mx. generateBreakoutSignal coinData opts now shift
            \<noteq> Inr (Failure (PriceAboveMax p mx))"
  using assms
  by (auto simp add: generateBreakoutSignal_def Let_def split: sum.splits)


lemma default_mtf_options:
  "mtf_options (signal_config_of (no_signal_options\<lparr>so_maxPrice := None\<rparr>)) =
     \<lparr>consolidationPeriod = Some 6, consolidationThreshold = Some (15 / 100),
      rsiLowerThreshold = Some 50, rsiUpperThreshold = Some 75,
      volumeIncreaseThreshold = Some (10 / 100), minBreakoutPercent = Some (1 / 100),
      maxBreakoutPercent = Some (20 / 100), bollingerPeriod = None, atrPeriod = None,
      lookbackPeriod = None, ema200Required = Some True\<rparr>"
  by (simp add: mtf_options_def signal_config_of_def no_signal_options_def opt_or_def)

lemma analysis_penny:
  "analyzeBreakout penny_series
     (mtf_options (signal_config_of (no_signal_options\<lparr>so_maxPrice := None\<rparr>))) =
     Inr \<lparr>isBreakoutCandidate = False, breakoutScore = 20,
          signals = [''Price consolidation detected''],
          metrics = \<lparr>m_rsi = Null, m_bollingerWidth = Null, m_bollingerPercent = Null,
                      m_atr = Null, m_aboveEma200 = None,
                      m_priceChangePercent = Fin 0, m_volumeChangePercent = Fin 0\<rparr>,
          profitPotential = ''Unknown'', riskLevel = ''Unknown'',
          suggestedStopLoss = Undefined, suggestedTakeProfit = Undefined\<rparr>"
  unfolding default_mtf_options
  by (simp add: js_defs indicator_defs analysis_defs penny_series_def penny_candle_def
      upt_rec Let_def rep_num cong: let_wk)

text \<open>With the default price threshold the coin below one dollar passes the price check
  and is rejected by the scoring criteria.\<close>

lemma penny_signal_default:
  "generateBreakoutSignal penny_coin (no_signal_options\<lparr>so_maxPrice := None\<rparr>) 0 0
     = Inr (Failure (CriteriaNotMet 20 0 20 ''Unknown''))"
proof -
  have c: "sc_maxPrice (signal_config_of (no_signal_options\<lparr>so_maxPrice := None\<rparr>)) = 1"
    by (simp add: signal_config_of_def opt_or_def)
  have m: "multiTimeframeAnalysis penny_series penny_series penny_series
             (mtf_options (signal_config_of (no_signal_options\<lparr>so_maxPrice := None\<rparr>)))
           = Inr \<lparr>mtfScore = 20, alignmentScore = 0, hourlyScore = 20, fourHourScore = 20,
                  mtf_dailyScore = 20, isConfirmedBreakout = False,
                  combinedSignals = [''1H: Price consolidation detected'',
                                     ''4H: Price consolidation detected'',
                                     ''1D: Price consolidation detected''],
                  mtf_profitPotential = ''Unknown'', mtf_riskLevel = ''Unknown'',
                  mtf_suggestedStopLoss = Undefined, mtf_suggestedTakeProfit = Undefined\<rparr>"
    by (simp add: multiTimeframeAnalysis_def analysis_penny Let_def weighted_score_def
        str_or_def js_or_def)
  have p: "penny_series \<noteq> []" "close (last penny_series) = 1 / 2"
    by (simp_all add: penny_series_def penny_candle_def)
  show ?thesis
    by (simp add: generateBreakoutSignal_def penny_coin_def c m p Let_def)
qed

text \<open>
  C9. For every coin data and options object, \<open>generateBreakoutSignal\<close> with a numeric
  option set to 0 returns what it returns with that option absent, for each of the
  thirteen numeric options. In particular with \<open>maxPrice: 0\<close> the price threshold is the
  default 1: a coin with data is rejected for its price exactly when its last hourly
  close is above 1, and not every coin is.
\<close>

theorem zero_option_is_default:
  "generateBreakoutSignal coinData (opts\<lparr>so_consolidationPeriod := Some 0\<rparr>) now shift
     = generateBreakoutSignal coinData (opts\<lparr>so_consolidationPeriod := None\<rparr>) now shift
   \<and> generateBreakoutSignal coinData (opts\<lparr>so_consolidationThreshold := Some 0\<rparr>) now shift
     = generateBreakoutSignal coinData (opts\<lparr>so_consolidationThreshold := None\<rparr>) now shift
   \<and> generateBreakoutSignal coinData (opts\<lparr>so_rsiLowerThreshold := Some 0\<rparr>) now shift
     = generateBreakoutSignal coinData (opts\<lparr>so_rsiLowerThreshold := None\<rparr>) now shift
   \<and> generateBreakoutSignal coinData (opts\<lparr>so_rsiUpperThreshold := Some 0\<rparr>) now shift
     = generateBreakoutSignal coinData (opts\<lparr>so_rsiUpperThreshold := None\<rparr>) now shift
   \<and> generateBreakoutSignal coinData (opts\<lparr>so_volumeIncreaseThreshold := Some 0\<rparr>) now shift
     = generateBreakoutSignal coinData (opts\<lparr>so_volumeIncreaseThreshold := None\<rparr>) now shift
   \<and> generateBreakoutSignal coinData (opts\<lparr>so_minBreakoutPercent := Some 0\<rparr>) now shift
     = generateBreakoutSignal coinData (opts\<lparr>so_minBreakoutPercent := None\<rparr>) now shift
   \<and> generateBreakoutSignal coinData (opts\<lparr>so_maxBreakoutPercent := Some 0\<rparr>) now shift
     = generateBreakoutSignal coinData (opts\<lparr>so_maxBreakoutPercent := None\<rparr>) now shift
   \<and> generateBreakoutSignal coinData (opts\<lparr>so_minMTFScore := Some 0\<rparr>) now shift
     = generateBreakoutSignal coinData (opts\<lparr>so_minMTFScore := None\<rparr>) now shift
   \<and> generateBreakoutSignal coinData (opts\<lparr>so_minAlignmentScore := Some 0\<rparr>) now shift
     = generateBreakoutSignal coinData (opts\<lparr>so_minAlignmentScore := None\<rparr>) now shift
   \<and> generateBreakoutSignal coinData (opts\<lparr>so_minDailyScore := Some 0\<rparr>) now shift
     = generateBreakoutSignal coinData (opts\<lparr>so_minDailyScore := None\<rparr>) now shift
   \<and> generateBreakoutSignal coinData (opts\<lparr>so_maxPrice := Some 0\<rparr>) now shift
     = generateBreakoutSignal coinData (opts\<lparr>so_maxPrice := None\<rparr>) now shift
   \<and> generateBreakoutSignal coinData (opts\<lparr>so_riskRewardRatio := Some 0\<rparr>) now shift
     = generateBreakoutSignal coinData (opts\<lparr>so_riskRewardRatio := None\<rparr>) now shift
   \<and> generateBreakoutSignal coinData (opts\<lparr>so_maxStopLossPercent := Some 0\<rparr>) now shift
     = generateBreakoutSignal coinData (opts\<lparr>so_maxStopLossPercent := None\<rparr>) now shift
   \<and> sc_maxPrice (signal_config_of (opts\<lparr>so_maxPrice := Some 0\<rparr>)) = 1
   \<and> (\<forall>hourly fourHour daily.
         hourlyData coinData = Some hourly \<and> fourHourData coinData = Some fourHour
         \<and> dailyData coinData = Some daily \<and> hourly \<noteq> [] \<longrightarrow>
         (if 1 < close (last hourly)
          then generateBreakoutSignal coinData (opts\<lparr>so_maxPrice := Some 0\<rparr>) now shift
                 = Inr (Failure (PriceAboveMax (close (last hourly)) 1))
          else \<forall>p mx. generateBreakoutSignal coinData (opts\<lparr>so_maxPrice := Some 0\<rparr>) now shift
                 \<noteq> Inr (Failure (PriceAboveMax p mx))))"
proof -
  have cfg:
    "signal_config_of (opts\<lparr>so_consolidationPeriod := Some 0\<rparr>)
       = signal_config_of (opts\<lparr>so_consolidationPeriod := None\<rparr>)"
    "signal_config_of (opts\<lparr>so_consolidationThreshold := Some 0\<rparr>)
       = signal_config_of (opts\<lparr>so_consolidationThreshold := None\<rparr>)"
    "signal_config_of (opts\<lparr>so_rsiLowerThreshold := Some 0\<rparr>)
       = signal_config_of (opts\<lparr>so_rsiLowerThreshold := None\<rparr>)"
    "signal_config_of (opts\<lparr>so_rsiUpperThreshold := Some 0\<rparr>)
       = signal_config_of (opts\<lparr>so_rsiUpperThreshold := None\<rparr>)"
    "signal_config_of (opts\<lparr>so_volumeIncreaseThreshold := Some 0\<rparr>)
       = signal_config_of (opts\<lparr>so_volumeIncreaseThreshold := None\<rparr>)"
    "signal_config_of (opts\<lparr>so_minBreakoutPercent := Some 0\<rparr>)
       = signal_config_of (opts\<lparr>so_minBreakoutPercent := None\<rparr>)"
    "signal_config_of (opts\<lparr>so_maxBreakoutPercent := Some 0\<rparr>)
       = signal_config_of (opts\<lparr>so_maxBreakoutPercent := None\<rparr>)"
    "signal_config_of (opts\<lparr>so_minMTFScore := Some 0\<rparr>)
       = signal_config_of (opts\<lparr>so_minMTFScore := None\<rparr>)"
    "signal_config_of (opts\<lparr>so_minAlignmentScore := Some 0\<rparr>)
       = signal_config_of (opts\<lparr>so_minAlignmentScore := None\<rparr>)"
    "signal_config_of (opts\<lparr>so_minDailyScore := Some 0\<rparr>)
       = signal_config_of (opts\<lparr>so_minDailyScore := None\<rparr>)"
    "signal_config_of (opts\<lparr>so_maxPrice := Some 0\<rparr>)
       = signal_config_of (opts\<lparr>so_maxPrice := None\<rparr>)"
    "signal_config_of (opts\<lparr>so_riskRewardRatio := Some 0\<rparr>)
       = signal_config_of (opts\<lparr>so_riskRewardRatio := None\<rparr>)"
    "signal_config_of (opts\<lparr>so_maxStopLossPercent := Some 0\<rparr>)
       = signal_config_of (opts\<lparr>so_maxStopLossPercent := None\<rparr>)"
    by (simp_all add: signal_config_of_def opt_or_zero)
  have mp: "sc_maxPrice (signal_config_of (opts\<lparr>so_maxPrice := Some 0\<rparr>)) = 1"
    by (simp add: signal_config_of_def opt_or_def)
  have eqs:
    "generateBreakoutSignal coinData (opts\<lparr>so_consolidationPeriod := Some 0\<rparr>) now shift
       = generateBreakoutSignal coinData (opts\<lparr>so_consolidationPeriod := None\<rparr>) now shift"
    "generateBreakoutSignal coinData (opts\<lparr>so_consolidationThreshold := Some 0\<rparr>) now shift
       = generateBreakoutSignal coinData (opts\<lparr>so_consolidationThreshold := None\<rparr>) now shift"
    "generateBreakoutSignal coinData (opts\<lparr>so_rsiLowerThreshold := Some 0\<rparr>) now shift
       = generateBreakoutSignal coinData (opts\<lparr>so_rsiLowerThreshold := None\<rparr>) now shift"
    "generateBreakoutSignal coinData (opts\<lparr>so_rsiUpperThreshold := Some 0\<rparr>) now shift
       = generateBreakoutSignal coinData (opts\<lparr>so_rsiUpperThreshold := None\<rparr>) now shift"
    "generateBreakoutSignal coinData (opts\<lparr>so_volumeIncreaseThreshold := Some 0\<rparr>) now shift
       = generateBreakoutSignal coinData (opts\<lparr>so_volumeIncreaseThreshold := None\<rparr>) now shift"
    "generateBreakoutSignal coinData (opts\<lparr>so_minBreakoutPercent := Some 0\<rparr>) now shift
       = generateBreakoutSignal coinData (opts\<lparr>so_minBreakoutPercent := None\<rparr>) now shift"
    "generateBreakoutSignal coinData (opts\<lparr>so_maxBreakoutPercent := Some 0\<rparr>) now shift
       = generateBreakoutSignal coinData (opts\<lparr>so_maxBreakoutPercent := None\<rparr>) now shift"
    "generateBreakoutSignal coinData (opts\<lparr>so_minMTFScore := Some 0\<rparr>) now shift
       = generateBreakoutSignal coinData (opts\<lparr>so_minMTFScore := None\<rparr>) now shift"
    "generateBreakoutSignal coinData (opts\<lparr>so_minAlignmentScore := Some 0\<rparr>) now shift
       = generateBreakoutSignal coinData (opts\<lparr>so_minAlignmentScore := None\<rparr>) now shift"
    "generateBreakoutSignal coinData (opts\<lparr>so_minDailyScore := Some 0\<rparr>) now shift
       = generateBreakoutSignal coinData (opts\<lparr>so_minDailyScore := None\<rparr>) now shift"
    "generateBreakoutSignal coinData (opts\<lparr>so_maxPrice := Some 0\<rparr>) now shift
       = generateBreakoutSignal coinData (opts\<lparr>so_maxPrice := None\<rparr>) now shift"
    "generateBreakoutSignal coinData (opts\<lparr>so_riskRewardRatio := Some 0\<rparr>) now shift
       = generateBreakoutSignal coinData (opts\<lparr>so_riskRewardRatio := None\<rparr>) now shift"
    "generateBreakoutSignal coinData (opts\<lparr>so_maxStopLossPercent := Some 0\<rparr>) now shift
       = generateBreakoutSignal coinData (opts\<lparr>so_maxStopLossPercent := None\<rparr>) now shift"
    by (simp_all only: generateBreakoutSignal_def cfg)
  have pc: "\<forall>hourly fourHour daily.
         hourlyData coinData = Some hourly \<and> fourHourData coinData = Some fourHour
         \<and> dailyData coinData = Some daily \<and> hourly \<noteq> [] \<longrightarrow>
         (if 1 < close (last hourly)
          then generateBreakoutSignal coinData (opts\<lparr>so_maxPrice := Some 0\<rparr>) now shift
                 = Inr (Failure (PriceAboveMax (close (last hourly)) 1))
          else \<forall>p mx. generateBreakoutSignal coinData (opts\<lparr>so_maxPrice := Some 0\<rparr>) now shift
                 \<noteq> Inr (Failure (PriceAboveMax p mx)))"
  proof (intro allI impI)
    fix hourly fourHour daily
    assume a: "hourlyData coinData = Some hourly \<and> fourHourData coinData = Some fourHour
         \<and> dailyData coinData = Some daily \<and> hourly \<noteq> []"
    from a have a1: "hourlyData coinData = Some hourly" and a2: "fourHourData coinData = Some fourHour"
      and a3: "dailyData coinData = Some daily" and a4: "hourly \<noteq> []" by simp_all
    show "if 1 < close (last hourly)
          then generateBreakoutSignal coinData (opts\<lparr>so_maxPrice := Some 0\<rparr>) now shift
                 = Inr (Failure (PriceAboveMax (close (last hourly)) 1))
          else \<forall>p mx. generateBreakoutSignal coinData (opts\<lparr>so_maxPrice := Some 0\<rparr>) now shift
                 \<noteq> Inr (Failure (PriceAboveMax p mx))"
      using price_check [OF a1 a2 a3 a4, of "opts\<lparr>so_maxPrice := Some 0\<rparr>" now shift]
      unfolding mp .
  qed
  show ?thesis
    using eqs mp pc by (intro conjI)
qed

text \<open>The theorem with \<open>maxPrice: 0\<close> on the coin at half a dollar, which is not rejected for
  its price, and on the coin at ten dollars, which is.\<close>

theorem zero_option_is_default_witness:
  "generateBreakoutSignal penny_coin (no_signal_options\<lparr>so_maxPrice := Some 0\<rparr>) 0 0
     = Inr (Failure (CriteriaNotMet 20 0 20 ''Unknown''))
   \<and> generateBreakoutSignal dear_coin (no_signal_options\<lparr>so_maxPrice := Some 0\<rparr>) 0 0
     = Inr (Failure (PriceAboveMax 10 1))"
proof -
  have d: "hourlyData dear_coin = Some quiet_series \<and> fourHourData dear_coin = Some quiet_series
         \<and> dailyData dear_coin = Some quiet_series \<and> quiet_series \<noteq> []"
    by (simp add: dear_coin_def quiet_series_def)
  have c: "close (last quiet_series) = 10"
    by (simp add: quiet_series_def quiet_candle_def)
  have "generateBreakoutSignal penny_coin (no_signal_options\<lparr>so_maxPrice := Some 0\<rparr>) 0 0
     = Inr (Failure (CriteriaNotMet 20 0 20 ''Unknown''))"
    using zero_option_is_default [of penny_coin no_signal_options 0 0] penny_signal_default
    by simp
  moreover have "generateBreakoutSignal dear_coin (no_signal_options\<lparr>so_maxPrice := Some 0\<rparr>) 0 0
     = Inr (Failure (PriceAboveMax 10 1))"
    using zero_option_is_default [of dear_coin no_signal_options 0 0] d c
    by (metis (no_types, lifting) one_less_numeral_iff semiring_norm(76))
  ultimately show ?thesis by simp
qed

subsection \<open>C7: the ranges of confidence and success probability\<close>

lemma estimateSuccessProbability_range:
  "60 \<le> estimateSuccessProbability sc al pp slp
   \<and> estimateSuccessProbability sc al pp slp \<le> 95
   \<and> estimateSuccessProbability sc al pp slp \<in> \<int>"
proof -
  have a: "\<And>x::real. 60 \<le> min 95 (max 60 (real_of_int \<lfloor>x + 1 / 2\<rfloor>))
       \<and> min 95 (max 60 (real_of_int \<lfloor>x + 1 / 2\<rfloor>)) \<le> 95
       \<and> min 95 (max 60 (real_of_int \<lfloor>x + 1 / 2\<rfloor>)) \<in> \<int>"
    by (simp add: min_def max_def)
  show ?thesis
    unfolding estimateSuccessProbability_def Let_def by (rule a)
qed

lemma calculateConfidenceScore_upper: "calculateConfidenceScore m \<le> 10"
  unfolding calculateConfidenceScore_def Let_def by (rule min.cobounded1)

lemma calculateConfidenceScore_lower:
  assumes "10 \<le> mtfScore m"
  shows "1 \<le> calculateConfidenceScore m"
proof -
  have a: "\<And>x::real. real_of_int (mtfScore m) / 10 \<le> x \<Longrightarrow>
       1 \<le> min 10 (real_of_int \<lfloor>x * 10 + 1 / 2\<rfloor> / 10)"
  proof -
    fix x :: real assume "real_of_int (mtfScore m) / 10 \<le> x"
    moreover have "(10::real) \<le> real_of_int (mtfScore m)" using assms by simp
    ultimately have "real_of_int 10 \<le> x * 10 + 1 / 2" by simp
    then have "10 \<le> \<lfloor>x * 10 + 1 / 2\<rfloor>" by (simp only: le_floor_iff)
    then have "(10::real) \<le> real_of_int \<lfloor>x * 10 + 1 / 2\<rfloor>" by linarith
    then show "1 \<le> min 10 (real_of_int \<lfloor>x * 10 + 1 / 2\<rfloor> / 10)" by simp
  qed
  define s0 where "s0 = real_of_int (mtfScore m) / 10"
  define s1 where "s1 = (if 6 \<le> alignmentScore m then s0 + 1
                    else if 4 \<le> alignmentScore m then s0 + 1 / 2 else s0)"
  define s2 where "s2 = (if mtf_profitPotential m = ''Very High'' then s1 + 1
                    else if mtf_profitPotential m = ''High'' then s1 + 1 / 2 else s1)"
  have "s0 \<le> s1" by (simp add: s1_def)
  moreover have "s1 \<le> s2" by (simp add: s2_def)
  ultimately have "real_of_int (mtfScore m) / 10 \<le> s2" unfolding s0_def by linarith
  then have "1 \<le> min 10 (real_of_int \<lfloor>s2 * 10 + 1 / 2\<rfloor> / 10)" by (rule a)
  then show ?thesis
    unfolding calculateConfidenceScore_def Let_def s2_def s1_def s0_def .
qed

lemma profit_potential_score:
  "calculateProfitPotential cl atr bb sc = ''High'' \<Longrightarrow> 75 < sc"
  "calculateProfitPotential cl atr bb sc = ''Very High'' \<Longrightarrow> 85 < sc"
  by (simp_all add: calculateProfitPotential_def Let_def split: if_splits)

text \<open>A high profit potential of the result comes with a score of at least 38: it is
  the daily potential, which needs a daily score above 75, and the daily score has
  weight one half.\<close>

lemma mtf_high_potential_score:
  assumes "multiTimeframeAnalysis hourly fourHour daily opts = Inr m"
    and "mtf_profitPotential m = ''High'' \<or> mtf_profitPotential m = ''Very High''"
  shows "38 \<le> mtfScore m"
proof -
  obtain rh where rh: "analyzeBreakout hourly opts = Inr rh"
    by (rule analyzeBreakout_cases)
  obtain rf where rf: "analyzeBreakout fourHour opts = Inr rf"
    by (rule analyzeBreakout_cases)
  obtain rd where rd: "analyzeBreakout daily opts = Inr rd"
    and pp: "\<exists>cl atr bb. profitPotential rd = calculateProfitPotential cl atr bb (breakoutScore rd)"
    using analyzeBreakout_facts [of daily opts] by blast
  have ne: "profitPotential rd \<noteq> []" using pp by (metis calculateProfitPotential_nonempty)
  have m: "mtf_profitPotential m = profitPotential rd"
      "mtfScore m = \<lfloor>weighted_score rh rf rd + 1 / 2\<rfloor>"
    using assms(1) ne by (auto simp add: multiTimeframeAnalysis_def rh rf rd Let_def str_or_def)
  obtain cl atr bb where
    "profitPotential rd = calculateProfitPotential cl atr bb (breakoutScore rd)"
    using pp by blast
  then have "calculateProfitPotential cl atr bb (breakoutScore rd) = ''High''
      \<or> calculateProfitPotential cl atr bb (breakoutScore rd) = ''Very High''"
    using assms(2) unfolding m(1) by simp
  then have "75 < breakoutScore rd"
    using profit_potential_score [of cl atr bb "breakoutScore rd"] by auto
  then have "76 \<le> real (breakoutScore rd)" by simp
  then have "real_of_int 38 \<le> weighted_score rh rf rd + 1 / 2"
    by (simp add: weighted_score_def)
  then show ?thesis unfolding m(2) by (simp only: le_floor_iff)
qed

text \<open>What a successful call returns: the analysis result passed the validity check, and
  the two scores of the signal are computed from it.\<close>

lemma success_shape:
  assumes "generateBreakoutSignal coinData opts now shift = Inr (Success s)"
  shows "\<exists>hourly fourHour daily m slp.
      multiTimeframeAnalysis hourly fourHour daily (mtf_options (signal_config_of opts)) = Inr m
    \<and> (mtf_profitPotential m = ''High'' \<or> mtf_profitPotential m = ''Very High''
         \<or> (mtf_profitPotential m = ''Medium'' \<and> 85 < mtfScore m))
    \<and> confidence s = calculateConfidenceScore m
    \<and> successProbability s = estimateSuccessProbability (mtfScore m) (alignmentScore m)
          (mtf_profitPotential m) slp"
proof -
  obtain hourly where h: "hourlyData coinData = Some hourly"
    using assms by (cases "hourlyData coinData") (simp_all add: generateBreakoutSignal_def)
  obtain fourHour where f: "fourHourData coinData = Some fourHour"
    using assms h by (cases "fourHourData coinData") (simp_all add: generateBreakoutSignal_def)
  obtain daily where d: "dailyData coinData = Some daily"
    using assms h f by (cases "dailyData coinData") (simp_all add: generateBreakoutSignal_def)
  let ?cfg = "signal_config_of opts"
  have ne: "hourly \<noteq> []"
    using assms h f d by (auto simp add: generateBreakoutSignal_def)
  have pr: "\<not> sc_maxPrice ?cfg < close (last hourly)"
    using assms h f d ne by (auto simp add: generateBreakoutSignal_def Let_def)
  obtain m where m: "multiTimeframeAnalysis hourly fourHour daily (mtf_options ?cfg) = Inr m"
    using assms h f d ne pr
    by (cases "multiTimeframeAnalysis hourly fourHour daily (mtf_options ?cfg)")
       (simp_all add: generateBreakoutSignal_def Let_def)
  have valid: "sc_minMTFScore ?cfg \<le> real_of_int (mtfScore m)
      \<and> sc_minAlignmentScore ?cfg \<le> real (alignmentScore m)
      \<and> sc_minDailyScore ?cfg \<le> real (mtf_dailyScore m)
      \<and> (mtf_profitPotential m = ''High'' \<or> mtf_profitPotential m = ''Very High''
           \<or> (mtf_profitPotential m = ''Medium'' \<and> 85 < mtfScore m))"
  proof (rule ccontr)
    assume "\<not> ?thesis"
    then have "generateBreakoutSignal coinData opts now shift
        = Inr (Failure (CriteriaNotMet (mtfScore m) (alignmentScore m)
                          (mtf_dailyScore m) (mtf_profitPotential m)))"
      using h f d ne pr m by (simp add: generateBreakoutSignal_def Let_def)
    with assms show False by simp
  qed
  let ?slp = "js_mul (js_div (js_sub (Fin (close (last hourly))) (to_num (mtf_suggestedStopLoss m)))
                        (Fin (close (last hourly)))) (Fin 100)"
  have "confidence s = calculateConfidenceScore m
    \<and> successProbability s = estimateSuccessProbability (mtfScore m) (alignmentScore m)
          (mtf_profitPotential m) ?slp"
    using assms h f d ne pr m valid
    by (simp add: generateBreakoutSignal_def Let_def split: if_splits) auto
  with m valid show ?thesis by blast
qed

text \<open>
  C7. For every coin data and options object on which \<open>generateBreakoutSignal\<close> succeeds,
  the confidence of the signal lies between 1 and 10 and its success probability is an
  integer between 60 and 95.
\<close>

theorem signal_scores_in_range:
  assumes "generateBreakoutSignal coinData opts now shift = Inr (Success s)"
  shows "1 \<le> confidence s \<and> confidence s \<le> 10
       \<and> 60 \<le> successProbability s \<and> successProbability s \<le> 95
       \<and> successProbability s \<in> \<int>"
proof -
  from success_shape [OF assms] obtain hourly fourHour daily m slp where
    m: "multiTimeframeAnalysis hourly fourHour daily (mtf_options (signal_config_of opts)) = Inr m"
    and valid: "mtf_profitPotential m = ''High'' \<or> mtf_profitPotential m = ''Very High''
                \<or> (mtf_profitPotential m = ''Medium'' \<and> 85 < mtfScore m)"
    and conf: "confidence s = calculateConfidenceScore m"
    and prob: "successProbability s = estimateSuccessProbability (mtfScore m) (alignmentScore m)
                 (mtf_profitPotential m) slp"
    by blast
  have "10 \<le> mtfScore m"
    using valid mtf_high_potential_score [OF m] by auto
  then have "1 \<le> calculateConfidenceScore m" by (rule calculateConfidenceScore_lower)
  then show ?thesis
    unfolding conf prob
    using calculateConfidenceScore_upper [of m]
      estimateSuccessProbability_range [of "mtfScore m" "alignmentScore m" "mtf_profitPotential m" slp]
    by simp
qed

lemma swing_mtf_options:
  "mtf_options (signal_config_of swing_options) =
     \<lparr>consolidationPeriod = Some 6, consolidationThreshold = Some (15 / 100),
      rsiLowerThreshold = Some 50, rsiUpperThreshold = Some 75,
      volumeIncreaseThreshold = Some (10 / 100), minBreakoutPercent = Some (1 / 100),
      maxBreakoutPercent = Some (20 / 100), bollingerPeriod = None, atrPeriod = None,
      lookbackPeriod = None, ema200Required = Some False\<rparr>"
  by (simp add: mtf_options_def signal_config_of_def swing_options_def no_signal_options_def
      opt_or_def)

lemmas swing_defs = swing_series_def swing_low_def swing_high_def swing_first_def
  swing_last_def

lemma analysis_swing:
  "analyzeBreakout swing_series (mtf_options (signal_config_of swing_options)) =
     Inr \<lparr>isBreakoutCandidate = True, breakoutScore = 100,
          signals = [''Price consolidation detected'', ''RSI in optimal range'',
                     ''Bollinger Band compression'', ''Volume increasing'',
                     ''OBV accumulation'', ''Ideal breakout percentage''],
          metrics = \<lparr>m_rsi = Num (Fin (14287375 / 268912)),
                      m_bollingerWidth = Num (Fin (4 / 101)),
                      m_bollingerPercent = Num (Fin (3 / 4)),
                      m_atr = Num (Fin (50945217 / 13176688000)),
                      m_aboveEma200 = None, m_priceChangePercent = Fin 2,
                      m_volumeChangePercent = Fin 100\<rparr>,
          profitPotential = ''High'', riskLevel = ''Medium'',
          suggestedStopLoss = Num (Fin (981 / 10000)),
          suggestedTakeProfit = Num (Fin (1137 / 10000))\<rparr>"
  unfolding swing_mtf_options
  by (simp add: js_defs indicator_defs analysis_defs swing_defs
      upt_rec Let_def rep_num real_sqrt_divide low_scan.simps cong: let_wk)

lemma mtf_swing:
  "multiTimeframeAnalysis swing_series swing_series swing_series
     (mtf_options (signal_config_of swing_options)) =
     Inr \<lparr>mtfScore = 100, alignmentScore = 6, hourlyScore = 100,
          fourHourScore = 100, mtf_dailyScore = 100, isConfirmedBreakout = True,
          combinedSignals =
            [''1H: Price consolidation detected'', ''1H: RSI in optimal range'',
             ''1H: Bollinger Band compression'', ''1H: Volume increasing'',
             ''1H: OBV accumulation'', ''1H: Ideal breakout percentage'',
             ''4H: Price consolidation detected'', ''4H: RSI in optimal range'',
             ''4H: Bollinger Band compression'', ''4H: Volume increasing'',
             ''4H: OBV accumulation'', ''4H: Ideal breakout percentage'',
             ''1D: Price consolidation detected'', ''1D: RSI in optimal range'',
             ''1D: Bollinger Band compression'', ''1D: Volume increasing'',
             ''1D: OBV accumulation'', ''1D: Ideal breakout percentage''],
          mtf_profitPotential = ''High'', mtf_riskLevel = ''Medium'',
          mtf_suggestedStopLoss = Num (Fin (981 / 10000)),
          mtf_suggestedTakeProfit = Num (Fin (1137 / 10000))\<rparr>"
  by (simp add: multiTimeframeAnalysis_def analysis_swing Let_def weighted_score_def
        str_or_def js_or_def)

text \<open>The signal for the swinging coin: every check passes.\<close>

lemma swing_signal:
  "\<exists>s. generateBreakoutSignal swing_coin swing_options 0 0 = Inr (Success s)
       \<and> confidence s = 10 \<and> successProbability s = 93"
proof -
  have cfg: "sc_maxPrice (signal_config_of swing_options) = 1"
    "sc_minMTFScore (signal_config_of swing_options) = 75"
    "sc_minAlignmentScore (signal_config_of swing_options) = 4"
    "sc_minDailyScore (signal_config_of swing_options) = 65"
    "sc_maxStopLossPercent (signal_config_of swing_options) = 5"
    by (simp_all add: signal_config_of_def swing_options_def no_signal_options_def opt_or_def)
  have p: "swing_series \<noteq> []" "close (last swing_series) = 102 / 1000"
    by (simp_all add: swing_defs)
  have hi: "js_max_list (map (\<lambda>d. Fin (high d)) (slice_from swing_series (- 20)))
              = Fin (110 / 1000)"
    by (simp add: swing_defs slice_from_def js_max_list_def js_max2_def)
  have lo: "js_min_list (map (\<lambda>d. Fin (low d)) (slice_from swing_series (- 20)))
              = Fin (985 / 10000)"
    by (simp add: swing_defs slice_from_def js_min_list_def js_min2_def)
  show ?thesis
    by (simp add: generateBreakoutSignal_def swing_coin_def cfg p mtf_swing hi lo Let_def
        js_sub_def js_gt_def calculateConfidenceScore_def estimateSuccessProbability_def)
qed

text \<open>The theorem on the swinging coin, whose signal succeeds with confidence 10 and
  success probability 93.\<close>

theorem signal_scores_in_range_witness:
  "\<exists>s. generateBreakoutSignal swing_coin swing_options 0 0 = Inr (Success s)
       \<and> 1 \<le> confidence s \<and> confidence s \<le> 10
       \<and> 60 \<le> successProbability s \<and> successProbability s \<le> 95
       \<and> successProbability s \<in> \<int>
       \<and> confidence s = 10 \<and> successProbability s = 93"
proof -
  obtain s where s: "generateBreakoutSignal swing_coin swing_options 0 0 = Inr (Success s)"
    and v: "confidence s = 10" "successProbability s = 93"
    using swing_signal by blast
  from signal_scores_in_range [OF s] s v show ?thesis by blast
qed

subsection \<open>The rising history\<close>

lemma ramp_length [simp]: "length (ramp n) = n"
  by (simp add: ramp_def)

lemma ramp_nth: "t < n \<Longrightarrow> ramp n ! t = ramp_candle t"
  by (simp add: ramp_def)

lemma take_ramp: "i \<le> n \<Longrightarrow> take i (ramp n) = ramp i"
  by (simp add: ramp_def take_map min_def)

lemma ramp_closes: "map (\<lambda>d. Fin (close d)) (ramp n) = map (\<lambda>t. Fin (1000 + real t)) [0..<n]"
  by (simp add: ramp_def ramp_candle_def)

lemma ramp_volumes: "map (\<lambda>d. Fin (volume d)) (ramp n) = map (\<lambda>t. Fin (1000 + real t)) [0..<n]"
  by (simp add: ramp_def ramp_candle_def)

lemma ramp_highs: "map (\<lambda>d. Fin (high d)) (ramp n) = map (\<lambda>t. Fin (1001 + real t)) [0..<n]"
  by (simp add: ramp_def ramp_candle_def)

lemma ramp_lows: "map (\<lambda>d. Fin (low d)) (ramp n) = map (\<lambda>t. Fin (999 + real t)) [0..<n]"
  by (simp add: ramp_def ramp_candle_def)

lemma num_at_line:
  "0 \<le> j \<Longrightarrow> j < int n \<Longrightarrow>
   num_at (map (\<lambda>t. Fin (a + real t)) [0..<n]) j = Num (Fin (a + real (nat j)))"
proof -
  assume "0 \<le> j" "j < int n"
  then have "nat j < n" by arith
  then show ?thesis using \<open>0 \<le> j\<close> \<open>j < int n\<close> by (simp add: num_at_def)
qed

lemma ramp_options_eq:
  "analyze_config ramp_options =
     \<lparr>cfg_consolidationPeriod = 6, cfg_consolidationThreshold = 15 / 100,
      cfg_rsiLowerThreshold = 50, cfg_rsiUpperThreshold = 100,
      cfg_volumeIncreaseThreshold = 1 / 2000, cfg_minBreakoutPercent = 1 / 2000,
      cfg_maxBreakoutPercent = 20 / 100, cfg_bollingerPeriod = 20, cfg_atrPeriod = 14,
      cfg_lookbackPeriod = 20, cfg_ema200Required = True\<rparr>"
  by (simp add: ramp_options_def params_options_def initial_best_def ramp_params_def
      no_initial_params_def analyze_config_def opt_or_def)

text \<open>The RSI of the rising closes: every change is 1, the average loss is 0.\<close>

lemma line_price_changes:
  "price_changes (map (\<lambda>t. Fin (a + real t)) [0..<n])
     = map (\<lambda>i. if i = 0 then Fin 0 else Fin 1) [0..<n]"
proof -
  have "\<And>i. i \<in> set [0..<n] \<Longrightarrow>
      (if i = 0 then Fin 0
       else js_sub (map (\<lambda>t. Fin (a + real t)) [0..<n] ! i)
              (to_num (num_at (map (\<lambda>t. Fin (a + real t)) [0..<n]) (int i - 1))))
      = (if i = 0 then Fin 0 else Fin 1)"
    by (auto simp add: num_at_def js_sub_def nat_diff_distrib' of_nat_diff)
  then show ?thesis
    unfolding price_changes_def by (intro map_cong) simp_all
qed

lemma line_rsi_sums:
  "\<forall>i\<in>set idx. 1 \<le> i \<and> i < n \<Longrightarrow>
   foldl (rsi_step_sum (map (\<lambda>i. if i = 0 then Fin 0 else Fin 1) [0..<n])) (Fin g, Fin 0) idx
     = (Fin (g + real (length idx)), Fin 0)"
  by (induction idx arbitrary: g)
     (simp_all add: rsi_step_sum_def num_at_def js_gt_def Let_def algebra_simps)

lemma rsi_value_one: "rsi_value (Fin 1) (Fin 0) = Fin (100000 / 1001)"
  by (simp add: rsi_value_def js_sub_def)

lemma line_rsi_loop:
  "rsi_loop 14 (Fin 1) (Fin 0) (replicate k (Fin 1)) = replicate k (Num (Fin (100000 / 1001)))"
  by (induction k) (simp_all add: Let_def js_gt_def rsi_value_one)

lemma line_rsi:
  assumes "15 \<le> n"
  shows "calculateRSI (map (\<lambda>t. Fin (a + real t)) [0..<n]) 14
         = replicate 14 Null @ replicate (n - 14) (Num (Fin (100000 / 1001)))"
proof -
  let ?ch = "map (\<lambda>i. if i = 0 then Fin 0 else Fin (1::real)) [0..<n]"
  have s: "foldl (rsi_step_sum ?ch) (Fin 0, Fin 0) [1..<14 + 1] = (Fin (0 + real (length [1..<14 + 1::nat])), Fin 0)"
    using assms by (intro line_rsi_sums) auto
  have d: "drop 15 ?ch = replicate (n - 15) (Fin 1)"
  proof -
    have "drop 15 ?ch = map (\<lambda>i. if i = 0 then Fin 0 else Fin (1::real)) [15..<n]"
      by (simp add: drop_map)
    also have "\<dots> = map (\<lambda>i. Fin 1) [15..<n]"
      by (intro map_cong) auto
    also have "\<dots> = replicate (n - 15) (Fin 1)"
      by (simp add: map_replicate_const)
    finally show ?thesis .
  qed
  have "n - 14 = Suc (n - 15)" using assms by arith
  then have r: "replicate (n - 14) (Num (Fin (100000 / 1001)))
      = Num (Fin (100000 / 1001)) # replicate (n - 15) (Num (Fin (100000 / 1001)))"
    by simp
  show ?thesis
    using assms s d
    by (simp add: calculateRSI_def line_price_changes Let_def rsi_value_one line_rsi_loop r)
qed

text \<open>The EMA of a rising series stays below its last element.\<close>

lemma js_sum_Fin_aux: "foldl js_add (Fin a) (map Fin xs) = Fin (a + sum_list xs)"
  by (induction xs arbitrary: a) simp_all

lemma js_sum_Fin: "js_sum (map Fin xs) = Fin (sum_list xs)"
  using js_sum_Fin_aux [of 0 xs] by (simp add: js_sum_def)

lemma sum_list_upper: "\<forall>x\<in>set xs. x \<le> (M::real) \<Longrightarrow> sum_list xs \<le> real (length xs) * M"
  by (induction xs) (auto simp add: algebra_simps)

lemma ema_loop_below:
  "0 < m \<Longrightarrow> m < 1 \<Longrightarrow> e < x \<Longrightarrow> sorted_wrt (<) (x # xs) \<Longrightarrow>
   \<exists>e'. last (Num (Fin e) # ema_loop (Fin m) (Fin e) (map Fin (x # xs))) = Num (Fin e')
        \<and> e' < last (x # xs)"
proof (induction xs arbitrary: e x)
  case Nil
  have "(x - e) * m + e < x"
  proof -
    have "(x - e) * m < (x - e) * 1" using Nil by (intro mult_strict_left_mono) auto
    then show ?thesis by simp
  qed
  then show ?case by (simp add: js_sub_def Let_def)
next
  case (Cons y ys)
  have lt: "(x - e) * m + e < x"
  proof -
    have "(x - e) * m < (x - e) * 1" using Cons.prems by (intro mult_strict_left_mono) auto
    then show ?thesis by simp
  qed
  have xy: "x < y" using Cons.prems by simp
  have "\<exists>e'. last (Num (Fin ((x - e) * m + e))
               # ema_loop (Fin m) (Fin ((x - e) * m + e)) (map Fin (y # ys))) = Num (Fin e')
        \<and> e' < last (y # ys)"
    using Cons.prems lt xy by (intro Cons.IH) auto
  then show ?case by (simp add: js_sub_def Let_def)
qed

lemma val_at_last: "xs \<noteq> [] \<Longrightarrow> val_at xs (int (length xs) - 1) = last xs"
  by (cases xs rule: rev_cases) (simp_all add: val_at_def nth_append)

lemma first_200_sum: "sum_list (map (\<lambda>t. 1000 + real t) [0..<200]) = 219900"
  by (simp add: upt_rec)

lemma line_ema:
  assumes "200 \<le> n"
  shows "\<exists>ema e. calculateEMA (map (\<lambda>t. Fin (1000 + real t)) [0..<n]) 200 = Inr ema
           \<and> val_at ema (int (length ema) - 1) = Num (Fin e) \<and> e < 999 + real n"
proof -
  let ?cl = "map (\<lambda>t. Fin (1000 + real t)) [0..<n]"
  have tk: "take 200 ?cl = map Fin (map (\<lambda>t. 1000 + real t) [0..<200])"
    using assms by (simp add: take_map min_def)
  have e0: "js_div (js_sum (take 200 ?cl)) (Fin (real 200)) = Fin (2199 / 2)"
    unfolding tk js_sum_Fin first_200_sum by simp
  have m: "js_div (Fin 2) (Fin (real 200 + 1)) = Fin (2 / 201)"
    by simp
  have dr: "drop 200 ?cl = map Fin (map (\<lambda>t. 1000 + real t) [200..<n])"
    by (simp add: drop_map)
  have ema: "calculateEMA ?cl 200
      = Inr (replicate 199 Null
             @ (Num (Fin (2199 / 2))
                # ema_loop (Fin (2 / 201)) (Fin (2199 / 2))
                    (map Fin (map (\<lambda>t. 1000 + real t) [200..<n]))))"
    unfolding calculateEMA_def Let_def e0 m dr using assms by simp
  define E where "E = ema_loop (Fin (2 / 201)) (Fin (2199 / 2))
                    (map Fin (map (\<lambda>t. 1000 + real t) [200..<n]))"
  have ema': "calculateEMA ?cl 200 = Inr (replicate 199 Null @ (Num (Fin (2199 / 2)) # E))"
    unfolding E_def by (rule ema)
  have v: "val_at (replicate 199 Null @ (Num (Fin (2199 / 2)) # E))
             (int (length (replicate 199 Null @ (Num (Fin (2199 / 2)) # E))) - 1)
           = last (Num (Fin (2199 / 2)) # E)"
    by (subst val_at_last) simp_all
  show ?thesis
  proof (cases "n = 200")
    case True
    then have "E = []" unfolding E_def by simp
    then have "last (Num (Fin (2199 / 2)) # E) = Num (Fin (2199 / 2))" by simp
    moreover have "(2199 / 2 :: real) < 999 + real n" using True by simp
    ultimately show ?thesis using v ema' by metis
  next
    case False
    then have lt: "200 < n" using assms by arith
    then have up: "[200..<n] = 200 # [201..<n]" by (simp add: upt_rec)
    have srt: "sorted_wrt (<) ((1000 + real 200) # map (\<lambda>t. 1000 + real t) [201..<n])"
    proof -
      have "sorted_wrt (<) (map (\<lambda>t. 1000 + real t) [200..<n])"
        by (simp add: sorted_wrt_map)
      then show ?thesis unfolding up by simp
    qed
    have mp: "map (\<lambda>t. 1000 + real t) [200..<n]
              = (1000 + real 200) # map (\<lambda>t. 1000 + real t) [201..<n]"
      unfolding up by simp
    have "\<exists>e'. last (Num (Fin (2199 / 2))
                 # ema_loop (Fin (2 / 201)) (Fin (2199 / 2))
                     (map Fin ((1000 + real 200) # map (\<lambda>t. 1000 + real t) [201..<n])))
               = Num (Fin e')
          \<and> e' < last ((1000 + real 200) # map (\<lambda>t. 1000 + real t) [201..<n])"
      using srt by (intro ema_loop_below) simp_all
    then obtain e' where l: "last (Num (Fin (2199 / 2)) # E) = Num (Fin e')"
      and b: "e' < last (map (\<lambda>t. 1000 + real t) [200..<n])"
      unfolding E_def mp by blast
    have "last (map (\<lambda>t. 1000 + real t) [200..<n]) = 1000 + real (n - 1)"
      using lt by (simp add: last_map)
    then have "e' < 999 + real n" using b lt by (simp add: of_nat_diff)
    then show ?thesis using v ema' l by metis
  qed
qed

text \<open>The ATR of the rising series: every true range is 2.\<close>

lemma line_true_ranges:
  assumes "1 \<le> n"
  shows "true_ranges (map (\<lambda>t. Fin (1001 + real t)) [0..<n])
           (map (\<lambda>t. Fin (999 + real t)) [0..<n]) (map (\<lambda>t. Fin (1000 + real t)) [0..<n])
         = replicate n (Fin 2)"
proof -
  let ?hi = "map (\<lambda>t. Fin (1001 + real t)) [0..<n]"
  let ?lo = "map (\<lambda>t. Fin (999 + real t)) [0..<n]"
  let ?cl = "map (\<lambda>t. Fin (1000 + real t)) [0..<n]"
  have h: "js_sub (to_num (num_at ?hi 0)) (to_num (num_at ?lo 0)) = Fin 2"
    using assms by (simp add: num_at_def js_sub_def)
  have "\<And>i. i \<in> set [1..<n] \<Longrightarrow>
      (let tr1 = js_sub (?hi ! i) (to_num (num_at ?lo (int i)));
           tr2 = js_abs (js_sub (?hi ! i) (to_num (num_at ?cl (int i - 1))));
           tr3 = js_abs (js_sub (to_num (num_at ?lo (int i))) (to_num (num_at ?cl (int i - 1))))
       in js_max_list [tr1, tr2, tr3]) = Fin 2"
    by (auto simp add: num_at_def js_sub_def js_max_list_def js_max2_def Let_def
        nat_diff_distrib')
  then have "map (\<lambda>i.
         let tr1 = js_sub (?hi ! i) (to_num (num_at ?lo (int i)));
             tr2 = js_abs (js_sub (?hi ! i) (to_num (num_at ?cl (int i - 1))));
             tr3 = js_abs (js_sub (to_num (num_at ?lo (int i))) (to_num (num_at ?cl (int i - 1))))
         in js_max_list [tr1, tr2, tr3]) [1..<length ?hi] = map (\<lambda>i. Fin 2) [1..<n]"
    by (intro map_cong) simp_all
  also have "\<dots> = replicate (n - 1) (Fin 2)"
    by (simp add: map_replicate_const)
  finally have t: "map (\<lambda>i.
         let tr1 = js_sub (?hi ! i) (to_num (num_at ?lo (int i)));
             tr2 = js_abs (js_sub (?hi ! i) (to_num (num_at ?cl (int i - 1))));
             tr3 = js_abs (js_sub (to_num (num_at ?lo (int i))) (to_num (num_at ?cl (int i - 1))))
         in js_max_list [tr1, tr2, tr3]) [1..<length ?hi] = replicate (n - 1) (Fin 2)" .
  have "n = Suc (n - 1)" using assms by arith
  then have "replicate n (Fin (2::real)) = Fin 2 # replicate (n - 1) (Fin 2)"
    by (metis replicate_Suc)
  then show ?thesis
    unfolding true_ranges_def h t by simp
qed

lemma line_atr_loop: "atr_loop 14 (Fin 2) (replicate k (Fin 2)) = replicate k (Num (Fin 2))"
  by (induction k) (simp_all add: Let_def)

lemma line_atr:
  assumes "15 \<le> n"
  shows "val_at (calculateATR (map (\<lambda>t. Fin (1001 + real t)) [0..<n])
           (map (\<lambda>t. Fin (999 + real t)) [0..<n]) (map (\<lambda>t. Fin (1000 + real t)) [0..<n]) 14)
           (int (length (calculateATR (map (\<lambda>t. Fin (1001 + real t)) [0..<n])
           (map (\<lambda>t. Fin (999 + real t)) [0..<n]) (map (\<lambda>t. Fin (1000 + real t)) [0..<n]) 14))
            - 1)
         = Num (Fin 2)"
proof -
  have tr: "true_ranges (map (\<lambda>t. Fin (1001 + real t)) [0..<n])
           (map (\<lambda>t. Fin (999 + real t)) [0..<n]) (map (\<lambda>t. Fin (1000 + real t)) [0..<n])
         = replicate n (Fin 2)"
    using assms by (intro line_true_ranges) simp
  have tk: "take 14 (replicate n (Fin (2::real))) = replicate 14 (Fin 2)"
    using assms by (simp add: min_def)
  have s: "js_div (js_sum (replicate 14 (Fin 2))) (Fin (real 14)) = Fin 2"
    by (simp add: js_sum_def rep_num)
  have "n - 14 = Suc (n - 15)" using assms by arith
  then have r: "replicate (n - 14) (Num (Fin (2::real)))
      = replicate (n - 15) (Num (Fin 2)) @ [Num (Fin 2)]"
    by (simp add: replicate_append_same)
  define A where "A = calculateATR (map (\<lambda>t. Fin (1001 + real t)) [0..<n])
           (map (\<lambda>t. Fin (999 + real t)) [0..<n]) (map (\<lambda>t. Fin (1000 + real t)) [0..<n]) 14"
  have a: "A = ((replicate 14 Null)[13 := Num (Fin 2)] @ replicate (n - 15) (Num (Fin 2)))
          @ [Num (Fin 2)]"
    unfolding A_def calculateATR_def Let_def tr tk s using assms
    by (simp add: line_atr_loop r)
  then have "A \<noteq> []" by simp
  then have "val_at A (int (length A) - 1) = last A" by (rule val_at_last)
  also have "\<dots> = Num (Fin 2)" unfolding a by (rule last_snoc)
  finally show ?thesis unfolding A_def .
qed

text \<open>The conditions on the last closes and volumes.\<close>

lemma six_up: "6 \<le> n \<Longrightarrow> [n - 6..<n] = [n - 6, n - 5, n - 4, n - 3, n - 2, n - 1]"
proof -
  assume "6 \<le> n"
  then obtain k where n: "n = k + 6" by (metis le_add_diff_inverse2)
  have "[k..<k + 6] = [k, k + 1, k + 2, k + 3, k + 4, k + 5]"
    by (simp add: upt_rec numeral_eq_Suc)
  then show ?thesis unfolding n by simp
qed

lemma line_consolidating:
  assumes "200 \<le> n"
  shows "isPriceConsolidating (map (\<lambda>t. Fin (1000 + real t)) [0..<n]) 6 (15 / 100)"
proof -
  have sl: "slice_from (map (\<lambda>t. Fin (1000 + real t)) [0..<n]) (js_trunc (- 6))
        = map (\<lambda>t. Fin (1000 + real t)) [n - 6, n - 5, n - 4, n - 3, n - 2, n - 1]"
  proof -
    have "js_trunc (- 6) = - 6" by (simp add: js_trunc_def)
    moreover have "nat (int n + - 6) = n - 6" using assms by arith
    ultimately have "slice_from (map (\<lambda>t. Fin (1000 + real t)) [0..<n]) (js_trunc (- 6))
        = map (\<lambda>t. Fin (1000 + real t)) [n - 6..<n]"
      by (simp add: slice_from_def drop_map)
    then show ?thesis using assms by (simp add: six_up)
  qed
  have mx: "js_max_list (map (\<lambda>t. Fin (1000 + real t)) [n - 6, n - 5, n - 4, n - 3, n - 2, n - 1])
        = Fin (1000 + real (n - 1))"
    using assms by (simp add: js_max_list_def js_max2_def)
  have mn: "js_min_list (map (\<lambda>t. Fin (1000 + real t)) [n - 6, n - 5, n - 4, n - 3, n - 2, n - 1])
        = Fin (1000 + real (n - 6))"
    using assms by (simp add: js_min_list_def js_min2_def)
  have r: "real (n - 1) - real (n - 6) = 5" using assms by (simp add: of_nat_diff)
  have p: "0 < 1000 + real (n - 1)"
    by (metis add_pos_nonneg of_nat_0_le_iff zero_less_numeral)
  have "5 / (1000 + real (n - 1)) \<le> 5 / 1000"
    using p by (intro divide_left_mono) simp_all
  also have "\<dots> \<le> 15 / 100" by simp
  finally have "5 / (1000 + real (n - 1)) \<le> 15 / 100" .
  moreover have "1000 + real (n - 1) \<noteq> 0" using p by simp
  ultimately show ?thesis
    unfolding isPriceConsolidating_def Let_def sl mx mn
    using assms by (simp add: js_sub_def r)
qed

lemma line_last_two:
  assumes "200 \<le> n"
  shows "to_num (num_at (map (\<lambda>t. Fin (1000 + real t)) [0..<n])
             (int (length (map (\<lambda>t. Fin (1000 + real t)) [0..<n])) - 1)) = Fin (999 + real n)"
    and "to_num (num_at (map (\<lambda>t. Fin (1000 + real t)) [0..<n])
             (int (length (map (\<lambda>t. Fin (1000 + real t)) [0..<n])) - 2)) = Fin (998 + real n)"
proof -
  have a: "nat (int n - 1) = n - 1" "nat (int n - 2) = n - 2" by arith+
  show "to_num (num_at (map (\<lambda>t. Fin (1000 + real t)) [0..<n])
             (int (length (map (\<lambda>t. Fin (1000 + real t)) [0..<n])) - 1)) = Fin (999 + real n)"
    using assms by (simp add: num_at_def a of_nat_diff)
  show "to_num (num_at (map (\<lambda>t. Fin (1000 + real t)) [0..<n])
             (int (length (map (\<lambda>t. Fin (1000 + real t)) [0..<n])) - 2)) = Fin (998 + real n)"
    using assms by (simp add: num_at_def a of_nat_diff)
qed

lemma line_change:
  assumes "200 \<le> n" "n \<le> 1000"
  shows "js_div (js_sub (Fin (999 + real n)) (Fin (998 + real n))) (Fin (998 + real n))
         = Fin (1 / (998 + real n))"
    and "1 / 2000 < 1 / (998 + real n)" and "1 / (998 + real n) \<le> 20 / 100"
proof -
  have p: "0 < 998 + real n" by (metis add_pos_nonneg of_nat_0_le_iff zero_less_numeral)
  show "js_div (js_sub (Fin (999 + real n)) (Fin (998 + real n))) (Fin (998 + real n))
         = Fin (1 / (998 + real n))"
    using p by (simp add: js_sub_def)
  have "998 + real n < 2000" using assms by simp
  then show "1 / 2000 < 1 / (998 + real n)"
    using p by (simp add: field_simps)
  have "1 / (998 + real n) \<le> 1 / 998"
    using p by (intro divide_left_mono) simp_all
  then show "1 / (998 + real n) \<le> 20 / 100" by simp
qed

lemma line_volume_increasing:
  assumes "200 \<le> n" "n \<le> 1000"
  shows "isVolumeIncreasing (map (\<lambda>t. Fin (1000 + real t)) [0..<n]) (1 / 2000)"
  unfolding isVolumeIncreasing_def Let_def line_last_two [OF assms(1)] line_change(1) [OF assms]
  using assms line_change(2) [OF assms] by (simp add: js_gt_def)

text \<open>Five conditions that hold give a score of at least 75.\<close>

lemma breakout_conditions_lower:
  assumes "cfg_ema200Required cfg"
    and "isPriceConsolidating closeData (cfg_consolidationPeriod cfg)
           (cfg_consolidationThreshold cfg)"
    and "val_at rsiData (int (length rsiData) - 1) \<noteq> Null"
    and "js_ge (to_num (val_at rsiData (int (length rsiData) - 1))) (Fin (cfg_rsiLowerThreshold cfg))"
    and "js_le (to_num (val_at rsiData (int (length rsiData) - 1))) (Fin (cfg_rsiUpperThreshold cfg))"
    and "val_at ema200 (int (length ema200) - 1) \<noteq> Null"
    and "js_gt (to_num (num_at closeData (int (length closeData) - 1)))
           (to_num (val_at ema200 (int (length ema200) - 1)))"
    and "isVolumeIncreasing volumeData (cfg_volumeIncreaseThreshold cfg)"
    and "js_ge (js_div (js_sub (to_num (num_at closeData (int (length closeData) - 1)))
                              (to_num (num_at closeData (int (length closeData) - 2))))
                      (to_num (num_at closeData (int (length closeData) - 2))))
           (Fin (cfg_minBreakoutPercent cfg))"
    and "js_le (js_div (js_sub (to_num (num_at closeData (int (length closeData) - 1)))
                              (to_num (num_at closeData (int (length closeData) - 2))))
                      (to_num (num_at closeData (int (length closeData) - 2))))
           (Fin (cfg_maxBreakoutPercent cfg))"
  shows "75 \<le> fst (breakout_conditions cfg closeData volumeData rsiData bbData ema200 obvData
                macdData bbBreakout)"
proof -
  have a: "\<And>c3 c4 c7 c8 c9 l1 l2 l3 l4 l5 l6 l7 l8 l9 l10.
      75 \<le> fst (add_signal True 15 l10 (add_signal c9 10 l9 (add_signal c8 15 l8
              (add_signal c7 15 l7 (add_signal True 15 l6 (add_signal True 10 l5
              (add_signal c4 20 l4 (add_signal c3 15 l3 (add_signal True 15 l2
              (add_signal True 20 l1 (0, [])))))))))))"
    by (simp add: add_signal_def)
  show ?thesis
    unfolding breakout_conditions_def Let_def
    using assms by (simp only: a simp_thms if_True)
qed

lemma analyzeBreakout_levels:
  assumes "calculateEMA (map (\<lambda>d. Fin (close d)) data) 200 = Inr ema200"
    and "calculateMACD (map (\<lambda>d. Fin (close d)) data) 12 26 9 = Inr macdData"
    and "detectBollingerBreakout (map (\<lambda>d. Fin (close d)) data)
           (calculateBollingerBands (map (\<lambda>d. Fin (close d)) data)
              (cfg_bollingerPeriod (analyze_config opts)) (Fin 2)) 10 = Inr bbBreakout"
    and "70 \<le> min 100 (fst (breakout_conditions (analyze_config opts)
           (map (\<lambda>d. Fin (close d)) data) (map (\<lambda>d. Fin (volume d)) data)
           (calculateRSI (map (\<lambda>d. Fin (close d)) data) 14)
           (calculateBollingerBands (map (\<lambda>d. Fin (close d)) data)
              (cfg_bollingerPeriod (analyze_config opts)) (Fin 2))
           ema200
           (calculateOBV (map (\<lambda>d. Fin (close d)) data) (map (\<lambda>d. Fin (volume d)) data))
           macdData bbBreakout))"
  shows "\<exists>r. analyzeBreakout data opts = Inr r \<and> isBreakoutCandidate r
    \<and> suggestedStopLoss r = fst (suggested_levels (map (\<lambda>d. Fin (close d)) data)
         (calculateATR (map (\<lambda>d. Fin (high d)) data) (map (\<lambda>d. Fin (low d)) data)
            (map (\<lambda>d. Fin (close d)) data) (cfg_atrPeriod (analyze_config opts))) True)
    \<and> suggestedTakeProfit r = snd (suggested_levels (map (\<lambda>d. Fin (close d)) data)
         (calculateATR (map (\<lambda>d. Fin (high d)) data) (map (\<lambda>d. Fin (low d)) data)
            (map (\<lambda>d. Fin (close d)) data) (cfg_atrPeriod (analyze_config opts))) True)"
  unfolding analyzeBreakout_def Let_def sum_case_Inr [OF assms(1)] sum_case_Inr [OF assms(2)]
    sum_case_Inr [OF assms(3)]
  using assms(4) by simp

lemma round4_nat: "round4 (Fin (real k)) = Fin (real k)"
proof -
  have "\<lfloor>real k * 10000 + 1 / 2\<rfloor> = int (k * 10000)"
    by (simp add: floor_eq_iff)
  then show ?thesis by (simp add: round4_def)
qed

lemma line_levels:
  assumes "200 \<le> n"
    and "val_at atrData (int (length atrData) - 1) = Num (Fin 2)"
  shows "suggested_levels (map (\<lambda>t. Fin (1000 + real t)) [0..<n]) atrData True
         = (Num (Fin (997 + real n)), Num (Fin (1005 + real n)))"
proof -
  have a: "997 + real n = real (997 + n)" "1005 + real n = real (1005 + n)" by simp_all
  have s: "js_sub (Fin (999 + real n)) (Fin 2) = Fin (real (997 + n))"
    by (simp add: js_sub_def)
  have t: "js_add (Fin (999 + real n))
             (js_mul (js_sub (Fin (999 + real n)) (Fin (real (997 + n)))) (Fin 3))
           = Fin (real (1005 + n))"
    by (simp add: js_sub_def)
  show ?thesis
    unfolding suggested_levels_def Let_def line_last_two(1) [OF assms(1)] assms(2) a
    by (simp only: to_num.simps s round4_nat t simp_thms if_True jsval.distinct)
qed

text \<open>Every prefix of 200 to 1000 candles of the rising history is a candidate.\<close>

lemma ramp_analysis:
  assumes "200 \<le> n" "n \<le> 1000"
  shows "\<exists>r. analyzeBreakout (ramp n) ramp_options = Inr r \<and> isBreakoutCandidate r
    \<and> suggestedStopLoss r = Num (Fin (997 + real n))
    \<and> suggestedTakeProfit r = Num (Fin (1005 + real n))"
proof -
  let ?cl = "map (\<lambda>t. Fin (1000 + real t)) [0..<n]"
  let ?cfg = "analyze_config ramp_options"
  have cfg: "cfg_ema200Required ?cfg" "cfg_consolidationPeriod ?cfg = 6"
    "cfg_consolidationThreshold ?cfg = 15 / 100" "cfg_rsiLowerThreshold ?cfg = 50"
    "cfg_rsiUpperThreshold ?cfg = 100" "cfg_volumeIncreaseThreshold ?cfg = 1 / 2000"
    "cfg_minBreakoutPercent ?cfg = 1 / 2000" "cfg_maxBreakoutPercent ?cfg = 20 / 100"
    "cfg_atrPeriod ?cfg = 14"
    by (simp_all add: ramp_options_eq)
  obtain ema200 e where ema: "calculateEMA ?cl 200 = Inr ema200"
    and ev: "val_at ema200 (int (length ema200) - 1) = Num (Fin e)" and eb: "e < 999 + real n"
    using line_ema [OF assms(1)] by blast
  obtain macdData where m: "calculateMACD ?cl 12 26 9 = Inr macdData"
    by (cases "calculateMACD ?cl 12 26 9") simp_all
  obtain bbBreakout where b: "detectBollingerBreakout ?cl
      (calculateBollingerBands ?cl (cfg_bollingerPeriod ?cfg) (Fin 2)) 10 = Inr bbBreakout"
    by (cases "detectBollingerBreakout ?cl
      (calculateBollingerBands ?cl (cfg_bollingerPeriod ?cfg) (Fin 2)) 10") simp_all
  have rsi: "val_at (calculateRSI ?cl 14) (int (length (calculateRSI ?cl 14)) - 1)
             = Num (Fin (100000 / 1001))"
  proof -
    have "n - 14 = Suc (n - 15)" using assms by arith
    then have "calculateRSI ?cl 14
        = (replicate 14 Null @ replicate (n - 15) (Num (Fin (100000 / 1001))))
          @ [Num (Fin (100000 / 1001))]"
      using assms line_rsi [of n 1000] by (simp add: replicate_append_same)
    then show ?thesis
      by (metis val_at_last last_snoc snoc_eq_iff_butlast)
  qed
  have sc: "75 \<le> fst (breakout_conditions ?cfg ?cl ?cl (calculateRSI ?cl 14)
              (calculateBollingerBands ?cl (cfg_bollingerPeriod ?cfg) (Fin 2)) ema200
              (calculateOBV ?cl ?cl) macdData bbBreakout)"
  proof (rule breakout_conditions_lower)
    show "cfg_ema200Required ?cfg" by (rule cfg)
    show "isPriceConsolidating ?cl (cfg_consolidationPeriod ?cfg) (cfg_consolidationThreshold ?cfg)"
      unfolding cfg by (rule line_consolidating [OF assms(1)])
    show "val_at (calculateRSI ?cl 14) (int (length (calculateRSI ?cl 14)) - 1) \<noteq> Null"
      unfolding rsi by simp
    show "js_ge (to_num (val_at (calculateRSI ?cl 14) (int (length (calculateRSI ?cl 14)) - 1)))
            (Fin (cfg_rsiLowerThreshold ?cfg))"
      unfolding rsi cfg by (simp add: js_ge_def)
    show "js_le (to_num (val_at (calculateRSI ?cl 14) (int (length (calculateRSI ?cl 14)) - 1)))
            (Fin (cfg_rsiUpperThreshold ?cfg))"
      unfolding rsi cfg by simp
    show "val_at ema200 (int (length ema200) - 1) \<noteq> Null"
      unfolding ev by simp
    show "js_gt (to_num (num_at ?cl (int (length ?cl) - 1)))
            (to_num (val_at ema200 (int (length ema200) - 1)))"
      unfolding ev line_last_two(1) [OF assms(1)] using eb by (simp add: js_gt_def)
    show "isVolumeIncreasing ?cl (cfg_volumeIncreaseThreshold ?cfg)"
      unfolding cfg by (rule line_volume_increasing [OF assms])
    show "js_ge (js_div (js_sub (to_num (num_at ?cl (int (length ?cl) - 1)))
                               (to_num (num_at ?cl (int (length ?cl) - 2))))
                       (to_num (num_at ?cl (int (length ?cl) - 2))))
            (Fin (cfg_minBreakoutPercent ?cfg))"
      unfolding cfg line_last_two [OF assms(1)] line_change(1) [OF assms]
      using line_change(2) [OF assms] by (simp add: js_ge_def)
    show "js_le (js_div (js_sub (to_num (num_at ?cl (int (length ?cl) - 1)))
                               (to_num (num_at ?cl (int (length ?cl) - 2))))
                       (to_num (num_at ?cl (int (length ?cl) - 2))))
            (Fin (cfg_maxBreakoutPercent ?cfg))"
      unfolding cfg line_last_two [OF assms(1)] line_change(1) [OF assms]
      using line_change(3) [OF assms] by simp
  qed
  have atr: "val_at (calculateATR (map (\<lambda>t. Fin (1001 + real t)) [0..<n])
           (map (\<lambda>t. Fin (999 + real t)) [0..<n]) ?cl 14)
           (int (length (calculateATR (map (\<lambda>t. Fin (1001 + real t)) [0..<n])
           (map (\<lambda>t. Fin (999 + real t)) [0..<n]) ?cl 14)) - 1) = Num (Fin 2)"
    using assms by (intro line_atr) simp
  have lv: "suggested_levels ?cl (calculateATR (map (\<lambda>t. Fin (1001 + real t)) [0..<n])
           (map (\<lambda>t. Fin (999 + real t)) [0..<n]) ?cl 14) True
         = (Num (Fin (997 + real n)), Num (Fin (1005 + real n)))"
    using assms(1) atr by (rule line_levels)
  have "\<exists>r. analyzeBreakout (ramp n) ramp_options = Inr r \<and> isBreakoutCandidate r
    \<and> suggestedStopLoss r = fst (suggested_levels (map (\<lambda>d. Fin (close d)) (ramp n))
         (calculateATR (map (\<lambda>d. Fin (high d)) (ramp n)) (map (\<lambda>d. Fin (low d)) (ramp n))
            (map (\<lambda>d. Fin (close d)) (ramp n)) (cfg_atrPeriod ?cfg)) True)
    \<and> suggestedTakeProfit r = snd (suggested_levels (map (\<lambda>d. Fin (close d)) (ramp n))
         (calculateATR (map (\<lambda>d. Fin (high d)) (ramp n)) (map (\<lambda>d. Fin (low d)) (ramp n))
            (map (\<lambda>d. Fin (close d)) (ramp n)) (cfg_atrPeriod ?cfg)) True)"
  proof (rule analyzeBreakout_levels)
    show "calculateEMA (map (\<lambda>d. Fin (close d)) (ramp n)) 200 = Inr ema200"
      unfolding ramp_closes by (rule ema)
    show "calculateMACD (map (\<lambda>d. Fin (close d)) (ramp n)) 12 26 9 = Inr macdData"
      unfolding ramp_closes by (rule m)
    show "detectBollingerBreakout (map (\<lambda>d. Fin (close d)) (ramp n))
           (calculateBollingerBands (map (\<lambda>d. Fin (close d)) (ramp n))
              (cfg_bollingerPeriod ?cfg) (Fin 2)) 10 = Inr bbBreakout"
      unfolding ramp_closes by (rule b)
    show "70 \<le> min 100 (fst (breakout_conditions ?cfg
           (map (\<lambda>d. Fin (close d)) (ramp n)) (map (\<lambda>d. Fin (volume d)) (ramp n))
           (calculateRSI (map (\<lambda>d. Fin (close d)) (ramp n)) 14)
           (calculateBollingerBands (map (\<lambda>d. Fin (close d)) (ramp n))
              (cfg_bollingerPeriod ?cfg) (Fin 2))
           ema200
           (calculateOBV (map (\<lambda>d. Fin (close d)) (ramp n)) (map (\<lambda>d. Fin (volume d)) (ramp n)))
           macdData bbBreakout))"
      unfolding ramp_closes ramp_volumes using sc by simp
  qed
  then show ?thesis
    unfolding ramp_closes ramp_highs ramp_lows cfg lv by simp
qed

text \<open>The trade entered at bar \<open>i\<close> takes its profit at bar \<open>i + 4\<close>.\<close>

lemma ramp_exit_scan:
  assumes "i + 20 < L"
  shows "exit_scan (ramp L) (Num (Fin (997 + real i))) (Num (Fin (1005 + real i))) i (i + 1)
           (Null, None, 0)
         = (Num (Fin (1005 + real i)), Some ''Take Profit'', 4)"
proof -
  have n: "ramp L ! Suc i = ramp_candle (Suc i)" "ramp L ! Suc (Suc i) = ramp_candle (Suc (Suc i))"
    "ramp L ! Suc (Suc (Suc i)) = ramp_candle (Suc (Suc (Suc i)))"
    "ramp L ! Suc (Suc (Suc (Suc i))) = ramp_candle (Suc (Suc (Suc (Suc i))))"
    using assms by (simp_all add: ramp_nth)
  show ?thesis
    using assms
    apply (subst exit_scan.simps)
    apply (simp add: n ramp_candle_def js_ge_def Let_def del: exit_scan.simps)
    apply (subst exit_scan.simps)
    apply (simp add: n ramp_candle_def js_ge_def Let_def del: exit_scan.simps)
    apply (subst exit_scan.simps)
    apply (simp add: n ramp_candle_def js_ge_def Let_def del: exit_scan.simps)
    apply (subst exit_scan.simps)
    apply (simp add: n ramp_candle_def js_ge_def Let_def del: exit_scan.simps)
    done
qed

lemma ramp_simulate_trade:
  assumes "i + 20 < L"
    and "suggestedStopLoss an = Num (Fin (997 + real i))"
    and "suggestedTakeProfit an = Num (Fin (1005 + real i))"
  shows "simulate_trade (ramp L) an i = ramp_trade i"
proof -
  have p: "1000 + real i \<noteq> 0"
    by (metis add_pos_nonneg less_numeral_extra(3) of_nat_0_le_iff zero_less_numeral)
  have n: "ramp L ! i = ramp_candle i" using assms(1) by (simp add: ramp_nth)
  show ?thesis
    unfolding simulate_trade_def Let_def assms(2,3) ramp_exit_scan [OF assms(1)] n
    using p by (simp add: ramp_trade_def ramp_candle_def js_sub_def)
qed

lemma ramp_record_trade:
  "record_trade (ramp_trade i) st =
     st\<lparr>bt_trades := bt_trades st @ [ramp_trade i], bt_winning := bt_winning st + 1,
        bt_totalProfit := js_add (bt_totalProfit st) (Fin (500 / (1000 + real i)))\<rparr>"
proof -
  have "0 < 500 / (1000 + real i)"
    by (intro divide_pos_pos add_pos_nonneg) simp_all
  then show ?thesis by (simp add: record_trade_def ramp_trade_def js_gt_def)
qed

lemma ramp_bt_step:
  assumes "200 \<le> i" "i + 20 < L" "L \<le> 1000"
  shows "bt_loop (ramp L) ramp_options i st
         = bt_loop (ramp L) ramp_options (i + 5) (record_trade (ramp_trade i) st)"
proof -
  have tk: "take i (ramp L) = ramp i" using assms by (intro take_ramp) simp
  obtain r where r: "analyzeBreakout (ramp i) ramp_options = Inr r" "isBreakoutCandidate r"
    "suggestedStopLoss r = Num (Fin (997 + real i))"
    "suggestedTakeProfit r = Num (Fin (1005 + real i))"
    using ramp_analysis [of i] assms by auto
  have t: "simulate_trade (ramp L) r i = ramp_trade i"
    using assms(2) r(3,4) by (rule ramp_simulate_trade)
  have b: "barsHeld (ramp_trade i) = 4" by (simp add: ramp_trade_def)
  show ?thesis
    using assms r(2)
    by (subst bt_loop.simps) (simp add: tk r(1) Let_def t b add.commute del: bt_loop.simps)
qed

lemma ramp_bt_stop:
  "L \<le> i + 20 \<Longrightarrow> bt_loop (ramp L) ramp_options i st = Inr st"
  by (subst bt_loop.simps) (simp del: bt_loop.simps)

text \<open>The backtest of 270 candles of the rising history: ten winning trades.\<close>

lemma ramp_backtest_loop:
  "bt_loop (ramp 270) ramp_options 200
     \<lparr>bt_trades = [], bt_winning = 0, bt_losing = 0, bt_totalProfit = Fin 0, bt_totalLoss = Fin 0\<rparr>
   = Inr \<lparr>bt_trades = map ramp_trade [200, 205, 210, 215, 220, 225, 230, 235, 240, 245],
          bt_winning = 10, bt_losing = 0,
          bt_totalProfit = Fin (500 / 1200 + 500 / 1205 + 500 / 1210 + 500 / 1215 + 500 / 1220
                                + 500 / 1225 + 500 / 1230 + 500 / 1235 + 500 / 1240 + 500 / 1245),
          bt_totalLoss = Fin 0\<rparr>"
  by (simp add: ramp_bt_step ramp_bt_stop ramp_record_trade del: bt_loop.simps)

lemma ramp_backtest:
  "backtestBreakoutStrategy (ramp 270) ramp_options
   = Inr (BacktestResults
       (bt_statistics
          \<lparr>bt_trades = map ramp_trade [200, 205, 210, 215, 220, 225, 230, 235, 240, 245],
           bt_winning = 10, bt_losing = 0,
           bt_totalProfit = Fin (500 / 1200 + 500 / 1205 + 500 / 1210 + 500 / 1215 + 500 / 1220
                                 + 500 / 1225 + 500 / 1230 + 500 / 1235 + 500 / 1240 + 500 / 1245),
           bt_totalLoss = Fin 0\<rparr>))"
  unfolding backtestBreakoutStrategy_def ramp_backtest_loop by simp

lemma ramp_score: "evaluateParameters (ramp 270) (initial_best ramp_params) = Inr (Fin 61)"
proof -
  have "evaluateParameters (ramp 270) (initial_best ramp_params)
        = (case backtestBreakoutStrategy (ramp 270) ramp_options of
             Inl e \<Rightarrow> Inl e
           | Inr (BacktestError msg) \<Rightarrow> Inr (Fin 0)
           | Inr (BacktestResults b) \<Rightarrow>
               if totalTrades b < 10 then Inr (Fin 0)
               else
                 let winRateScore = Fin (winRate b * (6 / 10));
                     profitFactorScore = js_min2 (js_mul (profitFactor b) (Fin 10)) (Fin 30);
                     tradesScore = Fin (real (min (totalTrades b) 100) / 10)
                 in Inr (js_add (js_add winRateScore profitFactorScore) tradesScore))"
    unfolding evaluateParameters_def ramp_options_def ..
  then show ?thesis
    unfolding ramp_backtest
    by (simp add: bt_statistics_def Let_def js_gt_def js_min2_def)
qed

text \<open>
  The theorem of C2 on 270 candles of the rising history: the backtest enters ten trades,
  at bars 200, 205, ..., 245, each held for four bars.
\<close>

theorem backtest_trades_do_not_overlap_witness:
  "\<exists>b. backtestBreakoutStrategy (ramp 270) ramp_options = Inr (BacktestResults b)
      \<and> map entryBar (trades b) = [200, 205, 210, 215, 220, 225, 230, 235, 240, 245]
      \<and> map barsHeld (trades b) = [4, 4, 4, 4, 4, 4, 4, 4, 4, 4]
      \<and> (\<forall>n. n + 1 < length (trades b) \<longrightarrow>
             entryBar (trades b ! n) + barsHeld (trades b ! n)
               \<le> entryBar (trades b ! (n + 1)))"
proof -
  have h: "250 \<le> length (ramp 270)" by simp
  obtain b where b: "backtestBreakoutStrategy (ramp 270) ramp_options = Inr (BacktestResults b)"
    and o: "\<forall>n. n + 1 < length (trades b) \<longrightarrow>
             entryBar (trades b ! n) + barsHeld (trades b ! n)
               \<le> entryBar (trades b ! (n + 1))"
    using backtest_trades_do_not_overlap [OF h, of ramp_options] by blast
  have t: "trades b = map ramp_trade [200, 205, 210, 215, 220, 225, 230, 235, 240, 245]"
    using b unfolding ramp_backtest by (auto simp add: bt_statistics_def Let_def)
  have e: "map entryBar (trades b) = [200, 205, 210, 215, 220, 225, 230, 235, 240, 245]"
    and d: "map barsHeld (trades b) = [4, 4, 4, 4, 4, 4, 4, 4, 4, 4]"
    unfolding t by (simp_all add: ramp_trade_def)
  show ?thesis
  proof (intro exI conjI)
    show "backtestBreakoutStrategy (ramp 270) ramp_options = Inr (BacktestResults b)"
      by (rule b)
    show "map entryBar (trades b) = [200, 205, 210, 215, 220, 225, 230, 235, 240, 245]"
      by (rule e)
    show "map barsHeld (trades b) = [4, 4, 4, 4, 4, 4, 4, 4, 4, 4]"
      by (rule d)
    show "\<forall>n. n + 1 < length (trades b) \<longrightarrow>
             entryBar (trades b ! n) + barsHeld (trades b ! n)
               \<le> entryBar (trades b ! (n + 1))"
      by (rule o)
  qed
qed

text \<open>
  The theorem of C10 on the same history: the initial parameters are scored 61 by a
  backtest with ten winning trades, and two generations of variations return parameters
  whose score is 61 or more.
\<close>

theorem optimizer_keeps_best_witness:
  "\<exists>r. evaluateParameters (ramp 270) (initial_best ramp_params) = Inr (Fin 61)
       \<and> optimizeParameters (ramp 270) ramp_params 2 half_draws = Inr r
       \<and> (score r = Fin 61 \<or> js_gt (score r) (Fin 61))
       \<and> evaluateParameters (ramp 270) (parameters r) = Inr (score r)"
  using optimizer_keeps_best [of "ramp 270" ramp_params 2 half_draws]
  unfolding ramp_score by auto

end
